theory Spec2Isabelle
  imports Complex_Main "HOL-Library.AList"
begin

section \<open>Numbers, built-ins and configuration tables\<close>

text \<open>
  A TypeScript \<open>number\<close> is modelled as a real: arithmetic is exact, so rounding of IEEE
  doubles, \<open>NaN\<close> and the infinities are outside the model. \<open>Math.floor\<close> and
  \<open>Math.round\<close> return the integer as a real again; \<open>Math.round\<close> rounds a half
  towards plus infinity.
\<close>

definition Math_floor :: "real \<Rightarrow> real" where
  "Math_floor x = of_int \<lfloor>x\<rfloor>"

definition Math_round :: "real \<Rightarrow> real" where
  "Math_round x = of_int \<lfloor>x + 1 / 2\<rfloor>"

definition Math_log10 :: "real \<Rightarrow> real" where
  "Math_log10 x = log 10 x"

text \<open>\<open>config.ts\<close>: the constants of \<open>CONFIG\<close> that the modelled code reads.\<close>

definition BASE_WEEKLY_REVENUE_PER_1K_FOLLOWERS_PER_HOUR :: real where
  "BASE_WEEKLY_REVENUE_PER_1K_FOLLOWERS_PER_HOUR = 0.5"

definition HOURS_MAX_PER_WEEK :: real where "HOURS_MAX_PER_WEEK = 60"
definition HOURS_DEFAULT_PER_WEEK :: real where "HOURS_DEFAULT_PER_WEEK = 30"
definition HOURS_MIN_PER_PLATFORM :: real where "HOURS_MIN_PER_PLATFORM = 5"
definition BURNOUT_HEAVY_THRESHOLD :: real where "BURNOUT_HEAVY_THRESHOLD = 45"
definition BURNOUT_LIGHT_THRESHOLD :: real where "BURNOUT_LIGHT_THRESHOLD = 15"
definition BREAK_RECOVERY_RATE :: real where "BREAK_RECOVERY_RATE = 25"
definition WEEKLY_NATURAL_RECOVERY :: real where "WEEKLY_NATURAL_RECOVERY = 3"
definition WEEKLY_NEW_STREAMERS_BASE :: nat where "WEEKLY_NEW_STREAMERS_BASE = 2"
definition WEEKLY_NEW_STREAMERS_MAX :: nat where "WEEKLY_NEW_STREAMERS_MAX = 5"
definition RETIREMENT_BURNOUT_THRESHOLD :: real where "RETIREMENT_BURNOUT_THRESHOLD = 90"
definition RETIREMENT_BURNOUT_WEEKS :: real where "RETIREMENT_BURNOUT_WEEKS = 4"
definition COMEBACK_MIN_WEEKS :: real where "COMEBACK_MIN_WEEKS = 20"
definition COMEBACK_CHANCE :: real where "COMEBACK_CHANCE = 0.05"
definition WEEKLY_SNAPSHOT_LIMIT :: nat where "WEEKLY_SNAPSHOT_LIMIT = 52"

datatype PlatformKey = SWITCH | YETUBE | OHFANS

datatype GenreKey =
  GAMING | VTUBER | IRL | MUSIC | ASMR | REACTION | EDUCATIONAL | FITNESS | CREATIVE | VARIETY

text \<open>\<open>PLATFORMS[p]\<close>, one function for each field that is read.\<close>

fun platform_name :: "PlatformKey \<Rightarrow> string" where
  "platform_name SWITCH = ''Switch''"
| "platform_name YETUBE = ''YeTube''"
| "platform_name OHFANS = ''OhFans''"

fun platform_revenueMultiplier :: "PlatformKey \<Rightarrow> real" where
  "platform_revenueMultiplier SWITCH = 1.0"
| "platform_revenueMultiplier YETUBE = 1.3"
| "platform_revenueMultiplier OHFANS = 2.5"

fun platform_growthMultiplier :: "PlatformKey \<Rightarrow> real" where
  "platform_growthMultiplier SWITCH = 1.0"
| "platform_growthMultiplier YETUBE = 1.5"
| "platform_growthMultiplier OHFANS = 0.5"

fun platform_volatility :: "PlatformKey \<Rightarrow> real" where
  "platform_volatility SWITCH = 0.05"
| "platform_volatility YETUBE = 0.08"
| "platform_volatility OHFANS = 0.03"

text \<open>\<open>GENRES[g]\<close>; \<open>Object.keys(GENRES)\<close> lists the keys in declaration order.\<close>

definition genreKeys :: "GenreKey list" where
  "genreKeys =
    [GAMING, VTUBER, IRL, MUSIC, ASMR, REACTION, EDUCATIONAL, FITNESS, CREATIVE, VARIETY]"

fun genre_baseRevenueMultiplier :: "GenreKey \<Rightarrow> real" where
  "genre_baseRevenueMultiplier GAMING = 1.0"
| "genre_baseRevenueMultiplier VTUBER = 1.1"
| "genre_baseRevenueMultiplier IRL = 0.9"
| "genre_baseRevenueMultiplier MUSIC = 0.8"
| "genre_baseRevenueMultiplier ASMR = 1.2"
| "genre_baseRevenueMultiplier REACTION = 1.0"
| "genre_baseRevenueMultiplier EDUCATIONAL = 0.7"
| "genre_baseRevenueMultiplier FITNESS = 1.0"
| "genre_baseRevenueMultiplier CREATIVE = 0.8"
| "genre_baseRevenueMultiplier VARIETY = 0.9"

fun genre_growthRate :: "GenreKey \<Rightarrow> real" where
  "genre_growthRate GAMING = 1.0"
| "genre_growthRate VTUBER = 0.7"
| "genre_growthRate IRL = 1.4"
| "genre_growthRate MUSIC = 0.6"
| "genre_growthRate ASMR = 0.5"
| "genre_growthRate REACTION = 1.6"
| "genre_growthRate EDUCATIONAL = 0.4"
| "genre_growthRate FITNESS = 0.9"
| "genre_growthRate CREATIVE = 0.5"
| "genre_growthRate VARIETY = 1.1"

fun genre_platformAffinity :: "GenreKey \<Rightarrow> PlatformKey \<Rightarrow> real" where
  "genre_platformAffinity GAMING SWITCH = 1.2"
| "genre_platformAffinity GAMING YETUBE = 1.0"
| "genre_platformAffinity GAMING OHFANS = 0.5"
| "genre_platformAffinity VTUBER SWITCH = 1.3"
| "genre_platformAffinity VTUBER YETUBE = 1.1"
| "genre_platformAffinity VTUBER OHFANS = 0.8"
| "genre_platformAffinity IRL SWITCH = 1.2"
| "genre_platformAffinity IRL YETUBE = 0.8"
| "genre_platformAffinity IRL OHFANS = 1.0"
| "genre_platformAffinity MUSIC SWITCH = 0.8"
| "genre_platformAffinity MUSIC YETUBE = 1.5"
| "genre_platformAffinity MUSIC OHFANS = 0.6"
| "genre_platformAffinity ASMR SWITCH = 0.7"
| "genre_platformAffinity ASMR YETUBE = 1.0"
| "genre_platformAffinity ASMR OHFANS = 1.8"
| "genre_platformAffinity REACTION SWITCH = 0.9"
| "genre_platformAffinity REACTION YETUBE = 1.4"
| "genre_platformAffinity REACTION OHFANS = 0.4"
| "genre_platformAffinity EDUCATIONAL SWITCH = 0.5"
| "genre_platformAffinity EDUCATIONAL YETUBE = 1.6"
| "genre_platformAffinity EDUCATIONAL OHFANS = 0.3"
| "genre_platformAffinity FITNESS SWITCH = 0.6"
| "genre_platformAffinity FITNESS YETUBE = 1.3"
| "genre_platformAffinity FITNESS OHFANS = 1.4"
| "genre_platformAffinity CREATIVE SWITCH = 1.1"
| "genre_platformAffinity CREATIVE YETUBE = 1.0"
| "genre_platformAffinity CREATIVE OHFANS = 1.2"
| "genre_platformAffinity VARIETY SWITCH = 1.0"
| "genre_platformAffinity VARIETY YETUBE = 1.0"
| "genre_platformAffinity VARIETY OHFANS = 0.8"

text \<open>\<open>genreData.platformAffinity[p] || 1.0\<close>: a zero affinity falls back to 1.\<close>

definition affinity_or_1 :: "GenreKey \<Rightarrow> PlatformKey \<Rightarrow> real" where
  "affinity_or_1 g p = (if genre_platformAffinity g p = 0 then 1.0 else genre_platformAffinity g p)"

section \<open>Contracts and negotiation (\<open>entities/Contract.ts\<close>)\<close>

record ContractTerms =
  signingBonus :: real
  revenueSplit :: real
  lengthDays :: real
  exclusivity :: bool

datatype Mood = eager | neutral | hesitant | insulted

record NegotiationState =
  round' :: real
  maxRounds :: real
  streamerMood :: Mood
  currentOffer :: ContractTerms
  streamerExpectations :: ContractTerms
  lastCounterOffer :: "ContractTerms option"

definition generateExpectations :: "real \<Rightarrow> real \<Rightarrow> real \<Rightarrow> ContractTerms" where
  "generateExpectations followers charisma consistency =
    (let baseBonus = Math_floor (followers / 50) + 200;
         charismaMultiplier = 1 + (charisma - 5) * 0.1;
         statAvg = (charisma + consistency) / 2;
         desiredAgencyCut = max 0.2 (min 0.5 (0.5 - (statAvg - 5) * 0.03));
         baseDays = (if statAvg > 7 then 30 else if statAvg > 4 then 60 else 90)
     in \<lparr> signingBonus = Math_floor (baseBonus * charismaMultiplier),
          revenueSplit = Math_round (desiredAgencyCut * 100) / 100,
          lengthDays = baseDays,
          exclusivity = (followers < 10000) \<rparr>)"

text \<open>
  \<open>evaluateOffer\<close> divides by the expected bonus and the expected length; both are
  positive for every expectation that \<open>generateExpectations\<close> builds.
\<close>

definition evaluateOffer :: "ContractTerms \<Rightarrow> ContractTerms \<Rightarrow> real" where
  "evaluateOffer offer expectations =
    (let score0 = 50;
         bonusDiff = (signingBonus offer - signingBonus expectations) / signingBonus expectations;
         score1 = score0 + bonusDiff * 30;
         splitDiff = (revenueSplit expectations - revenueSplit offer) * 100;
         score2 = score1 + splitDiff * 2;
         lengthDiff = (lengthDays expectations - lengthDays offer) / lengthDays expectations;
         score3 = score2 + lengthDiff * 15;
         score4 = (if \<not> exclusivity expectations \<and> exclusivity offer then score3 - 15
                   else if exclusivity expectations \<and> \<not> exclusivity offer then score3 + 10
                   else score3)
     in max 0 (min 100 score4))"

definition getMood :: "real \<Rightarrow> Mood" where
  "getMood score =
    (if score \<ge> 70 then eager
     else if score \<ge> 45 then neutral
     else if score \<ge> 25 then hesitant
     else insulted)"

definition willAccept :: "real \<Rightarrow> real \<Rightarrow> bool" where
  "willAccept score rnd =
    (let roundBonus = rnd * 5;
         threshold = 55 - roundBonus
     in score \<ge> threshold)"

definition willWalk :: "real \<Rightarrow> real \<Rightarrow> bool" where
  "willWalk score rnd =
    (if rnd = 1 \<and> score < 15 then True
     else if rnd = 2 \<and> score < 20 then True
     else if rnd \<ge> 3 \<and> score < 30 then True
     else False)"

definition generateCounterOffer :: "ContractTerms \<Rightarrow> ContractTerms \<Rightarrow> real \<Rightarrow> ContractTerms" where
  "generateCounterOffer cur expectations rnd =
    (let blend = 0.3 + rnd * 0.1
     in \<lparr> signingBonus =
            Math_floor (signingBonus cur * blend + signingBonus expectations * (1 - blend) * 1.1),
          revenueSplit =
            Math_round
              ((revenueSplit cur * blend + revenueSplit expectations * (1 - blend) * 0.95) * 100)
              / 100,
          lengthDays = Math_floor (lengthDays cur * blend + lengthDays expectations * (1 - blend)),
          exclusivity = (if rnd > 2 then exclusivity cur else exclusivity expectations) \<rparr>)"

section \<open>The environment: \<open>Math.random()\<close> and \<open>Date.now()\<close>\<close>

text \<open>
  The source draws from the ambient \<open>Math.random()\<close> and reads the wall clock with
  \<open>Date.now()\<close>. Both are inputs of the model: a random sequence with the position of
  the next draw (a seeded generator: the seed fixes the sequence, the state is the
  position), and a sequence of clock readings in milliseconds with its position.
\<close>

record Env =
  rand :: "nat \<Rightarrow> real"
  rpos :: nat
  clock :: "nat \<Rightarrow> nat"
  cpos :: nat

definition Math_random :: "Env \<Rightarrow> real \<times> Env" where
  "Math_random e = (rand e (rpos e), e\<lparr>rpos := Suc (rpos e)\<rparr>)"

definition Date_now :: "Env \<Rightarrow> nat \<times> Env" where
  "Date_now e = (clock e (cpos e), e\<lparr>cpos := Suc (cpos e)\<rparr>)"

text \<open>Decimal rendering of a natural number, as a template literal prints an integer.\<close>

definition digit_char :: "nat \<Rightarrow> char" where
  "digit_char d = ''0123456789abcdefghijklmnopqrstuvwxyz'' ! d"

fun nat_digits :: "nat \<Rightarrow> nat \<Rightarrow> string" where
  "nat_digits 0 n = []"
| "nat_digits (Suc fuel) n =
    (if n < 10 then [digit_char n] else nat_digits fuel (n div 10) @ [digit_char (n mod 10)])"

definition show_nat :: "nat \<Rightarrow> string" where
  "show_nat n = nat_digits (Suc n) n"

text \<open>
  \<open>x.toString(36).substr(2, 9)\<close> for \<open>x\<close> in \<open>[0, 1)\<close>: the digits after \<open>0.\<close> of the
  base-36 expansion, at most nine of them, ending where the expansion ends.
\<close>

fun base36_frac :: "nat \<Rightarrow> real \<Rightarrow> string" where
  "base36_frac 0 x = []"
| "base36_frac (Suc n) x =
    (if x = 0 then []
     else digit_char (nat \<lfloor>x * 36\<rfloor>) # base36_frac n (x * 36 - of_int \<lfloor>x * 36\<rfloor>))"

definition random_suffix :: "real \<Rightarrow> string" where
  "random_suffix x = base36_frac 9 x"

text \<open>\<open>xs[Math.floor(r * xs.length)]\<close>, with the default for an index out of range.\<close>

definition pick :: "'a list \<Rightarrow> 'a \<Rightarrow> real \<Rightarrow> 'a" where
  "pick xs d r =
    (let i = \<lfloor>r * real (length xs)\<rfloor>
     in if 0 \<le> i \<and> nat i < length xs then xs ! nat i else d)"

section \<open>Streamers (\<open>entities/Streamer.ts\<close>, \<open>entities/WeeklySchedule.ts\<close>)\<close>

record StreamerStats =
  charisma :: real
  consistency :: real
  dramaRisk :: real
  skill :: real
  adaptability :: real
  loyalty :: real
  ambition :: real

text \<open>
  \<open>age\<close> and \<open>experienceYears\<close> are read with \<open>??\<close> defaults, so a missing value
  is part of the data; \<open>revenueSplit\<close> of the streamer is \<open>revenueSplit_s\<close> here.
\<close>

record StreamerData =
  id_s :: string
  name_s :: string
  genre :: GenreKey
  platform :: PlatformKey
  followers :: real
  stats :: StreamerStats
  traits :: "string list"
  burnout :: real
  avatarColor :: string
  contractEndDay :: real
  revenueSplit_s :: real
  signedOnDay :: real
  age :: "real option"
  experienceYears :: "real option"

record PlatformAllocation =
  platform_al :: PlatformKey
  hoursPerWeek :: real

record WeeklySchedule =
  streamerId :: string
  totalHoursPerWeek :: real
  platformAllocations :: "PlatformAllocation list"
  takingBreak :: bool
  sponsorshipOptIn :: bool

record WeeklyGrowthResult =
  followersBefore :: real
  followersAfter :: real
  followerChange :: real
  burnoutBefore :: real
  burnoutAfter :: real
  burnoutChange :: real
  viewsGenerated :: real

definition getBurnoutPenalty :: "'a StreamerData_scheme \<Rightarrow> real" where
  "getBurnoutPenalty s =
    (if burnout s \<le> 50 then 1 - (burnout s / 50) * 0.1
     else if burnout s \<le> 70 then 0.9 - ((burnout s - 50) / 20) * 0.15
     else if burnout s \<le> 90 then 0.75 - ((burnout s - 70) / 20) * 0.2
     else 0.55 - ((burnout s - 90) / 10) * 0.15)"

text \<open>The revenue of one platform allocation, the body of the loop of
  \<open>getWeeklyStreamingRevenue\<close>.\<close>

definition platformRevenue :: "'a StreamerData_scheme \<Rightarrow> PlatformAllocation \<Rightarrow> real" where
  "platformRevenue s a =
    (let baseRevenue =
           (followers s / 1000) * hoursPerWeek a * BASE_WEEKLY_REVENUE_PER_1K_FOLLOWERS_PER_HOUR;
         platformMult = platform_revenueMultiplier (platform_al a);
         genreMult = genre_baseRevenueMultiplier (genre s);
         affinityBonus = affinity_or_1 (genre s) (platform_al a);
         charismaBonus = 1 + (charisma (stats s) - 5) * 0.08;
         skillBonus = 1 + (skill (stats s) - 5) * 0.06;
         consistencyBonus = 1 + (consistency (stats s) - 5) * 0.04;
         burnoutPenalty = getBurnoutPenalty s;
         hoursEfficiency =
           (if hoursPerWeek a > BURNOUT_HEAVY_THRESHOLD
            then 1 - ((hoursPerWeek a - BURNOUT_HEAVY_THRESHOLD) * 0.015) else 1)
     in baseRevenue * platformMult * genreMult * affinityBonus
          * charismaBonus * skillBonus * consistencyBonus * burnoutPenalty * hoursEfficiency)"

definition totalStreamingRevenue :: "'a StreamerData_scheme \<Rightarrow> WeeklySchedule \<Rightarrow> real" where
  "totalStreamingRevenue s schedule =
    fold (\<lambda>a totalRevenue.
            if hoursPerWeek a < HOURS_MIN_PER_PLATFORM then totalRevenue
            else totalRevenue + platformRevenue s a)
         (platformAllocations schedule) 0"

definition getWeeklyStreamingRevenue :: "'a StreamerData_scheme \<Rightarrow> WeeklySchedule \<Rightarrow> real" where
  "getWeeklyStreamingRevenue s schedule =
    (if takingBreak schedule then 0
     else Math_floor (totalStreamingRevenue s schedule * revenueSplit_s s))"

definition getEstimatedWeeklyRevenue :: "'a StreamerData_scheme \<Rightarrow> real" where
  "getEstimatedWeeklyRevenue s =
    getWeeklyStreamingRevenue s
      \<lparr> streamerId = id_s s,
        totalHoursPerWeek = HOURS_DEFAULT_PER_WEEK,
        platformAllocations =
          [\<lparr> platform_al = platform s, hoursPerWeek = HOURS_DEFAULT_PER_WEEK \<rparr>],
        takingBreak = False,
        sponsorshipOptIn = True \<rparr>"

text \<open>
  \<open>getWeeklyViews\<close> and \<open>calculateWeeklyGrowth\<close> fill a \<open>Map\<close> keyed by platform:
  an association list where \<open>set\<close> overwrites an existing key in place.
\<close>

definition viewsOn :: "'a StreamerData_scheme \<Rightarrow> PlatformAllocation \<Rightarrow> Env \<Rightarrow> real \<times> Env" where
  "viewsOn s a e =
    (let hoursRatio = hoursPerWeek a / HOURS_DEFAULT_PER_WEEK;
         (r1, e1) = Math_random e;
         baseViews = followers s * (3 + r1 * 4) * hoursRatio;
         (r2, e2) = Math_random e1;
         volatilityFactor = 1 + (r2 - 0.5) * platform_volatility (platform_al a) * 10;
         charismaBonus = 1 + (charisma (stats s) - 5) * 0.1
     in (Math_floor (baseViews * volatilityFactor * charismaBonus), e2))"

fun viewsLoop ::
  "'a StreamerData_scheme \<Rightarrow> PlatformAllocation list \<Rightarrow> (PlatformKey \<times> real) list \<Rightarrow> Env
    \<Rightarrow> (PlatformKey \<times> real) list \<times> Env" where
  "viewsLoop s [] m e = (m, e)"
| "viewsLoop s (a # as) m e =
    (if hoursPerWeek a < HOURS_MIN_PER_PLATFORM then viewsLoop s as m e
     else (let (v, e') = viewsOn s a e
           in viewsLoop s as (AList.update (platform_al a) v m) e'))"

definition getWeeklyViews ::
  "'a StreamerData_scheme \<Rightarrow> WeeklySchedule \<Rightarrow> Env \<Rightarrow> (PlatformKey \<times> real) list \<times> Env" where
  "getWeeklyViews s schedule e =
    (if takingBreak schedule then ([], e)
     else viewsLoop s (platformAllocations schedule) [] e)"

definition growthOn ::
  "'a StreamerData_scheme \<Rightarrow> WeeklySchedule \<Rightarrow> PlatformAllocation \<Rightarrow> Env \<Rightarrow> real \<times> Env" where
  "growthOn s schedule a e =
    (let hoursRatio = min (hoursPerWeek a / HOURS_MAX_PER_WEEK) 1;
         baseGrowth = 0.01 + (hoursRatio * 0.02);
         growthRate1 = baseGrowth * platform_growthMultiplier (platform_al a);
         growthRate2 = growthRate1 * genre_growthRate (genre s);
         growthRate3 = growthRate2 * affinity_or_1 (genre s) (platform_al a);
         charismaBonus = (charisma (stats s) - 5) * 0.005;
         adaptBonus = (adaptability (stats s) - 5) * 0.003;
         ambitionBonus = (ambition (stats s) - 5) * 0.004;
         growthRate4 = growthRate3 + (charismaBonus + adaptBonus + ambitionBonus);
         growthRate5 = growthRate4 * getBurnoutPenalty s;
         (r, e') = Math_random e;
         volatility = (r - 0.5) * platform_volatility (platform_al a) * 2;
         growthRate6 = growthRate5 + volatility;
         ag = (case age s of None \<Rightarrow> 25 | Some y \<Rightarrow> y);
         ageModifier =
           (if ag \<le> 25 then 1.15 - (ag - 18) * 0.02
            else if ag \<le> 35 then 1.0
            else if ag \<le> 45 then 1.0 - (ag - 35) * 0.01
            else max 0.75 (0.9 - (ag - 45) * 0.01));
         growthRate7 = growthRate6 * ageModifier;
         growthRate8 =
           (if followers s > 100000
            then growthRate7 - Math_log10 (followers s / 100000) * 0.01
            else if followers s < 10000 then growthRate7 * 1.3
            else growthRate7);
         platformWeight = hoursPerWeek a / totalHoursPerWeek schedule
     in (Math_floor (followers s * growthRate8 * platformWeight), e'))"

fun growthLoop ::
  "'a StreamerData_scheme \<Rightarrow> WeeklySchedule \<Rightarrow> PlatformAllocation list
    \<Rightarrow> (PlatformKey \<times> real) list \<Rightarrow> Env \<Rightarrow> (PlatformKey \<times> real) list \<times> Env" where
  "growthLoop s schedule [] m e = (m, e)"
| "growthLoop s schedule (a # as) m e =
    (if hoursPerWeek a < HOURS_MIN_PER_PLATFORM then growthLoop s schedule as m e
     else (let (g, e') = growthOn s schedule a e
           in growthLoop s schedule as (AList.update (platform_al a) g m) e'))"

definition calculateWeeklyGrowth ::
  "'a StreamerData_scheme \<Rightarrow> WeeklySchedule \<Rightarrow> Env \<Rightarrow> (PlatformKey \<times> real) list \<times> Env" where
  "calculateWeeklyGrowth s schedule e =
    (if takingBreak schedule then ([], e)
     else growthLoop s schedule (platformAllocations schedule) [] e)"

definition calculateBurnoutChange :: "'a StreamerData_scheme \<Rightarrow> WeeklySchedule \<Rightarrow> real" where
  "calculateBurnoutChange s schedule =
    (if takingBreak schedule then - BREAK_RECOVERY_RATE
     else
      (let totalHours = totalHoursPerWeek schedule;
           burnoutChange1 =
             (if totalHours > BURNOUT_HEAVY_THRESHOLD
              then 0 + (totalHours - BURNOUT_HEAVY_THRESHOLD) * 1.5
              else if totalHours < BURNOUT_LIGHT_THRESHOLD then 0 - 5
              else 0);
           consistencyFactor = 1 + (consistency (stats s) - 5) * 0.1;
           burnoutChange2 = burnoutChange1 * consistencyFactor
       in burnoutChange2 - WEEKLY_NATURAL_RECOVERY))"

text \<open>\<open>applyWeeklyChanges\<close> returns the mutated streamer with the result record.\<close>

definition applyWeeklyChanges ::
  "'a StreamerData_scheme \<Rightarrow> WeeklySchedule \<Rightarrow> Env
    \<Rightarrow> (WeeklyGrowthResult \<times> 'a StreamerData_scheme) \<times> Env" where
  "applyWeeklyChanges s schedule e =
    (let followersBefore0 = followers s;
         burnoutBefore0 = burnout s;
         (growthByPlatform, e1) = calculateWeeklyGrowth s schedule e;
         (viewsByPlatform, e2) = getWeeklyViews s schedule e1;
         burnoutChange0 = calculateBurnoutChange s schedule;
         totalFollowerChange = fold (\<lambda>change total. total + change) (map snd growthByPlatform) 0;
         totalViews = fold (\<lambda>views total. total + views) (map snd viewsByPlatform) 0;
         s' = s\<lparr> followers := max 10 (followers s + totalFollowerChange),
                 burnout := max 0 (min 100 (burnout s + burnoutChange0)) \<rparr>
     in ((\<lparr> followersBefore = followersBefore0,
             followersAfter = followers s',
             followerChange = followers s' - followersBefore0,
             burnoutBefore = burnoutBefore0,
             burnoutAfter = burnout s',
             burnoutChange = burnout s' - burnoutBefore0,
             viewsGenerated = totalViews \<rparr>, s'), e2))"

section \<open>The scouting scene (\<open>scenes/ScoutScene.ts\<close>) and the player's agency\<close>

text \<open>
  The fields of the player's \<open>Agency\<close> that the scene touches. The saved negotiation
  holds a reference to the scene's own negotiation object, so only its streamer id and
  platform are stored apart.
\<close>

record Agency =
  money_p :: real
  roster_p :: "StreamerData list"
  streamerPool :: "StreamerData list"
  currentDay :: real
  activeNegotiation :: "(string \<times> PlatformKey) option"

record ScoutScene =
  prospects :: "StreamerData list"
  currentProspect :: "StreamerData option"
  negotiationState :: "NegotiationState option"
  selectedPlatform :: PlatformKey
  agency :: Agency

datatype OfferOutcome = NotNegotiating | CannotAfford | Walked | Accepted | Countered

definition spendMoney :: "real \<Rightarrow> Agency \<Rightarrow> Agency" where
  "spendMoney amount a = (if money_p a \<ge> amount then a\<lparr>money_p := money_p a - amount\<rparr> else a)"

definition removeFromPool :: "string \<Rightarrow> Agency \<Rightarrow> Agency" where
  "removeFromPool i a = a\<lparr>streamerPool := filter (\<lambda>s. id_s s \<noteq> i) (streamerPool a)\<rparr>"

definition startNegotiation :: "StreamerData \<Rightarrow> ScoutScene \<Rightarrow> ScoutScene" where
  "startNegotiation streamer sc =
    (let expectations =
           generateExpectations (followers streamer) (charisma (stats streamer))
             (consistency (stats streamer));
         initialOffer =
           \<lparr> signingBonus = Math_floor (signingBonus expectations * 0.8),
             revenueSplit = min 0.5 (revenueSplit expectations + 0.1),
             lengthDays = 60,
             exclusivity = exclusivity expectations \<rparr>
     in sc\<lparr> currentProspect := Some streamer,
             negotiationState := Some
               \<lparr> round' = 1, maxRounds = 4, streamerMood = neutral,
                 currentOffer = initialOffer, streamerExpectations = expectations,
                 lastCounterOffer = None \<rparr>,
             agency := (agency sc)\<lparr>activeNegotiation := Some (id_s streamer, selectedPlatform sc)\<rparr> \<rparr>)"

definition saveNegotiationState :: "ScoutScene \<Rightarrow> ScoutScene" where
  "saveNegotiationState sc =
    (case (currentProspect sc, negotiationState sc) of
       (Some p, Some st) \<Rightarrow>
         sc\<lparr>agency := (agency sc)\<lparr>activeNegotiation := Some (id_s p, selectedPlatform sc)\<rparr>\<rparr>
     | _ \<Rightarrow> sc)"

definition endNegotiation :: "bool \<Rightarrow> ScoutScene \<Rightarrow> ScoutScene" where
  "endNegotiation signed sc =
    (let sc1 = sc\<lparr>agency := (agency sc)\<lparr>activeNegotiation := None\<rparr>\<rparr>;
         sc2 = (case currentProspect sc1 of
                  Some p \<Rightarrow>
                    if signed
                    then sc1\<lparr>prospects := filter (\<lambda>q. id_s q \<noteq> id_s p) (prospects sc1)\<rparr>
                    else sc1
                | None \<Rightarrow> sc1)
     in sc2\<lparr>currentProspect := None, negotiationState := None\<rparr>)"

definition signDeal :: "ContractTerms \<Rightarrow> ScoutScene \<Rightarrow> ScoutScene" where
  "signDeal terms sc =
    (case currentProspect sc of
       None \<Rightarrow> sc
     | Some streamer0 \<Rightarrow>
        (let a = agency sc;
             streamer = streamer0\<lparr> revenueSplit_s := revenueSplit terms,
                                   contractEndDay := currentDay a + lengthDays terms,
                                   signedOnDay := currentDay a \<rparr>;
             a1 = spendMoney (signingBonus terms) a;
             a2 = removeFromPool (id_s streamer) a1;
             a3 = a2\<lparr>roster_p := roster_p a2 @ [streamer]\<rparr>
         in endNegotiation True (sc\<lparr>currentProspect := Some streamer, agency := a3\<rparr>)))"

text \<open>
  \<open>makeOffer\<close>: one submitted offer. The result dialogs of the source run their
  continuation when dismissed; the model runs it at once (\<open>endNegotiation\<close> after a
  walk, \<open>signDeal\<close> after an acceptance).
\<close>

definition makeOffer :: "ContractTerms \<Rightarrow> ScoutScene \<Rightarrow> OfferOutcome \<times> ScoutScene" where
  "makeOffer terms sc =
    (case (currentProspect sc, negotiationState sc) of
       (Some streamer, Some state) \<Rightarrow>
         if signingBonus terms > money_p (agency sc) then (CannotAfford, sc)
         else
          (let score = evaluateOffer terms (streamerExpectations state);
               mood = getMood score;
               state1 = state\<lparr>streamerMood := mood, currentOffer := terms\<rparr>;
               sc1 = sc\<lparr>negotiationState := Some state1\<rparr>
           in if willWalk score (round' state1) then (Walked, endNegotiation False sc1)
              else if willAccept score (round' state1) then (Accepted, signDeal terms sc1)
              else if round' state1 \<ge> maxRounds state1 then
                (let counter = generateCounterOffer terms (streamerExpectations state1) (round' state1);
                     state2 = state1\<lparr> lastCounterOffer := Some counter,
                                      currentOffer := counter,
                                      round' := round' state1 + 1 \<rparr>
                 in (Countered, saveNegotiationState (sc1\<lparr>negotiationState := Some state2\<rparr>)))
              else
                (let counter = generateCounterOffer terms (streamerExpectations state1) (round' state1);
                     state2 = state1\<lparr> lastCounterOffer := Some counter,
                                      currentOffer := terms,
                                      round' := round' state1 + 1 \<rparr>
                 in (Countered, saveNegotiationState (sc1\<lparr>negotiationState := Some state2\<rparr>))))
     | _ \<Rightarrow> (NotNegotiating, sc))"

text \<open>The acquirer's own exit, \<open>walkAway(false)\<close>: the negotiation is dropped.\<close>

definition walkAway :: "ScoutScene \<Rightarrow> ScoutScene" where
  "walkAway sc = endNegotiation False sc"

section \<open>The world state (\<open>world/WorldState.ts\<close>)\<close>

record StreamerWorldData = StreamerData +
  agencyId :: "string option"
  careerWeeks :: real
  peakFollowers :: real
  weeklyImpressions :: real
  lastWeekFollowers :: real
  consecutiveBurnoutWeeks :: real
  consecutiveDeclineWeeks :: real
  retiredWeek :: "real option"

datatype AgencyStrategy = aggressive | conservative | niche | balanced

record AIAgencyData =
  id_a :: string
  name_a :: string
  money :: real
  reputation :: real
  roster :: "string list"
  strategy :: AgencyStrategy
  focusGenres :: "GenreKey list"
  focusPlatforms :: "PlatformKey list"
  color :: string
  maxRoster :: real
  totalEarnings :: real
  weeklyRevenue :: real

datatype TrendCategory = platform_trend | genre_trend | global_trend | economic_trend

record WorldTrend =
  id_t :: string
  name_t :: string
  description_t :: string
  category :: TrendCategory
  affectedGenres :: "GenreKey list"
  affectedPlatforms :: "PlatformKey list"
  followerMultiplier :: real
  revenueMultiplier :: real
  durationWeeks :: real
  weeksRemaining :: real

datatype NewsType = milestone | signing | retirement | comeback | trend | ranking

text \<open>
  A news event without its \<open>title\<close> and \<open>description\<close>: the two are flavour text,
  built from names that are in the state already, and no decision reads them.
\<close>

record NewsEvent =
  id_n :: string
  weekNumber_n :: real
  type_n :: NewsType
  streamerId_n :: "string option"
  agencyId_n :: "string option"

record TopStreamer =
  id_top :: string
  name_top :: string
  followers_top :: real
  growth :: real

record AgencyRanking =
  id_rank :: string
  name_rank :: string
  score_rank :: real
  change :: real

record WeeklySnapshot =
  weekNumber_sn :: real
  topStreamers :: "TopStreamer list"
  agencyRankings :: "AgencyRanking list"
  totalActiveStreamers :: nat
  totalFreeAgents :: nat
  newStreamers_sn :: "string list"
  retirements_sn :: "string list"
  comebacks_sn :: "string list"
  activeTrendIds :: "string list"
  newsEvents_sn :: "NewsEvent list"

text \<open>
  \<open>streamers\<close> is a a record keyed by string that every insertion of the
  source fills with \<open>streamers[s.id] = s\<close>: it is the list of its values in insertion
  order (the order of \<open>Object.values\<close> for keys that are not integer-like), looked up by
  the value's own id.
\<close>

record WorldStateData =
  initialized :: bool
  weekNumber :: real
  dayOfWeek :: real
  streamers :: "StreamerWorldData list"
  agencies :: "AIAgencyData list"
  freeAgentIds :: "string list"
  retiredIds :: "string list"
  activeTrends :: "WorldTrend list"
  weeklySnapshots :: "WeeklySnapshot list"
  newsEvents :: "NewsEvent list"

definition getStreamer :: "WorldStateData \<Rightarrow> string \<Rightarrow> StreamerWorldData option" where
  "getStreamer w i = find (\<lambda>s. id_s s = i) (streamers w)"

text \<open>Mutation of the streamer object stored under an id.\<close>

definition updateStreamer ::
  "string \<Rightarrow> (StreamerWorldData \<Rightarrow> StreamerWorldData) \<Rightarrow> WorldStateData \<Rightarrow> WorldStateData" where
  "updateStreamer i f w =
    w\<lparr>streamers := map (\<lambda>s. if id_s s = i then f s else s) (streamers w)\<rparr>"

text \<open>\<open>streamers[n.id] = n\<close>: an existing key keeps its place, a new key goes last.\<close>

definition putStreamer :: "StreamerWorldData \<Rightarrow> WorldStateData \<Rightarrow> WorldStateData" where
  "putStreamer n w =
    (if id_s n \<in> id_s ` set (streamers w)
     then w\<lparr>streamers := map (\<lambda>s. if id_s s = id_s n then n else s) (streamers w)\<rparr>
     else w\<lparr>streamers := streamers w @ [n]\<rparr>)"

definition getAgency :: "WorldStateData \<Rightarrow> string \<Rightarrow> AIAgencyData option" where
  "getAgency w i = find (\<lambda>a. id_a a = i) (agencies w)"

text \<open>Mutation of the agency object that \<open>agencies.find(a => a.id === i)\<close> returns: the first
  one with the id.\<close>

fun updateFirst :: "('a \<Rightarrow> bool) \<Rightarrow> ('a \<Rightarrow> 'a) \<Rightarrow> 'a list \<Rightarrow> 'a list" where
  "updateFirst P f [] = []"
| "updateFirst P f (x # xs) = (if P x then f x # xs else x # updateFirst P f xs)"

definition updateAgency ::
  "string \<Rightarrow> (AIAgencyData \<Rightarrow> AIAgencyData) \<Rightarrow> WorldStateData \<Rightarrow> WorldStateData" where
  "updateAgency i f w = w\<lparr>agencies := updateFirst (\<lambda>a. id_a a = i) f (agencies w)\<rparr>"

text \<open>\<open>ids.map(id => streamers[id]).filter(Boolean)\<close>.\<close>

definition lookupAll :: "WorldStateData \<Rightarrow> string list \<Rightarrow> StreamerWorldData list" where
  "lookupAll w ids = List.map_filter (getStreamer w) ids"

definition getFreeAgents :: "WorldStateData \<Rightarrow> StreamerWorldData list" where
  "getFreeAgents w = lookupAll w (freeAgentIds w)"

definition getAgencyRoster :: "WorldStateData \<Rightarrow> string \<Rightarrow> StreamerWorldData list" where
  "getAgencyRoster w i =
    (case getAgency w i of None \<Rightarrow> [] | Some a \<Rightarrow> lookupAll w (roster a))"

text \<open>\<open>indexOf\<close> and \<open>splice(index, 1)\<close> drop the first occurrence: \<open>remove1\<close>.\<close>

definition signStreamerToAgency ::
  "string \<Rightarrow> string \<Rightarrow> WorldStateData \<Rightarrow> bool \<times> WorldStateData" where
  "signStreamerToAgency sid agid w =
    (case getStreamer w sid of
       None \<Rightarrow> (False, w)
     | Some streamer \<Rightarrow>
         if agencyId streamer \<noteq> None then (False, w)
         else
          (case getAgency w agid of
             None \<Rightarrow> (False, w)
           | Some ag \<Rightarrow>
              (let w1 = w\<lparr>freeAgentIds := remove1 sid (freeAgentIds w)\<rparr>;
                   w2 = updateStreamer sid (\<lambda>s. s\<lparr>agencyId := Some agid\<rparr>) w1;
                   w3 = updateAgency agid (\<lambda>a. a\<lparr>roster := roster a @ [sid]\<rparr>) w2
               in (True, w3))))"

definition releaseStreamerFromAgency :: "string \<Rightarrow> WorldStateData \<Rightarrow> bool \<times> WorldStateData" where
  "releaseStreamerFromAgency sid w =
    (case getStreamer w sid of
       None \<Rightarrow> (False, w)
     | Some streamer \<Rightarrow>
        (case agencyId streamer of
           None \<Rightarrow> (False, w)
         | Some agid \<Rightarrow>
            (let w1 = updateAgency agid (\<lambda>a. a\<lparr>roster := remove1 sid (roster a)\<rparr>) w;
                 w2 = updateStreamer sid (\<lambda>s. s\<lparr>agencyId := None\<rparr>) w1;
                 w3 = w2\<lparr>freeAgentIds := freeAgentIds w2 @ [sid]\<rparr>
             in (True, w3))))"

text \<open>\<open>xs.slice(-n)\<close>: the last \<open>n\<close> elements.\<close>

definition lastN :: "nat \<Rightarrow> 'a list \<Rightarrow> 'a list" where
  "lastN n xs = drop (length xs - n) xs"

record Sim =
  world :: WorldStateData
  env :: Env

definition news_id :: "Env \<Rightarrow> string \<times> Env" where
  "news_id e =
    (let (t, e1) = Date_now e; (r, e2) = Math_random e1
     in (''news_'' @ show_nat t @ ''_'' @ random_suffix r, e2))"

definition addNewsEvent ::
  "NewsType \<Rightarrow> string option \<Rightarrow> string option \<Rightarrow> 'a Sim_scheme \<Rightarrow> 'a Sim_scheme" where
  "addNewsEvent ty sid agid sim =
    (let w = world sim;
         (i, e') = news_id (env sim);
         newsEvent = \<lparr> id_n = i, weekNumber_n = weekNumber w, type_n = ty,
                       streamerId_n = sid, agencyId_n = agid \<rparr>;
         pushed = newsEvents w @ [newsEvent]
     in sim\<lparr> world := w\<lparr>newsEvents := (if length pushed > 50 then lastN 50 pushed else pushed)\<rparr>,
             env := e' \<rparr>)"

section \<open>The AI agencies (\<open>world/AIAgency.ts\<close>)\<close>

text \<open>
  The loop of \<open>processWeeklyDecisions\<close> holds each agency object itself, so the agency is
  named by its position \<open>k\<close> in \<open>agencies\<close>; the calls into the world state go through
  its id, as in the source.
\<close>

definition updateAgencyAt ::
  "nat \<Rightarrow> (AIAgencyData \<Rightarrow> AIAgencyData) \<Rightarrow> WorldStateData \<Rightarrow> WorldStateData" where
  "updateAgencyAt k f w = w\<lparr>agencies := (agencies w)[k := f (agencies w ! k)]\<rparr>"

definition streamerRevenue :: "StreamerWorldData \<Rightarrow> real" where
  "streamerRevenue s =
    (let hours = HOURS_DEFAULT_PER_WEEK;
         baseRevenue =
           (followers s / 1000) * hours * BASE_WEEKLY_REVENUE_PER_1K_FOLLOWERS_PER_HOUR;
         platformMult = platform_revenueMultiplier (platform s);
         genreMult = genre_baseRevenueMultiplier (genre s);
         affinityBonus = genre_platformAffinity (genre s) (platform s);
         charismaBonus = 1 + (charisma (stats s) - 5) * 0.08;
         skillBonus = 1 + (skill (stats s) - 5) * 0.06;
         burnoutPenalty = 1 - (burnout s / 100) * 0.3
     in baseRevenue * platformMult * genreMult * affinityBonus * charismaBonus * skillBonus
          * burnoutPenalty)"

definition calculateWeeklyRevenue :: "nat \<Rightarrow> WorldStateData \<Rightarrow> WorldStateData" where
  "calculateWeeklyRevenue k w =
    (let ag = agencies w ! k;
         rosterList = getAgencyRoster w (id_a ag);
         total = fold (\<lambda>s weeklyRev. weeklyRev + streamerRevenue s * 0.5) rosterList 0
     in updateAgencyAt k
          (\<lambda>a. a\<lparr> weeklyRevenue := Math_floor total,
                   totalEarnings := totalEarnings a + Math_floor total,
                   money := money a + Math_floor total \<rparr>) w)"

definition shouldDropStreamer ::
  "StreamerWorldData \<Rightarrow> AIAgencyData \<Rightarrow> StreamerWorldData list \<Rightarrow> Env \<Rightarrow> bool \<times> Env" where
  "shouldDropStreamer s ag rosterList e =
    (let avgFollowers =
           fold (\<lambda>x sum. sum + followers x) rosterList 0 / real (length rosterList);
         burnoutCheck = (\<lambda>e0. if burnout s > 80
                                then (let (r, e1) = Math_random e0 in (r < 0.2, e1))
                                else (False, e0))
     in case strategy ag of
          aggressive \<Rightarrow>
            if followers s < avgFollowers * 0.4 then (True, e)
            else if consecutiveDeclineWeeks s \<ge> 3
              then (let (r, e1) = Math_random e in (r < 0.5, e1))
            else burnoutCheck e
        | conservative \<Rightarrow>
            if consecutiveDeclineWeeks s \<ge> 6
              then (let (r, e1) = Math_random e in (r < 0.3, e1))
            else if followers s < avgFollowers * 0.2 then (True, e)
            else burnoutCheck e
        | niche \<Rightarrow>
            if focusGenres ag \<noteq> [] \<and> genre s \<notin> set (focusGenres ag)
              then (let (r, e1) = Math_random e in (r < 0.3, e1))
            else burnoutCheck e
        | balanced \<Rightarrow>
            if consecutiveDeclineWeeks s \<ge> 4
              then (let (r, e1) = Math_random e in (r < 0.4, e1))
            else burnoutCheck e)"

fun collectDrops ::
  "StreamerWorldData list \<Rightarrow> AIAgencyData \<Rightarrow> StreamerWorldData list \<Rightarrow> string list \<Rightarrow> Env
    \<Rightarrow> string list \<times> Env" where
  "collectDrops [] ag rosterList acc e = (acc, e)"
| "collectDrops (s # ss) ag rosterList acc e =
    (let (d, e') = shouldDropStreamer s ag rosterList e
     in collectDrops ss ag rosterList (if d then acc @ [id_s s] else acc) e')"

fun dropStreamers :: "string list \<Rightarrow> string \<Rightarrow> 'a Sim_scheme \<Rightarrow> 'a Sim_scheme" where
  "dropStreamers [] agid sim = sim"
| "dropStreamers (i # is) agid sim =
    (let w1 = snd (releaseStreamerFromAgency i (world sim));
         sim1 = sim\<lparr>world := w1\<rparr>;
         sim2 = (case getStreamer w1 i of
                   Some s \<Rightarrow> addNewsEvent signing (Some (id_s s)) (Some agid) sim1
                 | None \<Rightarrow> sim1)
     in dropStreamers is agid sim2)"

definition evaluateRoster :: "nat \<Rightarrow> 'a Sim_scheme \<Rightarrow> 'a Sim_scheme" where
  "evaluateRoster k sim =
    (let ag = agencies (world sim) ! k;
         rosterList = getAgencyRoster (world sim) (id_a ag)
     in if rosterList = [] then sim
        else (let (streamersToDropIds, e') = collectDrops rosterList ag rosterList [] (env sim)
              in dropStreamers streamersToDropIds (id_a ag) (sim\<lparr>env := e'\<rparr>)))"

record Prospect =
  streamer_pr :: StreamerWorldData
  score_pr :: real

text \<open>\<open>Object.values(stats).reduce((a, b) => a + b, 0) / 7\<close>, in the order of the keys.\<close>

definition avgStats :: "StreamerStats \<Rightarrow> real" where
  "avgStats st =
    fold (\<lambda>b a. a + b)
      [charisma st, consistency st, dramaRisk st, skill st, adaptability st, loyalty st,
       ambition st] 0 / 7"

text \<open>The growth rate divides by last week's followers, which the simulator keeps at 10
  or more.\<close>

definition prospectScore :: "StreamerWorldData \<Rightarrow> AIAgencyData \<Rightarrow> real" where
  "prospectScore s ag =
    (let score1 = 0 + Math_log10 (max (followers s) 100) * 10;
         score2 = (if focusGenres ag \<noteq> []
                   then (if genre s \<in> set (focusGenres ag) then score1 + 30 else score1 - 10)
                   else score1);
         score3 = (if focusPlatforms ag \<noteq> []
                   then (if platform s \<in> set (focusPlatforms ag) then score2 + 20 else score2 - 5)
                   else score2);
         score4 = score3 + avgStats (stats s) * 2;
         score5 = score4 + (100 - burnout s) / 10;
         score6 = (if followers s > lastWeekFollowers s
                   then score5 + ((followers s - lastWeekFollowers s) / lastWeekFollowers s) * 50
                   else score5);
         score7 = (if consecutiveDeclineWeeks s > 0
                   then score6 - consecutiveDeclineWeeks s * 5 else score6)
     in score7)"

text \<open>\<open>sort((a, b) => b.score - a.score)\<close>: a stable sort, highest score first.\<close>

definition rankProspectsForAgency :: "StreamerWorldData list \<Rightarrow> AIAgencyData \<Rightarrow> Prospect list" where
  "rankProspectsForAgency freeAgents ag =
    sort_key (\<lambda>p. - score_pr p)
      (map (\<lambda>s. \<lparr> streamer_pr = s, score_pr = prospectScore s ag \<rparr>) freeAgents)"

definition estimateSigningCost :: "StreamerWorldData \<Rightarrow> real" where
  "estimateSigningCost s =
    (let followerValue = followers s / 100;
         charismaValue = charisma (stats s) * 80;
         skillValue = skill (stats s) * 60;
         consistencyValue = consistency (stats s) * 40;
         ambitionMultiplier = 1 + (ambition (stats s) - 5) * 0.15;
         loyaltyDiscount = (10 - loyalty (stats s)) * 30;
         dramaAdjustment = (if dramaRisk (stats s) > 7 then dramaRisk (stats s) * 20
                            else - dramaRisk (stats s) * 30);
         ag = (case age s of None \<Rightarrow> 25 | Some y \<Rightarrow> y);
         ageMultiplier1 =
           (if ag < 25 then 0.85 + (ag - 18) * 0.02
            else if ag \<le> 34 then 1.0
            else if ag \<le> 44 then 0.95 - (ag - 35) * 0.01
            else max 0.55 (0.85 - (ag - 45) * 0.02));
         expYears = (case experienceYears s of None \<Rightarrow> 0 | Some y \<Rightarrow> y);
         experienceBonus = min (expYears * 0.03) 0.2;
         ageMultiplier = min 1.0 (ageMultiplier1 + experienceBonus);
         baseCost = followerValue + charismaValue + skillValue + consistencyValue
                      - loyaltyDiscount + dramaAdjustment;
         cost = baseCost * ambitionMultiplier * ageMultiplier
     in Math_floor (max 500 (min cost 100000)))"

definition wantsToSign :: "Prospect \<Rightarrow> AIAgencyData \<Rightarrow> bool" where
  "wantsToSign prospect ag =
    (case strategy ag of
       aggressive \<Rightarrow> score_pr prospect \<ge> 20
     | conservative \<Rightarrow> score_pr prospect \<ge> 50
     | niche \<Rightarrow>
         if focusGenres ag \<noteq> [] \<and> genre (streamer_pr prospect) \<notin> set (focusGenres ag)
         then False else score_pr prospect \<ge> 30
     | balanced \<Rightarrow> score_pr prospect \<ge> 35)"

text \<open>One pass of the signing loop of \<open>scoutAndSign\<close> for one ranked prospect.\<close>

definition signAttempt :: "nat \<Rightarrow> Prospect \<Rightarrow> 'a Sim_scheme \<Rightarrow> 'a Sim_scheme" where
  "signAttempt k prospect sim =
    (let ag = agencies (world sim) ! k;
         signingCost = estimateSigningCost (streamer_pr prospect)
     in if money ag < signingCost then sim
        else if wantsToSign prospect ag then
          (let w1 = snd (signStreamerToAgency (id_s (streamer_pr prospect)) (id_a ag) (world sim));
               w2 = updateAgencyAt k (\<lambda>a. a\<lparr>money := money a - signingCost\<rparr>) w1
           in addNewsEvent signing (Some (id_s (streamer_pr prospect))) (Some (id_a ag))
                (sim\<lparr>world := w2\<rparr>))
        else sim)"

text \<open>\<open>for (let i = 0; i < signAttempts && i < rankedProspects.length; i++)\<close>, from
  \<open>i\<close> on, with the prospects of index \<open>i\<close> and above.\<close>

fun signLoop ::
  "nat \<Rightarrow> real \<Rightarrow> Prospect list \<Rightarrow> nat \<Rightarrow> 'a Sim_scheme \<Rightarrow> 'a Sim_scheme" where
  "signLoop i signAttempts [] k sim = sim"
| "signLoop i signAttempts (p # ps) k sim =
    (if real i < signAttempts then signLoop (Suc i) signAttempts ps k (signAttempt k p sim)
     else sim)"

definition scoutAndSign :: "nat \<Rightarrow> 'a Sim_scheme \<Rightarrow> 'a Sim_scheme" where
  "scoutAndSign k sim =
    (let ag = agencies (world sim) ! k;
         currentRoster = getAgencyRoster (world sim) (id_a ag)
     in if real (length currentRoster) \<ge> maxRoster ag then sim
        else (let freeAgents = getFreeAgents (world sim)
              in if freeAgents = [] then sim
                 else (let rankedProspects = rankProspectsForAgency freeAgents ag;
                           spotsOpen = maxRoster ag - real (length currentRoster);
                           signAttempts = min spotsOpen 2
                       in signLoop 0 signAttempts rankedProspects k sim)))"

definition processAgencyDecisions :: "nat \<Rightarrow> 'a Sim_scheme \<Rightarrow> 'a Sim_scheme" where
  "processAgencyDecisions k sim =
    (let sim1 = sim\<lparr>world := calculateWeeklyRevenue k (world sim)\<rparr>;
         sim2 = evaluateRoster k sim1
     in scoutAndSign k sim2)"

definition processWeeklyDecisions :: "'a Sim_scheme \<Rightarrow> 'a Sim_scheme" where
  "processWeeklyDecisions sim =
    fold processAgencyDecisions [0 ..< length (agencies (world sim))] sim"

section \<open>The weekly simulation (\<open>world/WorldSimulator.ts\<close>)\<close>

record TrendChanges =
  started :: "WorldTrend list"
  ended :: "WorldTrend list"

record WeeklySimulationResult =
  weekNumber_r :: real
  newStreamers :: "StreamerWorldData list"
  retirements :: "StreamerWorldData list"
  comebacks :: "StreamerWorldData list"
  trendChanges :: TrendChanges
  milestones :: "NewsEvent list"
  snapshot :: WeeklySnapshot

text \<open>The state of one run of \<open>simulateWeek\<close>: the world, the environment and the
  result that the steps fill in.\<close>

record Tick = Sim +
  result :: WeeklySimulationResult

subsection \<open>Trends\<close>

text \<open>
  The loop of \<open>updateTrends\<close> runs \<open>i\<close> from \<open>trends.length - 1\<close> down to \<open>0\<close>;
  \<open>expireTrends (Suc i)\<close> is the loop from index \<open>i\<close> on.
\<close>

fun expireTrends :: "nat \<Rightarrow> Tick \<Rightarrow> Tick" where
  "expireTrends 0 tk = tk"
| "expireTrends (Suc i) tk =
    (let trends = activeTrends (world tk);
         t = (trends ! i)\<lparr>weeksRemaining := weeksRemaining (trends ! i) - 1\<rparr>
     in if weeksRemaining t \<le> 0 then
          (let tk1 = tk\<lparr> world := (world tk)\<lparr>activeTrends := take i trends @ drop (Suc i) trends\<rparr>,
                         result := (result tk)\<lparr>trendChanges :=
                           (trendChanges (result tk))\<lparr>ended := ended (trendChanges (result tk)) @ [t]\<rparr>\<rparr> \<rparr>
           in expireTrends i (addNewsEvent trend None None tk1))
        else expireTrends i (tk\<lparr>world := (world tk)\<lparr>activeTrends := trends[i := t]\<rparr>\<rparr>))"

record TrendTemplate =
  name_tt :: string
  description_tt :: string
  category_tt :: TrendCategory
  affectedPlatforms_tt :: "PlatformKey list"
  affectedGenres_tt :: "GenreKey list"
  followerMultiplier_tt :: real
  revenueMultiplier_tt :: real
  durationWeeks_tt :: real

definition trendTemplates :: "TrendTemplate list" where
  "trendTemplates =
   [\<lparr> name_tt = ''Switch Surge'',
      description_tt = ''Switch streamers are seeing increased growth!'',
      category_tt = platform_trend, affectedPlatforms_tt = [SWITCH], affectedGenres_tt = [],
      followerMultiplier_tt = 1.3, revenueMultiplier_tt = 1.1, durationWeeks_tt = 3 \<rparr>,
    \<lparr> name_tt = ''YeTube Algorithm Boost'',
      description_tt = ''YeTube is pushing content creators hard.'',
      category_tt = platform_trend, affectedPlatforms_tt = [YETUBE], affectedGenres_tt = [],
      followerMultiplier_tt = 1.5, revenueMultiplier_tt = 1.2, durationWeeks_tt = 2 \<rparr>,
    \<lparr> name_tt = ''OhFans Premium Wave'',
      description_tt = ''Subscription content is booming!'',
      category_tt = platform_trend, affectedPlatforms_tt = [OHFANS], affectedGenres_tt = [],
      followerMultiplier_tt = 1.2, revenueMultiplier_tt = 1.5, durationWeeks_tt = 4 \<rparr>,
    \<lparr> name_tt = ''Gaming Renaissance'',
      description_tt = ''Gaming content is more popular than ever.'',
      category_tt = genre_trend, affectedPlatforms_tt = [], affectedGenres_tt = [GAMING],
      followerMultiplier_tt = 1.4, revenueMultiplier_tt = 1.2, durationWeeks_tt = 4 \<rparr>,
    \<lparr> name_tt = ''VTuber Explosion'',
      description_tt = ''Virtual streamers are taking over!'',
      category_tt = genre_trend, affectedPlatforms_tt = [], affectedGenres_tt = [VTUBER],
      followerMultiplier_tt = 1.5, revenueMultiplier_tt = 1.3, durationWeeks_tt = 3 \<rparr>,
    \<lparr> name_tt = ''ASMR Goes Mainstream'',
      description_tt = ''ASMR content is reaching new audiences.'',
      category_tt = genre_trend, affectedPlatforms_tt = [], affectedGenres_tt = [ASMR],
      followerMultiplier_tt = 1.3, revenueMultiplier_tt = 1.2, durationWeeks_tt = 5 \<rparr>,
    \<lparr> name_tt = ''Music Streaming Boom'',
      description_tt = ''Live music performances are trending.'',
      category_tt = genre_trend, affectedPlatforms_tt = [], affectedGenres_tt = [MUSIC],
      followerMultiplier_tt = 1.4, revenueMultiplier_tt = 1.3, durationWeeks_tt = 3 \<rparr>,
    \<lparr> name_tt = ''IRL Adventure Craze'',
      description_tt = ''Outdoor and IRL streams are hot!'',
      category_tt = genre_trend, affectedPlatforms_tt = [], affectedGenres_tt = [IRL],
      followerMultiplier_tt = 1.6, revenueMultiplier_tt = 1.1, durationWeeks_tt = 2 \<rparr>,
    \<lparr> name_tt = ''Sponsorship Boom'',
      description_tt = ''Brands are spending big on influencers.'',
      category_tt = economic_trend, affectedPlatforms_tt = [], affectedGenres_tt = [],
      followerMultiplier_tt = 1.0, revenueMultiplier_tt = 1.3, durationWeeks_tt = 4 \<rparr>,
    \<lparr> name_tt = ''Ad Revenue Dip'',
      description_tt = ''Advertising budgets are down across the board.'',
      category_tt = economic_trend, affectedPlatforms_tt = [], affectedGenres_tt = [],
      followerMultiplier_tt = 1.0, revenueMultiplier_tt = 0.8, durationWeeks_tt = 3 \<rparr>,
    \<lparr> name_tt = ''Streaming Awards Season'',
      description_tt = ''All eyes on content creators!'',
      category_tt = global_trend, affectedPlatforms_tt = [], affectedGenres_tt = [],
      followerMultiplier_tt = 1.15, revenueMultiplier_tt = 1.1, durationWeeks_tt = 2 \<rparr>]"

text \<open>
  \<open>Math.random()\<close> is below 1, so the index of the template is in range; for any other
  draw the model falls back to the first template.
\<close>

definition generateRandomTrend :: "Env \<Rightarrow> WorldTrend \<times> Env" where
  "generateRandomTrend e =
    (let (r1, e1) = Math_random e;
         template = pick trendTemplates (hd trendTemplates) r1;
         (t, e2) = Date_now e1;
         (r2, e3) = Math_random e2
     in (\<lparr> id_t = ''trend_'' @ show_nat t @ ''_'' @ random_suffix r2,
           name_t = name_tt template,
           description_t = description_tt template,
           category = category_tt template,
           affectedGenres = affectedGenres_tt template,
           affectedPlatforms = affectedPlatforms_tt template,
           followerMultiplier = followerMultiplier_tt template,
           revenueMultiplier = revenueMultiplier_tt template,
           durationWeeks = durationWeeks_tt template,
           weeksRemaining = durationWeeks_tt template \<rparr>, e3))"

definition startTrend :: "Tick \<Rightarrow> Tick" where
  "startTrend tk =
    (if length (activeTrends (world tk)) < 3 then
       (let (r, e1) = Math_random (env tk)
        in if r < 0.20 then
             (let (newTrend, e2) = generateRandomTrend e1;
                  tk1 = tk\<lparr> world := (world tk)\<lparr>activeTrends := activeTrends (world tk) @ [newTrend]\<rparr>,
                            env := e2,
                            result := (result tk)\<lparr>trendChanges :=
                              (trendChanges (result tk))\<lparr>started :=
                                 started (trendChanges (result tk)) @ [newTrend]\<rparr>\<rparr> \<rparr>
              in addNewsEvent trend None None tk1)
           else tk\<lparr>env := e1\<rparr>)
     else tk)"

definition updateTrends :: "Tick \<Rightarrow> Tick" where
  "updateTrends tk = startTrend (expireTrends (length (activeTrends (world tk))) tk)"

subsection \<open>Weekly growth of every streamer\<close>

datatype MultiplierType = follower | revenue

definition trendApplies :: "StreamerWorldData \<Rightarrow> WorldTrend \<Rightarrow> bool" where
  "trendApplies s t =
    ((affectedPlatforms t \<noteq> [] \<and> platform s \<in> set (affectedPlatforms t))
     \<or> (affectedGenres t \<noteq> [] \<and> genre s \<in> set (affectedGenres t))
     \<or> (affectedPlatforms t = [] \<and> affectedGenres t = []))"

definition getTrendMultiplier ::
  "StreamerWorldData \<Rightarrow> WorldTrend list \<Rightarrow> MultiplierType \<Rightarrow> real" where
  "getTrendMultiplier s trends ty =
    fold (\<lambda>t multiplier.
            if trendApplies s t
            then multiplier * (case ty of follower \<Rightarrow> followerMultiplier t
                                        | revenue \<Rightarrow> revenueMultiplier t)
            else multiplier)
         trends 1.0"

definition calculateWeeklyGrowth_w ::
  "StreamerWorldData \<Rightarrow> WorldTrend list \<Rightarrow> Env \<Rightarrow> real \<times> Env" where
  "calculateWeeklyGrowth_w s trends e =
    (let baseGrowth0 = 0.02;
         baseGrowth1 = baseGrowth0 * platform_growthMultiplier (platform s);
         baseGrowth2 = baseGrowth1 * genre_growthRate (genre s);
         charismaBonus = (charisma (stats s) - 5) * 0.01;
         consistencyBonus = (consistency (stats s) - 5) * 0.005;
         ambitionBonus = (ambition (stats s) - 5) * 0.008;
         adaptabilityBonus = (adaptability (stats s) - 5) * 0.005;
         baseGrowth3 =
           baseGrowth2 + (charismaBonus + consistencyBonus + ambitionBonus + adaptabilityBonus);
         baseGrowth4 = (if burnout s > 50 then baseGrowth3 - (burnout s - 50) / 100 * 0.05
                        else baseGrowth3);
         baseGrowth5 = baseGrowth4 * getTrendMultiplier s trends follower;
         (r, e') = Math_random e;
         variance = (r - 0.5) * 2 * platform_volatility (platform s);
         baseGrowth6 = baseGrowth5 + variance;
         baseGrowth7 = (if followers s > 100000
                        then baseGrowth6 - Math_log10 (followers s / 100000) * 0.01
                        else baseGrowth6);
         baseGrowth8 = (if followers s < 10000 then baseGrowth7 * 1.5 else baseGrowth7);
         ag = (case age s of None \<Rightarrow> 25 | Some y \<Rightarrow> y);
         ageGrowthModifier =
           (if ag \<le> 25 then 1.2 - (ag - 18) * 0.02
            else if ag \<le> 35 then 1.0
            else if ag \<le> 45 then 1.0 - (ag - 35) * 0.01
            else max 0.75 (0.9 - (ag - 45) * 0.01))
     in (baseGrowth8 * ageGrowthModifier, e'))"

definition calculateBurnoutChange_w :: "StreamerWorldData \<Rightarrow> real" where
  "calculateBurnoutChange_w s =
    (let consistencyBurnout = (consistency (stats s) - 5) * 0.5;
         ambitionBurnout = (ambition (stats s) - 5) * 0.3;
         naturalRecovery = - 2;
         pressureBurnout = (if followers s > 500000 then 1 else 0)
     in consistencyBurnout + ambitionBurnout + naturalRecovery + pressureBurnout)"

text \<open>The milestone loop for a streamer \<open>s\<close> that has just reached a new peak.\<close>

fun milestoneLoop :: "real list \<Rightarrow> StreamerWorldData \<Rightarrow> Tick \<Rightarrow> Tick" where
  "milestoneLoop [] s tk = tk"
| "milestoneLoop (m # ms) s tk =
    (if followers s \<ge> m \<and> lastWeekFollowers s < m then
       (let tk1 = addNewsEvent milestone (Some (id_s s)) None tk;
            ev = \<lparr> id_n = [], weekNumber_n = weekNumber_r (result tk1), type_n = milestone,
                   streamerId_n = Some (id_s s), agencyId_n = None \<rparr>
        in milestoneLoop ms s
             (tk1\<lparr>result := (result tk1)\<lparr>milestones := milestones (result tk1) @ [ev]\<rparr>\<rparr>))
     else milestoneLoop ms s tk)"

text \<open>
  The body of the loop of \<open>simulateAllStreamers\<close> for one active streamer, with the
  stretches of the body that only rewrite the streamer's own fields as functions of their
  own, named after the comments of the source.
\<close>

definition applyGrowth :: "real \<Rightarrow> StreamerWorldData \<Rightarrow> StreamerWorldData" where
  "applyGrowth g s =
    (let s1 = s\<lparr>lastWeekFollowers := followers s\<rparr>
     in s1\<lparr>followers := max 10 (Math_floor (followers s1 * (1 + g)))\<rparr>)"

definition trackDecline :: "StreamerWorldData \<Rightarrow> StreamerWorldData" where
  "trackDecline s =
    (if followers s < lastWeekFollowers s
     then s\<lparr>consecutiveDeclineWeeks := consecutiveDeclineWeeks s + 1\<rparr>
     else s\<lparr>consecutiveDeclineWeeks := 0\<rparr>)"

definition updateImpressions :: "real \<Rightarrow> WorldTrend list \<Rightarrow> StreamerWorldData \<Rightarrow> StreamerWorldData" where
  "updateImpressions r trends s =
    (let baseImpressions = followers s * (3 + r * 4);
         impressionMultiplier = getTrendMultiplier s trends follower
     in s\<lparr>weeklyImpressions := Math_floor (baseImpressions * impressionMultiplier)\<rparr>)"

definition updateBurnout :: "StreamerWorldData \<Rightarrow> StreamerWorldData" where
  "updateBurnout s =
    (let burnoutChange0 = calculateBurnoutChange_w s;
         s1 = s\<lparr>burnout := max 0 (min 100 (burnout s + burnoutChange0))\<rparr>
     in if burnout s1 \<ge> RETIREMENT_BURNOUT_THRESHOLD
        then s1\<lparr>consecutiveBurnoutWeeks := consecutiveBurnoutWeeks s1 + 1\<rparr>
        else s1\<lparr>consecutiveBurnoutWeeks := 0\<rparr>)"

definition advanceCareer :: "StreamerWorldData \<Rightarrow> StreamerWorldData" where
  "advanceCareer s =
    (let s1 = s\<lparr>careerWeeks := careerWeeks s + 1\<rparr>
     in s1\<lparr>experienceYears := Some (Math_floor (careerWeeks s1 / 52))\<rparr>)"

definition reachPeak :: "StreamerWorldData \<Rightarrow> StreamerWorldData" where
  "reachPeak s = (if followers s > peakFollowers s then s\<lparr>peakFollowers := followers s\<rparr> else s)"

definition simulateStreamer :: "StreamerWorldData \<Rightarrow> WorldTrend list \<Rightarrow> Tick \<Rightarrow> Tick" where
  "simulateStreamer s0 trends tk =
    (let (g, e1) = calculateWeeklyGrowth_w s0 trends (env tk);
         s2 = applyGrowth g s0;
         tk1 = tk\<lparr>env := e1\<rparr>;
         s3 = reachPeak s2;
         tk2 = (if followers s2 > peakFollowers s2
                then milestoneLoop [100000, 500000, 1000000, 2000000, 5000000] s3 tk1
                else tk1);
         s4 = trackDecline s3;
         (r, e3) = Math_random (env tk2);
         s5 = advanceCareer (updateBurnout (updateImpressions r trends s4))
     in tk2\<lparr> world := updateStreamer (id_s s0) (\<lambda>_. s5) (world tk2), env := e3 \<rparr>)"

text \<open>
  The loops over \<open>Object.values(streamers)\<close> hold the streamer objects of the moment
  the loop starts; each pass mutates its own streamer only, so the model walks the ids
  and reads the streamer of the current world.
\<close>

fun simulateLoop :: "string list \<Rightarrow> WorldTrend list \<Rightarrow> Tick \<Rightarrow> Tick" where
  "simulateLoop [] trends tk = tk"
| "simulateLoop (i # is) trends tk =
    (case getStreamer (world tk) i of
       None \<Rightarrow> simulateLoop is trends tk
     | Some s \<Rightarrow>
         if retiredWeek s \<noteq> None then simulateLoop is trends tk
         else simulateLoop is trends (simulateStreamer s trends tk))"

definition simulateAllStreamers :: "Tick \<Rightarrow> Tick" where
  "simulateAllStreamers tk =
    simulateLoop (map id_s (streamers (world tk))) (activeTrends (world tk)) tk"

definition processYearlyAging :: "WorldStateData \<Rightarrow> WorldStateData" where
  "processYearlyAging w =
    w\<lparr>streamers :=
        map (\<lambda>s. case age s of None \<Rightarrow> s | Some y \<Rightarrow> s\<lparr>age := Some (y + 1)\<rparr>) (streamers w)\<rparr>"

text \<open>The remainder operator \<open>%\<close> of JavaScript: the quotient is truncated towards zero.\<close>

definition js_rem :: "real \<Rightarrow> real \<Rightarrow> real" where
  "js_rem x y = x - y * of_int (if x / y \<ge> 0 then \<lfloor>x / y\<rfloor> else \<lceil>x / y\<rceil>)"

subsection \<open>Retirements and comebacks\<close>

definition shouldRetire :: "StreamerWorldData \<Rightarrow> Env \<Rightarrow> bool \<times> Env" where
  "shouldRetire s e =
    (let ag = (case age s of None \<Rightarrow> 25 | Some y \<Rightarrow> y);
         ageFactor =
           (if ag \<ge> 50 then 2.5 + (ag - 50) * 0.15
            else if ag \<ge> 40 then 1.5 + (ag - 40) * 0.1
            else if ag \<ge> 30 then 1.0 + (ag - 30) * 0.05
            else 1.0)
     in if consecutiveBurnoutWeeks s \<ge> RETIREMENT_BURNOUT_WEEKS then
          (let (r, e1) = Math_random e in (r < min (0.5 * ageFactor) 0.9, e1))
        else if followers s < 100 \<and> consecutiveDeclineWeeks s \<ge> 8 then
          (let (r, e1) = Math_random e in (r < 0.7, e1))
        else if careerWeeks s > 200 \<and> consecutiveDeclineWeeks s \<ge> 8 then
          (let (r, e1) = Math_random e in (r < min (0.3 * ageFactor) 0.8, e1))
        else if followers s > 1000000 \<and> careerWeeks s > 100 then
          (let (r, e1) = Math_random e in (r < min (0.02 * ageFactor) 0.15, e1))
        else
          (let (byAge, e2) =
                 (if ag \<ge> 45 then (let (r, e1) = Math_random e in (r < (ag - 45) * 0.005, e1))
                  else (False, e))
           in if byAge then (True, e2)
              else
               (let baseChance = 0.001;
                    careerFactor = min (careerWeeks s / 500) 1;
                    randomChance = baseChance * (1 + careerFactor) * ageFactor;
                    (r, e3) = Math_random e2
                in (r < min randomChance 0.05, e3))))"

text \<open>\<open>streamer.agencyId && streamer.agencyId !== 'player'\<close>: a non-empty id other than
  the player's.\<close>

definition retireStreamer :: "string \<Rightarrow> Tick \<Rightarrow> Tick" where
  "retireStreamer i tk =
    (let w0 = world tk;
         w1 = updateStreamer i (\<lambda>s. s\<lparr>retiredWeek := Some (weekNumber w0)\<rparr>) w0;
         w2 = (case getStreamer w1 i of
                 Some s \<Rightarrow>
                   (case agencyId s of
                      Some a \<Rightarrow> if a \<noteq> [] \<and> a \<noteq> ''player''
                                then snd (releaseStreamerFromAgency (id_s s) w1) else w1
                    | None \<Rightarrow> w1)
               | None \<Rightarrow> w1);
         w3 = w2\<lparr>freeAgentIds := remove1 i (freeAgentIds w2)\<rparr>;
         w4 = w3\<lparr>retiredIds := retiredIds w3 @ [i]\<rparr>;
         tk1 = tk\<lparr> world := w4,
                   result := (result tk)\<lparr>retirements :=
                     retirements (result tk) @ List.map_filter (getStreamer w4) [i]\<rparr> \<rparr>
     in addNewsEvent retirement (Some i) None tk1)"

fun retirementLoop :: "string list \<Rightarrow> Tick \<Rightarrow> Tick" where
  "retirementLoop [] tk = tk"
| "retirementLoop (i # is) tk =
    (case getStreamer (world tk) i of
       None \<Rightarrow> retirementLoop is tk
     | Some s \<Rightarrow>
         if retiredWeek s \<noteq> None then retirementLoop is tk
         else (let (b, e') = shouldRetire s (env tk);
                   tk1 = tk\<lparr>env := e'\<rparr>
               in retirementLoop is (if b then retireStreamer (id_s s) tk1 else tk1)))"

definition processRetirements :: "Tick \<Rightarrow> Tick" where
  "processRetirements tk = retirementLoop (map id_s (streamers (world tk))) tk"

definition processComeback :: "string \<Rightarrow> Tick \<Rightarrow> Tick" where
  "processComeback i tk =
    (let w0 = world tk;
         w1 = w0\<lparr>retiredIds := remove1 i (retiredIds w0)\<rparr>;
         w2 = updateStreamer i
                (\<lambda>s. s\<lparr> retiredWeek := None,
                         followers := Math_floor (peakFollowers s * 0.2),
                         burnout := 0,
                         consecutiveBurnoutWeeks := 0,
                         consecutiveDeclineWeeks := 0 \<rparr>) w1;
         w3 = w2\<lparr>freeAgentIds := freeAgentIds w2 @ [i]\<rparr>;
         tk1 = tk\<lparr> world := w3,
                   result := (result tk)\<lparr>comebacks :=
                     comebacks (result tk) @ List.map_filter (getStreamer w3) [i]\<rparr> \<rparr>
     in addNewsEvent comeback (Some i) None tk1)"

fun comebackLoop :: "string list \<Rightarrow> Tick \<Rightarrow> Tick" where
  "comebackLoop [] tk = tk"
| "comebackLoop (i # is) tk =
    (case getStreamer (world tk) i of
       None \<Rightarrow> comebackLoop is tk
     | Some s \<Rightarrow>
        (case retiredWeek s of
           None \<Rightarrow> comebackLoop is tk
         | Some rw \<Rightarrow>
             if weekNumber (world tk) - rw < COMEBACK_MIN_WEEKS then comebackLoop is tk
             else (let (r, e') = Math_random (env tk);
                       tk1 = tk\<lparr>env := e'\<rparr>
                   in comebackLoop is
                        (if r < COMEBACK_CHANCE then processComeback (id_s s) tk1 else tk1))))"

definition processComebacks :: "Tick \<Rightarrow> Tick" where
  "processComebacks tk = comebackLoop (retiredIds (world tk)) tk"

subsection \<open>New streamers\<close>

definition FIRST_NAMES :: "string list" where
  "FIRST_NAMES =
    [''Alex'', ''Jordan'', ''Casey'', ''Riley'', ''Quinn'', ''Morgan'', ''Taylor'', ''Jamie'',
     ''Avery'', ''Parker'', ''Luna'', ''Nova'', ''Kai'', ''Zephyr'', ''Storm'', ''Echo'',
     ''Onyx'', ''Jade'', ''Ash'', ''Ember'']"

definition LAST_NAMES :: "string list" where
  "LAST_NAMES =
    [''Chen'', ''Kim'', ''Garcia'', ''Singh'', ''Storm'', ''Blaze'', ''Frost'', ''Night'',
     ''Shadow'', ''Pixel'']"

definition SUFFIXES :: "string list" where
  "SUFFIXES = ['''', ''_TV'', ''_Live'', ''_Gaming'', ''_Stream'', ''Official'', ''_VT'']"

definition AVATAR_COLORS :: "string list" where
  "AVATAR_COLORS =
    [''#e74c3c'', ''#e67e22'', ''#f1c40f'', ''#2ecc71'', ''#1abc9c'',
     ''#3498db'', ''#9b59b6'', ''#34495e'', ''#e91e63'', ''#00bcd4'']"

text \<open>The weighted choice of the genre: the first key at which the running \<open>roll\<close>
  is used up, \<open>VARIETY\<close> when none is.\<close>

fun genreLoop :: "GenreKey list \<Rightarrow> PlatformKey \<Rightarrow> real \<Rightarrow> GenreKey" where
  "genreLoop [] p roll = VARIETY"
| "genreLoop (g # gs) p roll =
    (if roll - affinity_or_1 g p \<le> 0 then g else genreLoop gs p (roll - affinity_or_1 g p))"

definition selectGenre :: "PlatformKey \<Rightarrow> real \<Rightarrow> GenreKey" where
  "selectGenre p r =
    (let weights = map (\<lambda>g. affinity_or_1 g p) genreKeys;
         totalWeight = fold (\<lambda>b a. a + b) weights 0
     in genreLoop genreKeys p (r * totalWeight))"

text \<open>\<open>stats[statKeys[i]] = v\<close>, with the keys in the order of the object literal; an
  index out of range names no stat.\<close>

definition setStat :: "int \<Rightarrow> real \<Rightarrow> StreamerStats \<Rightarrow> StreamerStats" where
  "setStat i v st =
    (if i = 0 then st\<lparr>charisma := v\<rparr>
     else if i = 1 then st\<lparr>consistency := v\<rparr>
     else if i = 2 then st\<lparr>dramaRisk := v\<rparr>
     else if i = 3 then st\<lparr>skill := v\<rparr>
     else if i = 4 then st\<lparr>adaptability := v\<rparr>
     else if i = 5 then st\<lparr>loyalty := v\<rparr>
     else if i = 6 then st\<lparr>ambition := v\<rparr>
     else st)"

definition randStats :: "Env \<Rightarrow> StreamerStats \<times> Env" where
  "randStats e =
    (let (r1, e1) = Math_random e;
         (r2, e2) = Math_random e1;
         (r3, e3) = Math_random e2;
         (r4, e4) = Math_random e3;
         (r5, e5) = Math_random e4;
         (r6, e6) = Math_random e5;
         (r7, e7) = Math_random e6
     in (\<lparr> charisma = Math_floor (1 + r1 * 10),
           consistency = Math_floor (1 + r2 * 10),
           dramaRisk = Math_floor (1 + r3 * 10),
           skill = Math_floor (1 + r4 * 10),
           adaptability = Math_floor (1 + r5 * 10),
           loyalty = Math_floor (1 + r6 * 10),
           ambition = Math_floor (1 + r7 * 10) \<rparr>, e7))"

text \<open>A name or colour read at an index out of range would be \<open>undefined\<close>; a draw of
  \<open>Math.random()\<close> never gives one.\<close>

definition generateNewStreamer :: "PlatformKey \<Rightarrow> Env \<Rightarrow> StreamerWorldData \<times> Env" where
  "generateNewStreamer p e =
    (let (t, e1) = Date_now e;
         (r0, e2) = Math_random e1;
         ident = ''streamer_'' @ show_nat t @ ''_new_'' @ random_suffix r0;
         (r1, e3) = Math_random e2;
         firstName = pick FIRST_NAMES ''undefined'' r1;
         (r2, e4) = Math_random e3;
         lastName = pick LAST_NAMES ''undefined'' r2;
         (r3, e5) = Math_random e4;
         suffix = pick SUFFIXES ''undefined'' r3;
         (r4, e6) = Math_random e5;
         g = selectGenre p r4;
         (r5, e7) = Math_random e6;
         isProdigy = (r5 < 0.05);
         (stats0, e8) = randStats e7;
         (stats1, e9) =
           (if isProdigy then
              (let (r6, e81) = Math_random e8;
                   (r7, e82) = Math_random e81
               in (setStat \<lfloor>r6 * 7\<rfloor> (9 + Math_floor (r7 * 2)) stats0, e82))
            else (stats0, e8));
         (r8, e10) = Math_random e9;
         followers0 = Math_floor (50 + r8 * 450);
         (ageRoll, e11) = Math_random e10;
         (r9, e12) = Math_random e11;
         age0 = (if ageRoll < 0.5 then 18 + Math_floor (r9 * 8)
                 else if ageRoll < 0.8 then 26 + Math_floor (r9 * 7)
                 else 33 + Math_floor (r9 * 8));
         (r10, e13) = Math_random e12
     in (\<lparr> id_s = ident,
           name_s = firstName @ lastName @ suffix,
           genre = g,
           platform = p,
           followers = followers0,
           stats = stats1,
           traits = [],
           burnout = 0,
           avatarColor = pick AVATAR_COLORS ''undefined'' r10,
           contractEndDay = 0,
           revenueSplit_s = 0.5,
           signedOnDay = 0,
           age = Some age0,
           experienceYears = Some 0,
           agencyId = None,
           careerWeeks = 0,
           peakFollowers = followers0,
           weeklyImpressions = Math_floor (followers0 * 5),
           lastWeekFollowers = followers0,
           consecutiveBurnoutWeeks = 0,
           consecutiveDeclineWeeks = 0,
           retiredWeek = None \<rparr>, e13))"

definition debutStreamer :: "Tick \<Rightarrow> Tick" where
  "debutStreamer tk =
    (let (roll, e1) = Math_random (env tk);
         p = (if roll < 0.50 then SWITCH else if roll < 0.50 + 0.30 then YETUBE else OHFANS);
         (newStreamer, e2) = generateNewStreamer p e1;
         w1 = putStreamer newStreamer (world tk);
         w2 = w1\<lparr>freeAgentIds := freeAgentIds w1 @ [id_s newStreamer]\<rparr>;
         tk1 = tk\<lparr> world := w2, env := e2,
                   result := (result tk)\<lparr>newStreamers := newStreamers (result tk) @ [newStreamer]\<rparr> \<rparr>
     in addNewsEvent milestone (Some (id_s newStreamer)) None tk1)"

definition newStreamerCount :: "WorldTrend list \<Rightarrow> nat" where
  "newStreamerCount trends =
    min (fold (\<lambda>t count. if followerMultiplier t > 1 then Suc count else count)
           trends WEEKLY_NEW_STREAMERS_BASE)
        WEEKLY_NEW_STREAMERS_MAX"

definition generateNewStreamers :: "Tick \<Rightarrow> Tick" where
  "generateNewStreamers tk =
    (debutStreamer ^^ newStreamerCount (activeTrends (world tk))) tk"

subsection \<open>Rankings and the snapshot\<close>

record RankedStreamer =
  streamer_rk :: StreamerWorldData
  powerScore :: real
  growthRate :: real

definition rankStreamer :: "StreamerWorldData \<Rightarrow> RankedStreamer" where
  "rankStreamer s =
    (let gr = (if lastWeekFollowers s > 0
               then (followers s - lastWeekFollowers s) / lastWeekFollowers s else 0);
         ps = followers s * 0.4 + gr * 10000 * 0.3 + weeklyImpressions s / 1000 * 0.2
                + avgStats (stats s) * 100 * 0.1
     in \<lparr> streamer_rk = s, powerScore = ps, growthRate = gr \<rparr>)"

definition rankAgency :: "WorldStateData \<Rightarrow> RankedStreamer list \<Rightarrow> AIAgencyData \<Rightarrow> AIAgencyData \<times> real" where
  "rankAgency w rankedStreamers ag =
    (let rosterList = getAgencyRoster w (id_a ag);
         totalFollowers = fold (\<lambda>s sum. sum + followers s) rosterList 0;
         avgPower =
           (if length rosterList > 0
            then fold (\<lambda>r sum. sum + powerScore r)
                   (filter (\<lambda>r. \<exists>s \<in> set rosterList. id_s s = id_s (streamer_rk r)) rankedStreamers) 0
                 / real (length rosterList)
            else 0);
         score = totalFollowers * 0.3 + weeklyRevenue ag * 0.3 + reputation ag * 100 * 0.2
                   + avgPower * 0.2
     in (ag, score))"

definition calculateRankings :: "Tick \<Rightarrow> Tick" where
  "calculateRankings tk =
    (let w = world tk;
         res = result tk;
         allStreamers = filter (\<lambda>s. retiredWeek s = None) (streamers w);
         rankedStreamers = sort_key (\<lambda>r. - powerScore r) (map rankStreamer allStreamers);
         top = map (\<lambda>r. \<lparr> id_top = id_s (streamer_rk r), name_top = name_s (streamer_rk r),
                          followers_top = followers (streamer_rk r),
                          growth = Math_round (growthRate r * 100) \<rparr>)
                   (take 10 rankedStreamers);
         rankedAgencies = sort_key (\<lambda>r. - snd r) (map (rankAgency w rankedStreamers) (agencies w));
         rankings = map (\<lambda>r. \<lparr> id_rank = id_a (fst r), name_rank = name_a (fst r),
                               score_rank = Math_round (snd r), change = 0 \<rparr>) rankedAgencies;
         snap = (snapshot res)
                  \<lparr> topStreamers := top,
                    agencyRankings := rankings,
                    totalActiveStreamers := length allStreamers,
                    totalFreeAgents := length (freeAgentIds w),
                    newStreamers_sn := map id_s (newStreamers res),
                    retirements_sn := map id_s (retirements res),
                    comebacks_sn := map id_s (comebacks res),
                    activeTrendIds := map id_t (activeTrends w) \<rparr>
     in tk\<lparr>result := res\<lparr>snapshot := snap\<rparr>\<rparr>)"

definition createEmptySnapshot :: "real \<Rightarrow> WeeklySnapshot" where
  "createEmptySnapshot wk =
    \<lparr> weekNumber_sn = wk, topStreamers = [], agencyRankings = [], totalActiveStreamers = 0,
      totalFreeAgents = 0, newStreamers_sn = [], retirements_sn = [], comebacks_sn = [],
      activeTrendIds = [], newsEvents_sn = [] \<rparr>"

definition storeSnapshot :: "Tick \<Rightarrow> Tick" where
  "storeSnapshot tk =
    (let pushed = weeklySnapshots (world tk) @ [snapshot (result tk)]
     in tk\<lparr>world := (world tk)\<lparr>weeklySnapshots :=
           (if length pushed > WEEKLY_SNAPSHOT_LIMIT then lastN WEEKLY_SNAPSHOT_LIMIT pushed
            else pushed)\<rparr>\<rparr>)"

subsection \<open>The tick\<close>

definition yearlyAging :: "Tick \<Rightarrow> Tick" where
  "yearlyAging tk =
    (if weekNumber_r (result tk) > 0 \<and> js_rem (weekNumber_r (result tk)) 52 = 0
     then tk\<lparr>world := processYearlyAging (world tk)\<rparr> else tk)"

definition initialTick :: "WorldStateData \<Rightarrow> Env \<Rightarrow> Tick" where
  "initialTick w e =
    \<lparr> world = w, env = e,
      result = \<lparr> weekNumber_r = weekNumber w, newStreamers = [], retirements = [],
                 comebacks = [], trendChanges = \<lparr> started = [], ended = [] \<rparr>,
                 milestones = [], snapshot = createEmptySnapshot (weekNumber w) \<rparr> \<rparr>"

definition simulateWeek :: "WorldStateData \<Rightarrow> Env \<Rightarrow> Tick" where
  "simulateWeek w e =
    (let tk0 = initialTick w e;
         tk1 = updateTrends tk0;
         tk2 = simulateAllStreamers tk1;
         tk3 = yearlyAging tk2;
         tk4 = processWeeklyDecisions tk3;
         tk5 = processRetirements tk4;
         tk6 = processComebacks tk5;
         tk7 = generateNewStreamers tk6;
         tk8 = calculateRankings tk7
     in storeSnapshot tk8)"

section \<open>The revenue share as the specification words it\<close>

text \<open>\<open>createDefaultSchedule\<close> of \<open>WeeklySchedule.ts\<close>: thirty hours on the primary
  platform.\<close>

definition createDefaultSchedule :: "string \<Rightarrow> PlatformKey \<Rightarrow> WeeklySchedule" where
  "createDefaultSchedule sid primaryPlatform =
    \<lparr> streamerId = sid,
      totalHoursPerWeek = 30,
      platformAllocations = [\<lparr> platform_al = primaryPlatform, hoursPerWeek = 30 \<rparr>],
      takingBreak = False,
      sponsorshipOptIn = True \<rparr>"

text \<open>
  The specification's wording of the agency's weekly revenue from one rostered streamer:
  the player-facing revenue computation at the fixed default allocation on the
  streamer's current platform, of which the agency receives the fixed split fraction.
  The source's own computation is \<open>streamerRevenue s * 0.5\<close>.
\<close>

definition spec_agencyShare :: "StreamerWorldData \<Rightarrow> real" where
  "spec_agencyShare s =
    totalStreamingRevenue s (createDefaultSchedule (id_s s) (platform s)) * 0.5"

section \<open>Sample data\<close>

definition sample_env :: Env where
  "sample_env = \<lparr> rand = (\<lambda>_. 0), rpos = 0, clock = (\<lambda>_. 0), cpos = 0 \<rparr>"

definition sample_stats :: StreamerStats where
  "sample_stats =
    \<lparr> charisma = 5, consistency = 9, dramaRisk = 5, skill = 5, adaptability = 5,
      loyalty = 5, ambition = 5 \<rparr>"

text \<open>A streamer with burnout 95 and consistency 9, as a world record and as the
  player-side record of the same attributes.\<close>

definition sample_streamer :: StreamerWorldData where
  "sample_streamer =
    \<lparr> id_s = ''streamer_1'', name_s = ''AlexChen'', genre = GAMING, platform = SWITCH,
      followers = 40000, stats = sample_stats, traits = [], burnout = 95,
      avatarColor = ''#e74c3c'', contractEndDay = 0, revenueSplit_s = 0.5, signedOnDay = 0,
      age = Some 25, experienceYears = Some 1, agencyId = None, careerWeeks = 60,
      peakFollowers = 40000, weeklyImpressions = 200000, lastWeekFollowers = 40000,
      consecutiveBurnoutWeeks = 0, consecutiveDeclineWeeks = 0, retiredWeek = None \<rparr>"

definition sample_data :: StreamerData where
  "sample_data =
    \<lparr> id_s = ''streamer_1'', name_s = ''AlexChen'', genre = GAMING, platform = SWITCH,
      followers = 40000, stats = sample_stats, traits = [], burnout = 95,
      avatarColor = ''#e74c3c'', contractEndDay = 0, revenueSplit_s = 0.5, signedOnDay = 0,
      age = Some 25, experienceYears = Some 1 \<rparr>"

definition sample_rest :: WeeklySchedule where
  "sample_rest = (createDefaultSchedule ''streamer_1'' SWITCH)\<lparr>takingBreak := True\<rparr>"

definition sample_agency :: AIAgencyData where
  "sample_agency =
    \<lparr> id_a = ''nova_management'', name_a = ''Nova Management'', money = 100, reputation = 50,
      roster = [], strategy = balanced, focusGenres = [], focusPlatforms = [],
      color = ''#3498db'', maxRoster = 6, totalEarnings = 0, weeklyRevenue = 0 \<rparr>"

definition sample_world :: WorldStateData where
  "sample_world =
    \<lparr> initialized = True, weekNumber = 30, dayOfWeek = 0, streamers = [sample_streamer],
      agencies = [sample_agency], freeAgentIds = [''streamer_1''], retiredIds = [],
      activeTrends = [], weeklySnapshots = [], newsEvents = [] \<rparr>"

definition sample_sim :: Sim where
  "sample_sim = \<lparr> world = sample_world, env = sample_env \<rparr>"

definition sample_scene :: ScoutScene where
  "sample_scene =
    \<lparr> prospects = [sample_data], currentProspect = None, negotiationState = None,
      selectedPlatform = SWITCH,
      agency = \<lparr> money_p = 10000, roster_p = [], streamerPool = [sample_data],
                 currentDay = 1, activeNegotiation = None \<rparr> \<rparr>"

text \<open>A low offer: 400 up front where 1000 is expected, the other terms as expected.\<close>

definition sample_offer :: ContractTerms where
  "sample_offer = \<lparr> signingBonus = 400, revenueSplit = 0.44, lengthDays = 60, exclusivity = False \<rparr>"

text \<open>A trend in its last week, and the sample world with it.\<close>

definition sample_trend :: WorldTrend where
  "sample_trend =
    \<lparr> id_t = ''trend_1'', name_t = ''Retro Gaming Revival'', description_t = [],
      category = genre_trend, affectedGenres = [GAMING], affectedPlatforms = [],
      followerMultiplier = 1.3, revenueMultiplier = 1.2, durationWeeks = 6,
      weeksRemaining = 1 \<rparr>"

definition trend_world :: WorldStateData where
  "trend_world = sample_world\<lparr>activeTrends := [sample_trend]\<rparr>"

section \<open>Vocabulary of the statements\<close>

text \<open>One week off a trend's counter, and the test that removes a trend.\<close>

definition decrement :: "WorldTrend \<Rightarrow> WorldTrend" where
  "decrement t = t\<lparr>weeksRemaining := weeksRemaining t - 1\<rparr>"

definition expired :: "WorldTrend \<Rightarrow> bool" where
  "expired t \<longleftrightarrow> weeksRemaining t \<le> 0"

text \<open>The part of a tick that the trend engine owns.\<close>

definition trendsOf :: "Tick \<Rightarrow> WorldTrend list \<times> TrendChanges" where
  "trendsOf tk = (activeTrends (world tk), trendChanges (result tk))"

text \<open>The streamer after its week, for a growth rate \<open>g\<close> and the draw \<open>r\<close> of the
  impressions.\<close>

definition weekResult ::
  "real \<Rightarrow> real \<Rightarrow> WorldTrend list \<Rightarrow> StreamerWorldData \<Rightarrow> StreamerWorldData" where
  "weekResult g r trends s =
    advanceCareer (updateBurnout (updateImpressions r trends (trackDecline (reachPeak (applyGrowth g s)))))"

text \<open>The bounds of claim C1 for one streamer, and for a world together with the floor of
  50 under every historical peak (no streamer is generated with fewer followers).\<close>

definition in_bounds :: "StreamerWorldData \<Rightarrow> bool" where
  "in_bounds s \<longleftrightarrow> 10 \<le> followers s \<and> 0 \<le> burnout s \<and> burnout s \<le> 100"

definition withinBounds :: "WorldStateData \<Rightarrow> bool" where
  "withinBounds w \<longleftrightarrow> (\<forall>s \<in> set (streamers w). in_bounds s \<and> 50 \<le> peakFollowers s)"

text \<open>Every draw of \<open>Math.random()\<close> lies in \<open>[0, 1)\<close>.\<close>

definition unitDraws :: "Env \<Rightarrow> bool" where
  "unitDraws e \<longleftrightarrow> (\<forall>n. 0 \<le> rand e n \<and> rand e n < 1)"

text \<open>Who employs whom, as the streamer records say it.\<close>

definition employment :: "WorldStateData \<Rightarrow> (string \<times> string option) list" where
  "employment w = map (\<lambda>s. (id_s s, agencyId s)) (streamers w)"

text \<open>
  Roster consistency, as an invariant: ids are unique (of streamer records, of agencies,
  within a roster), and every id of a roster is the id of a streamer whose employer is
  that agency.
\<close>

definition rosterConsistent :: "WorldStateData \<Rightarrow> bool" where
  "rosterConsistent w \<longleftrightarrow>
     distinct (map id_s (streamers w))
     \<and> distinct (map id_a (agencies w))
     \<and> (\<forall>a \<in> set (agencies w).
           distinct (roster a)
           \<and> (\<forall>i \<in> set (roster a).
                 \<exists>s \<in> set (streamers w). id_s s = i \<and> agencyId s = Some (id_a a)))"

text \<open>The two halves of claim C2, as the claim words them.\<close>

definition rosterMembersEmployed :: "WorldStateData \<Rightarrow> bool" where
  "rosterMembersEmployed w \<longleftrightarrow>
     (\<forall>a \<in> set (agencies w). \<forall>i \<in> set (roster a).
        \<exists>s. getStreamer w i = Some s \<and> agencyId s = Some (id_a a))"

definition noSharedMember :: "WorldStateData \<Rightarrow> bool" where
  "noSharedMember w \<longleftrightarrow>
     (\<forall>k < length (agencies w). \<forall>l < length (agencies w).
        k \<noteq> l \<longrightarrow> set (roster (agencies w ! k)) \<inter> set (roster (agencies w ! l)) = {})"

section \<open>Verified properties\<close>

subsection \<open>Lookups after an update\<close>

lemma find_map_update:
  assumes "\<And>x. key (f x) = key x"
  shows "find (\<lambda>x. key x = i) (map (\<lambda>x. if key x = j then f x else x) xs) =
         (if i = j then map_option f (find (\<lambda>x. key x = i) xs) else find (\<lambda>x. key x = i) xs)"
  using assms by (induction xs) auto

lemma find_updateFirst:
  assumes "\<And>x. key (f x) = key x"
  shows "find (\<lambda>x. key x = i) (updateFirst (\<lambda>x. key x = j) f xs) =
         (if i = j then map_option f (find (\<lambda>x. key x = i) xs) else find (\<lambda>x. key x = i) xs)"
  using assms by (induction xs) auto

lemma getStreamer_updateStreamer:
  assumes "\<And>s. id_s (f s) = id_s s"
  shows "getStreamer (updateStreamer j f w) i =
         (if i = j then map_option f (getStreamer w i) else getStreamer w i)"
  using assms by (simp add: getStreamer_def updateStreamer_def find_map_update)

lemma getAgency_updateAgency:
  assumes "\<And>a. id_a (f a) = id_a a"
  shows "getAgency (updateAgency j f w) i =
         (if i = j then map_option f (getAgency w i) else getAgency w i)"
  using assms by (simp add: getAgency_def updateAgency_def find_updateFirst)

lemma getStreamer_frame [simp]:
  "getStreamer (w\<lparr>freeAgentIds := x\<rparr>) = getStreamer w"
  "getStreamer (w\<lparr>agencies := y\<rparr>) = getStreamer w"
  "getStreamer (updateAgency j g w) = getStreamer w"
  by (simp_all add: getStreamer_def updateAgency_def fun_eq_iff)

lemma getAgency_frame [simp]:
  "getAgency (w\<lparr>freeAgentIds := x\<rparr>) = getAgency w"
  "getAgency (w\<lparr>streamers := z\<rparr>) = getAgency w"
  "getAgency (updateStreamer j f w) = getAgency w"
  by (simp_all add: getAgency_def updateStreamer_def fun_eq_iff)

lemma freeAgentIds_frame [simp]:
  "freeAgentIds (updateStreamer j f w) = freeAgentIds w"
  "freeAgentIds (updateAgency j g w) = freeAgentIds w"
  by (simp_all add: updateStreamer_def updateAgency_def)

subsection \<open>The sample data, field by field\<close>

lemma sample_fields:
  "followers sample_streamer = 40000" "stats sample_streamer = sample_stats"
  "age sample_streamer = Some 25" "experienceYears sample_streamer = Some 1"
  "burnout sample_streamer = 95" "genre sample_streamer = GAMING"
  "platform sample_streamer = SWITCH" "id_s sample_streamer = ''streamer_1''"
  "agencyId sample_streamer = None" "peakFollowers sample_streamer = 40000"
  "retiredWeek sample_streamer = None"
  by (simp_all add: sample_streamer_def)

lemma sample_stats_fields:
  "charisma sample_stats = 5" "consistency sample_stats = 9" "dramaRisk sample_stats = 5"
  "skill sample_stats = 5" "adaptability sample_stats = 5" "loyalty sample_stats = 5"
  "ambition sample_stats = 5"
  by (simp_all add: sample_stats_def)

lemma sample_expect:
  "generateExpectations 40000 5 9 =
    \<lparr> signingBonus = 1000, revenueSplit = 0.44, lengthDays = 60, exclusivity = False \<rparr>"
  by (simp add: generateExpectations_def Math_floor_def Math_round_def Let_def)

lemma sample_score: "evaluateOffer sample_offer (generateExpectations 40000 5 9) = 32"
  by (simp add: sample_expect evaluateOffer_def sample_offer_def Let_def)

lemma sample_cost: "estimateSigningCost sample_streamer = 1160"
  apply (simp only: estimateSigningCost_def Let_def sample_fields sample_stats_fields option.case)
  apply (simp add: Math_floor_def)
  done

lemma start_sample:
  "currentProspect (startNegotiation sample_data sample_scene) = Some sample_data"
  "money_p (agency (startNegotiation sample_data sample_scene)) = 10000"
  "\<exists>st. negotiationState (startNegotiation sample_data sample_scene) = Some st
      \<and> round' st = 1 \<and> maxRounds st = 4
      \<and> streamerExpectations st = generateExpectations 40000 5 9"
  by (simp_all add: startNegotiation_def Let_def sample_scene_def sample_data_def sample_stats_def)

subsection \<open>Signing into an agency\<close>

text \<open>
  Claim C10. \<open>signStreamerToAgency\<close> returns false and leaves the whole world state (every
  streamer record, every agency roster, the free-agent list) unchanged whenever the
  streamer id is unknown, the streamer has an employer already, or the agency id is
  unknown. It returns true exactly for an existing streamer without employer and an
  existing agency; then the id leaves the free-agent list (its first occurrence), the
  agency's roster gains the id at its end, the streamer's employer is the agency, and
  every other streamer and agency is as before.
\<close>

theorem signStreamerToAgency_guard:
  "(getStreamer w sid = None \<or> (\<exists>s. getStreamer w sid = Some s \<and> agencyId s \<noteq> None)
      \<or> getAgency w agid = None
     \<longrightarrow> signStreamerToAgency sid agid w = (False, w))
   \<and> (fst (signStreamerToAgency sid agid w)
        \<longleftrightarrow> (\<exists>s. getStreamer w sid = Some s \<and> agencyId s = None) \<and> getAgency w agid \<noteq> None)
   \<and> (\<forall>s a. getStreamer w sid = Some s \<and> agencyId s = None \<and> getAgency w agid = Some a \<longrightarrow>
        (let w' = snd (signStreamerToAgency sid agid w)
         in freeAgentIds w' = remove1 sid (freeAgentIds w)
            \<and> getAgency w' agid = Some (a\<lparr>roster := roster a @ [sid]\<rparr>)
            \<and> getStreamer w' sid = Some (s\<lparr>agencyId := Some agid\<rparr>)
            \<and> (\<forall>i. i \<noteq> sid \<longrightarrow> getStreamer w' i = getStreamer w i)
            \<and> (\<forall>j. j \<noteq> agid \<longrightarrow> getAgency w' j = getAgency w j)))"
  by (auto simp: signStreamerToAgency_def Let_def getStreamer_updateStreamer
      getAgency_updateAgency split: option.splits)

theorem signStreamerToAgency_guard_witness:
  "getStreamer sample_world ''nobody'' = None
   \<and> signStreamerToAgency ''nobody'' ''nova_management'' sample_world = (False, sample_world)
   \<and> getStreamer sample_world ''streamer_1'' = Some sample_streamer
   \<and> agencyId sample_streamer = None
   \<and> getAgency sample_world ''nova_management'' = Some sample_agency
   \<and> fst (signStreamerToAgency ''streamer_1'' ''nova_management'' sample_world)
   \<and> freeAgentIds (snd (signStreamerToAgency ''streamer_1'' ''nova_management'' sample_world)) = []
   \<and> getAgency (snd (signStreamerToAgency ''streamer_1'' ''nova_management'' sample_world))
        ''nova_management'' = Some (sample_agency\<lparr>roster := [''streamer_1'']\<rparr>)"
proof -
  have a: "getStreamer sample_world ''nobody'' = None"
    by (simp add: getStreamer_def sample_world_def sample_streamer_def)
  have b: "getStreamer sample_world ''streamer_1'' = Some sample_streamer"
    by (simp add: getStreamer_def sample_world_def sample_streamer_def)
  have c: "agencyId sample_streamer = None"
    by (simp add: sample_fields)
  have d: "getAgency sample_world ''nova_management'' = Some sample_agency"
    by (simp add: getAgency_def sample_world_def sample_agency_def)
  have e: "freeAgentIds sample_world = [''streamer_1'']" "roster sample_agency = []"
    by (simp_all add: sample_world_def sample_agency_def)
  from signStreamerToAgency_guard [of sample_world "''nobody''" "''nova_management''"] a
  have 1: "signStreamerToAgency ''nobody'' ''nova_management'' sample_world = (False, sample_world)"
    by blast
  from signStreamerToAgency_guard [of sample_world "''streamer_1''" "''nova_management''"] b c d e
  show ?thesis using a 1 by (simp add: Let_def)
qed

subsection \<open>The walk decision\<close>

text \<open>
  Claim C6, as stated: the walk floors loosen as rounds progress, so that a later round
  tolerates every score an earlier round tolerates. The source does the opposite (its
  comment reads "more tolerant in early rounds"): a score of 17 is tolerated in round 1
  and makes the counterpart walk in round 2.
\<close>

theorem walk_floor_counterexample: "(1::real) < 2 \<and> willWalk 17 2 \<and> \<not> willWalk 17 1"
  by (simp add: willWalk_def)

text \<open>
  Claim C6, amended. The walk decision is a function of score and round alone: in round 1
  the counterpart walks exactly when the score is below 15, in round 2 below 20, in every
  round from 3 on below 30. The floors rise with the rounds, so a score that makes the
  counterpart walk in a round makes it walk in every later round. Within a round
  \<open>makeOffer\<close> consults the walk check before the accept check: an affordable offer whose
  score is below the floor ends in a walk, whatever the accept check would say.
\<close>

theorem walk_floors_rise:
  fixes r1 r2 :: nat
  assumes "1 \<le> r1" and "r1 \<le> r2"
  shows "(willWalk score (real r1)
            \<longleftrightarrow> score < (if r1 = 1 then 15 else if r1 = 2 then 20 else 30))
       \<and> (willWalk score (real r1) \<longrightarrow> willWalk score (real r2))
       \<and> (currentProspect sc = Some p \<and> negotiationState sc = Some st
            \<and> signingBonus terms \<le> money_p (agency sc)
            \<and> willWalk (evaluateOffer terms (streamerExpectations st)) (round' st)
           \<longrightarrow> fst (makeOffer terms sc) = Walked)"
  using assms by (auto simp: willWalk_def makeOffer_def Let_def)

theorem walk_floors_rise_witness:
  "(1::nat) \<le> 1 \<and> (1::nat) \<le> 2
   \<and> \<not> willWalk 17 (real 1) \<and> willWalk 10 (real 1) \<and> willWalk 10 (real 2)
   \<and> (let sc0 = startNegotiation sample_data sample_scene;
          sc = sc0\<lparr>negotiationState := map_option (\<lambda>st. st\<lparr>round' := 6\<rparr>) (negotiationState sc0)\<rparr>;
          terms = sample_offer\<lparr>signingBonus := 240\<rparr>
      in willWalk (evaluateOffer terms (generateExpectations 40000 5 9)) 6
         \<and> willAccept (evaluateOffer terms (generateExpectations 40000 5 9)) 6
         \<and> fst (makeOffer terms sc) = Walked)"
proof -
  define sc0 where "sc0 = startNegotiation sample_data sample_scene"
  define sc where "sc = sc0\<lparr>negotiationState := map_option (\<lambda>st. st\<lparr>round' := 6\<rparr>) (negotiationState sc0)\<rparr>"
  define terms where "terms = sample_offer\<lparr>signingBonus := 240\<rparr>"
  obtain st0 where s0: "currentProspect sc0 = Some sample_data" "money_p (agency sc0) = 10000"
    "negotiationState sc0 = Some st0" "streamerExpectations st0 = generateExpectations 40000 5 9"
    using start_sample unfolding sc0_def by blast
  have sc: "currentProspect sc = Some sample_data" "negotiationState sc = Some (st0\<lparr>round' := 6\<rparr>)"
    "money_p (agency sc) = 10000"
    using s0 by (simp_all add: sc_def)
  have e: "evaluateOffer terms (generateExpectations 40000 5 9) = 27.2"
    by (simp add: terms_def sample_expect evaluateOffer_def sample_offer_def Let_def)
  have ww: "willWalk (evaluateOffer terms (generateExpectations 40000 5 9)) 6"
    "willAccept (evaluateOffer terms (generateExpectations 40000 5 9)) 6"
    unfolding e by (simp_all add: willWalk_def willAccept_def)
  have b: "signingBonus terms \<le> money_p (agency sc)" by (simp add: sc terms_def)
  have x: "\<not> willWalk 17 (real 1)" by (simp add: willWalk_def)
  from walk_floors_rise [of 1 2 10 sc sample_data "st0\<lparr>round' := 6\<rparr>" terms] sc b ww s0
  have "willWalk 10 (real 1) \<and> willWalk 10 (real 2) \<and> fst (makeOffer terms sc) = Walked"
    by simp
  with x ww show ?thesis
    unfolding Let_def sc0_def [symmetric] sc_def [symmetric] terms_def [symmetric] by simp
qed

subsection \<open>The round ceiling\<close>

lemma makeOffer_countered:
  assumes "currentProspect sc = Some p" and "negotiationState sc = Some st"
    and "signingBonus terms \<le> money_p (agency sc)"
    and "\<not> willWalk (evaluateOffer terms (streamerExpectations st)) (round' st)"
    and "\<not> willAccept (evaluateOffer terms (streamerExpectations st)) (round' st)"
  shows "fst (makeOffer terms sc) = Countered"
    and "currentProspect (snd (makeOffer terms sc)) = Some p"
    and "money_p (agency (snd (makeOffer terms sc))) = money_p (agency sc)"
    and "\<exists>st'. negotiationState (snd (makeOffer terms sc)) = Some st'
           \<and> round' st' = round' st + 1 \<and> maxRounds st' = maxRounds st
           \<and> streamerExpectations st' = streamerExpectations st"
  using assms by (auto simp: makeOffer_def Let_def saveNegotiationState_def)

lemma makeOffer_accepted:
  assumes "currentProspect sc = Some p" and "negotiationState sc = Some st"
    and "signingBonus terms \<le> money_p (agency sc)"
    and "\<not> willWalk (evaluateOffer terms (streamerExpectations st)) (round' st)"
    and "willAccept (evaluateOffer terms (streamerExpectations st)) (round' st)"
  shows "fst (makeOffer terms sc) = Accepted"
  using assms by (auto simp: makeOffer_def Let_def)

text \<open>From round 5 on the accept threshold is at most the walk floor of 30, so every
  affordable offer is answered by a walk or an acceptance.\<close>

lemma makeOffer_resolves_from_round_5:
  assumes "currentProspect sc = Some p" and "negotiationState sc = Some st"
    and "signingBonus terms \<le> money_p (agency sc)" and "round' st \<ge> 5"
  shows "fst (makeOffer terms sc) = Walked \<or> fst (makeOffer terms sc) = Accepted"
  using assms by (auto simp: makeOffer_def Let_def willWalk_def willAccept_def)

text \<open>
  Claim C5 says that a negotiation with round ceiling \<open>K\<close> resolves within \<open>K\<close> rounds
  and never continues past round \<open>K\<close>. The source's branch for the final round
  (commented "Final round, they walk if not accepted") answers with one more counter-offer
  and increments the round. Here the scouting negotiation (ceiling 4) is started for the
  sample streamer and the same low offer, of score 32, is submitted each round: the
  fourth offer, in round 4, is countered, the negotiation stays open in round 5, and the
  fifth offer is accepted there.
\<close>

theorem negotiation_passes_round_ceiling:
  "(let sc0 = startNegotiation sample_data sample_scene;
        sc1 = snd (makeOffer sample_offer sc0);
        sc2 = snd (makeOffer sample_offer sc1);
        sc3 = snd (makeOffer sample_offer sc2);
        sc4 = snd (makeOffer sample_offer sc3)
    in map_option maxRounds (negotiationState sc3) = Some 4
       \<and> map_option round' (negotiationState sc3) = Some 4
       \<and> fst (makeOffer sample_offer sc3) = Countered
       \<and> map_option round' (negotiationState sc4) = Some 5
       \<and> fst (makeOffer sample_offer sc4) = Accepted)"
proof -
  define sc0 where "sc0 = startNegotiation sample_data sample_scene"
  define sc1 where "sc1 = snd (makeOffer sample_offer sc0)"
  define sc2 where "sc2 = snd (makeOffer sample_offer sc1)"
  define sc3 where "sc3 = snd (makeOffer sample_offer sc2)"
  define sc4 where "sc4 = snd (makeOffer sample_offer sc3)"
  have b: "signingBonus sample_offer = 400" by (simp add: sample_offer_def)
  obtain st0 where s0: "currentProspect sc0 = Some sample_data" "money_p (agency sc0) = 10000"
    "negotiationState sc0 = Some st0" "round' st0 = 1" "maxRounds st0 = 4"
    "streamerExpectations st0 = generateExpectations 40000 5 9"
    using start_sample unfolding sc0_def by blast
  have w0: "\<not> willWalk (evaluateOffer sample_offer (streamerExpectations st0)) (round' st0)"
       "\<not> willAccept (evaluateOffer sample_offer (streamerExpectations st0)) (round' st0)"
    using s0 by (simp_all add: sample_score willWalk_def willAccept_def)
  obtain st1 where s1: "currentProspect sc1 = Some sample_data" "money_p (agency sc1) = 10000"
    "negotiationState sc1 = Some st1" "round' st1 = 2" "maxRounds st1 = 4"
    "streamerExpectations st1 = generateExpectations 40000 5 9"
    using makeOffer_countered [OF s0(1) s0(3) _ w0] s0 b unfolding sc1_def by auto
  have w1: "\<not> willWalk (evaluateOffer sample_offer (streamerExpectations st1)) (round' st1)"
       "\<not> willAccept (evaluateOffer sample_offer (streamerExpectations st1)) (round' st1)"
    using s1 by (simp_all add: sample_score willWalk_def willAccept_def)
  obtain st2 where s2: "currentProspect sc2 = Some sample_data" "money_p (agency sc2) = 10000"
    "negotiationState sc2 = Some st2" "round' st2 = 3" "maxRounds st2 = 4"
    "streamerExpectations st2 = generateExpectations 40000 5 9"
    using makeOffer_countered [OF s1(1) s1(3) _ w1] s1 b unfolding sc2_def by auto
  have w2: "\<not> willWalk (evaluateOffer sample_offer (streamerExpectations st2)) (round' st2)"
       "\<not> willAccept (evaluateOffer sample_offer (streamerExpectations st2)) (round' st2)"
    using s2 by (simp_all add: sample_score willWalk_def willAccept_def)
  obtain st3 where s3: "currentProspect sc3 = Some sample_data" "money_p (agency sc3) = 10000"
    "negotiationState sc3 = Some st3" "round' st3 = 4" "maxRounds st3 = 4"
    "streamerExpectations st3 = generateExpectations 40000 5 9"
    using makeOffer_countered [OF s2(1) s2(3) _ w2] s2 b unfolding sc3_def by auto
  have w3: "\<not> willWalk (evaluateOffer sample_offer (streamerExpectations st3)) (round' st3)"
       "\<not> willAccept (evaluateOffer sample_offer (streamerExpectations st3)) (round' st3)"
    using s3 by (simp_all add: sample_score willWalk_def willAccept_def)
  have c3: "fst (makeOffer sample_offer sc3) = Countered"
    using makeOffer_countered(1) [OF s3(1) s3(3) _ w3] s3 b by simp
  obtain st4 where s4: "currentProspect sc4 = Some sample_data" "money_p (agency sc4) = 10000"
    "negotiationState sc4 = Some st4" "round' st4 = 5" "maxRounds st4 = 4"
    "streamerExpectations st4 = generateExpectations 40000 5 9"
    using makeOffer_countered [OF s3(1) s3(3) _ w3] s3 b unfolding sc4_def by auto
  have w4: "\<not> willWalk (evaluateOffer sample_offer (streamerExpectations st4)) (round' st4)"
       "willAccept (evaluateOffer sample_offer (streamerExpectations st4)) (round' st4)"
    using s4 by (simp_all add: sample_score willWalk_def willAccept_def)
  have c4: "fst (makeOffer sample_offer sc4) = Accepted"
    using makeOffer_accepted [OF s4(1) s4(3) _ w4] s4 b by simp
  show ?thesis
    using s3 c3 s4 c4
    unfolding Let_def sc0_def [symmetric] sc1_def [symmetric] sc2_def [symmetric]
      sc3_def [symmetric] sc4_def [symmetric]
    by simp
qed

subsection \<open>A week of full rest\<close>

text \<open>
  Claim C9. For a schedule with the full-rest flag set, the burnout change of the week is
  exactly minus the recovery constant 25, whatever the stats (the consistency stat does
  not enter), the burnout after \<open>applyWeeklyChanges\<close> is the old burnout minus 25
  clamped into \<open>[0, 100]\<close>, and the weekly streaming revenue is zero.
\<close>

theorem full_rest_week:
  assumes "takingBreak schedule"
  shows "calculateBurnoutChange s schedule = - BREAK_RECOVERY_RATE
       \<and> BREAK_RECOVERY_RATE = 25
       \<and> calculateBurnoutChange (s\<lparr>stats := st\<rparr>) schedule = calculateBurnoutChange s schedule
       \<and> burnout (snd (fst (applyWeeklyChanges s schedule e))) = max 0 (min 100 (burnout s - 25))
       \<and> getWeeklyStreamingRevenue s schedule = 0"
  using assms
  by (simp add: applyWeeklyChanges_def calculateWeeklyGrowth_def getWeeklyViews_def
      calculateBurnoutChange_def BREAK_RECOVERY_RATE_def getWeeklyStreamingRevenue_def Let_def)

text \<open>The scenario of the claim: burnout 95 and consistency 9 on a full-rest schedule
  give burnout 70 and revenue 0.\<close>

theorem full_rest_week_witness:
  "takingBreak sample_rest \<and> burnout sample_data = 95 \<and> consistency (stats sample_data) = 9
   \<and> burnout (snd (fst (applyWeeklyChanges sample_data sample_rest sample_env))) = 70
   \<and> getWeeklyStreamingRevenue sample_data sample_rest = 0"
proof -
  have t: "takingBreak sample_rest" by (simp add: sample_rest_def)
  have b: "burnout sample_data = 95" "consistency (stats sample_data) = 9"
    by (simp_all add: sample_data_def sample_stats_def)
  from full_rest_week [OF t, of sample_data _ sample_env] t b show ?thesis by simp
qed

subsection \<open>The revenue of an AI agency\<close>

lemma affinity_or_1_eq: "affinity_or_1 g p = genre_platformAffinity g p"
  by (cases g; cases p) (simp_all add: affinity_or_1_def)

lemma fold_plus_sum:
  "fold (\<lambda>x acc. acc + f x) xs (a::real) = a + sum_list (map f xs)"
  by (induction xs arbitrary: a) simp_all

text \<open>
  Claim C7, as stated: the agency's revenue from a rostered streamer is the player-facing
  formula at the default allocation, consistency bonus and piecewise burnout penalty
  included, times the split fraction, for all attributes. For the sample streamer
  (consistency 9, burnout 95) the source computes 257.4 and the player-facing formula
  198.36.
\<close>

theorem ai_revenue_counterexample:
  "streamerRevenue sample_streamer * 0.5 \<noteq> spec_agencyShare sample_streamer"
  apply (simp only: streamerRevenue_def spec_agencyShare_def totalStreamingRevenue_def
      platformRevenue_def createDefaultSchedule_def getBurnoutPenalty_def affinity_or_1_eq
      sample_fields sample_stats_fields HOURS_DEFAULT_PER_WEEK_def HOURS_MIN_PER_PLATFORM_def
      BURNOUT_HEAVY_THRESHOLD_def BASE_WEEKLY_REVENUE_PER_1K_FOLLOWERS_PER_HOUR_def Let_def)
  apply simp
  done

text \<open>
  Claim C7, amended. The source's revenue of a rostered streamer has the factors of the
  player-facing formula at thirty hours on the streamer's platform except two: it has no
  consistency bonus, and its burnout penalty is the linear \<open>1 - 0.3 * burnout / 100\<close>
  in place of the piecewise one. So the two computations agree when the consistency stat
  is 5 and the burnout is 0, not for all attributes. The agency's weekly revenue is the
  floor of the sum over its roster of half that revenue.
\<close>

theorem ai_revenue_shape:
  "streamerRevenue s * (1 + (consistency (stats s) - 5) * 0.04) * getBurnoutPenalty s
     = totalStreamingRevenue s (createDefaultSchedule (id_s s) (platform s))
         * (1 - (burnout s / 100) * 0.3)
   \<and> (consistency (stats s) = 5 \<and> burnout s = 0
        \<longrightarrow> streamerRevenue s * 0.5 = spec_agencyShare s)
   \<and> (k < length (agencies w) \<longrightarrow>
        weeklyRevenue (agencies (calculateWeeklyRevenue k w) ! k)
          = Math_floor (sum_list (map (\<lambda>s. streamerRevenue s * 0.5)
                                    (getAgencyRoster w (id_a (agencies w ! k))))))"
  by (simp add: streamerRevenue_def spec_agencyShare_def totalStreamingRevenue_def
      platformRevenue_def createDefaultSchedule_def getBurnoutPenalty_def affinity_or_1_eq
      HOURS_DEFAULT_PER_WEEK_def HOURS_MIN_PER_PLATFORM_def
      BURNOUT_HEAVY_THRESHOLD_def BASE_WEEKLY_REVENUE_PER_1K_FOLLOWERS_PER_HOUR_def Let_def
      calculateWeeklyRevenue_def updateAgencyAt_def fold_plus_sum)

theorem ai_revenue_shape_witness:
  "(let s = sample_streamer\<lparr>stats := sample_stats\<lparr>consistency := 5\<rparr>, burnout := 0\<rparr>
    in consistency (stats s) = 5 \<and> burnout s = 0
       \<and> streamerRevenue s * 0.5 = spec_agencyShare s \<and> spec_agencyShare s = 360)
   \<and> (let w = snd (signStreamerToAgency ''streamer_1'' ''nova_management'' sample_world)
      in 0 < length (agencies w)
         \<and> getAgencyRoster w (id_a (agencies w ! 0))
             = [sample_streamer\<lparr>agencyId := Some ''nova_management''\<rparr>]
         \<and> weeklyRevenue (agencies (calculateWeeklyRevenue 0 w) ! 0) = 257)"
proof -
  define s where "s = sample_streamer\<lparr>stats := sample_stats\<lparr>consistency := 5\<rparr>, burnout := 0\<rparr>"
  define w where "w = snd (signStreamerToAgency ''streamer_1'' ''nova_management'' sample_world)"
  have w: "w = sample_world\<lparr> streamers := [sample_streamer\<lparr>agencyId := Some ''nova_management''\<rparr>],
      agencies := [sample_agency\<lparr>roster := [''streamer_1'']\<rparr>], freeAgentIds := [] \<rparr>"
    unfolding w_def
    by (simp add: signStreamerToAgency_def getStreamer_def getAgency_def updateStreamer_def
        updateAgency_def Let_def sample_world_def sample_streamer_def sample_agency_def)
  have h1: "consistency (stats s) = 5 \<and> burnout s = 0"
    by (simp add: s_def sample_stats_def)
  have v: "streamerRevenue s = 720"
    by (simp add: s_def streamerRevenue_def sample_streamer_def sample_stats_def
        HOURS_DEFAULT_PER_WEEK_def BASE_WEEKLY_REVENUE_PER_1K_FOLLOWERS_PER_HOUR_def Let_def)
  have h2: "0 < length (agencies w)" by (simp add: w sample_world_def)
  have r: "getAgencyRoster w (id_a (agencies w ! 0))
             = [sample_streamer\<lparr>agencyId := Some ''nova_management''\<rparr>]"
    by (simp add: w getAgencyRoster_def getAgency_def lookupAll_def getStreamer_def
        List.map_filter_def sample_world_def sample_agency_def sample_streamer_def)
  have v2: "streamerRevenue (sample_streamer\<lparr>agencyId := Some ''nova_management''\<rparr>) = 2574 / 5"
    by (simp add: streamerRevenue_def sample_streamer_def sample_stats_def
        HOURS_DEFAULT_PER_WEEK_def BASE_WEEKLY_REVENUE_PER_1K_FOLLOWERS_PER_HOUR_def Let_def)
  have f: "Math_floor (2574 / 5 / 2) = 257" by (simp add: Math_floor_def)
  from ai_revenue_shape [of s 0 w] h1 h2 v r v2 f
  show ?thesis
    unfolding Let_def s_def [symmetric] w_def [symmetric] by simp
qed

subsection \<open>Signing without the funds\<close>

lemma signLoop_unaffordable:
  assumes "\<forall>p \<in> set ps. money (agencies (world sim) ! k) < estimateSigningCost (streamer_pr p)"
  shows "signLoop i n ps k sim = sim"
  using assms by (induction ps arbitrary: i) (auto simp: signAttempt_def Let_def)

text \<open>
  Claim C8. When the estimated signing cost of a prospect exceeds the agency's money, the
  pass of the signing loop for that prospect returns the state as it was (money, rosters,
  every streamer's employer, the news, the random stream); when this holds for every
  ranked prospect, \<open>scoutAndSign\<close> changes nothing at all. A player offer whose signing
  bonus exceeds the player's money leaves the scene (negotiation state and funds) as it
  was, and in a running negotiation the outcome is the "cannot afford" result.
\<close>

theorem cannot_afford_no_mutation:
  "(money (agencies (world sim) ! k) < estimateSigningCost (streamer_pr prospect)
      \<longrightarrow> signAttempt k prospect sim = sim)
   \<and> ((\<forall>p \<in> set (rankProspectsForAgency (getFreeAgents (world sim)) (agencies (world sim) ! k)).
          money (agencies (world sim) ! k) < estimateSigningCost (streamer_pr p))
      \<longrightarrow> scoutAndSign k sim = sim)
   \<and> (signingBonus terms > money_p (agency sc)
      \<longrightarrow> snd (makeOffer terms sc) = sc
          \<and> (currentProspect sc \<noteq> None \<and> negotiationState sc \<noteq> None
               \<longrightarrow> fst (makeOffer terms sc) = CannotAfford))"
  by (auto simp: signAttempt_def scoutAndSign_def Let_def signLoop_unaffordable makeOffer_def
      split: option.splits)

theorem cannot_afford_no_mutation_witness:
  "(let p = \<lparr> streamer_pr = sample_streamer,
               score_pr = prospectScore sample_streamer sample_agency \<rparr>
    in money (agencies (world sample_sim) ! 0) = 100
       \<and> estimateSigningCost (streamer_pr p) = 1160
       \<and> rankProspectsForAgency (getFreeAgents (world sample_sim)) (agencies (world sample_sim) ! 0) = [p]
       \<and> signAttempt 0 p sample_sim = sample_sim
       \<and> scoutAndSign 0 sample_sim = sample_sim)
   \<and> (let sc = startNegotiation sample_data sample_scene;
          terms = sample_offer\<lparr>signingBonus := 20000\<rparr>
      in money_p (agency sc) = 10000 \<and> signingBonus terms = 20000
         \<and> currentProspect sc \<noteq> None \<and> negotiationState sc \<noteq> None
         \<and> makeOffer terms sc = (CannotAfford, sc))"
proof -
  define p where "p = \<lparr> streamer_pr = sample_streamer,
               score_pr = prospectScore sample_streamer sample_agency \<rparr>"
  define sc where "sc = startNegotiation sample_data sample_scene"
  define terms where "terms = sample_offer\<lparr>signingBonus := 20000\<rparr>"
  have m: "money (agencies (world sample_sim) ! 0) = 100"
    by (simp add: sample_sim_def sample_world_def sample_agency_def)
  have a: "agencies (world sample_sim) ! 0 = sample_agency"
    by (simp add: sample_sim_def sample_world_def)
  have c: "estimateSigningCost (streamer_pr p) = 1160"
    by (simp add: p_def sample_cost)
  have f: "getFreeAgents (world sample_sim) = [sample_streamer]"
    by (simp add: getFreeAgents_def lookupAll_def List.map_filter_def getStreamer_def
        sample_sim_def sample_world_def sample_fields)
  have r: "rankProspectsForAgency (getFreeAgents (world sample_sim))
             (agencies (world sample_sim) ! 0) = [p]"
    unfolding f a by (simp add: rankProspectsForAgency_def p_def)
  have s: "money_p (agency sc) = 10000" "currentProspect sc \<noteq> None" "negotiationState sc \<noteq> None"
    using start_sample unfolding sc_def by auto
  have t: "signingBonus terms = 20000" by (simp add: terms_def)
  from cannot_afford_no_mutation
         [where sim = sample_sim and k = 0 and prospect = p and terms = terms and sc = sc]
       m c r s t
  have "signAttempt 0 p sample_sim = sample_sim \<and> scoutAndSign 0 sample_sim = sample_sim
        \<and> makeOffer terms sc = (CannotAfford, sc)"
    by (simp add: prod_eq_iff)
  with m c r s t show ?thesis
    unfolding Let_def p_def [symmetric] sc_def [symmetric] terms_def [symmetric] by simp
qed

subsection \<open>News events touch the news feed and the environment only\<close>

lemma addNewsEvent_world:
  "\<exists>ns. world (addNewsEvent ty a b sim) = (world sim)\<lparr>newsEvents := ns\<rparr>"
  by (auto simp: addNewsEvent_def Let_def split: prod.splits)

lemma addNewsEvent_fields [simp]:
  "streamers (world (addNewsEvent ty a b sim)) = streamers (world sim)"
  "agencies (world (addNewsEvent ty a b sim)) = agencies (world sim)"
  "freeAgentIds (world (addNewsEvent ty a b sim)) = freeAgentIds (world sim)"
  "retiredIds (world (addNewsEvent ty a b sim)) = retiredIds (world sim)"
  "activeTrends (world (addNewsEvent ty a b sim)) = activeTrends (world sim)"
  "weeklySnapshots (world (addNewsEvent ty a b sim)) = weeklySnapshots (world sim)"
  "weekNumber (world (addNewsEvent ty a b sim)) = weekNumber (world sim)"
  "Sim.more (addNewsEvent ty a b sim) = Sim.more sim"
  by (simp_all add: addNewsEvent_def Let_def split: prod.splits)

lemma addNewsEvent_result [simp]:
  "result (addNewsEvent ty a b tk) = result tk"
  by (simp add: addNewsEvent_def Let_def split: prod.splits)

lemma addNewsEvent_lookup [simp]:
  "getStreamer (world (addNewsEvent ty a b sim)) = getStreamer (world sim)"
  "getAgency (world (addNewsEvent ty a b sim)) = getAgency (world sim)"
  by (simp_all add: getStreamer_def getAgency_def fun_eq_iff)

subsection \<open>The trend engine\<close>

lemma expireTrends_effect:
  assumes "i \<le> length (activeTrends (world tk))"
  shows "activeTrends (world (expireTrends i tk))
           = filter (\<lambda>t. \<not> expired t) (map decrement (take i (activeTrends (world tk))))
               @ drop i (activeTrends (world tk))
       \<and> ended (trendChanges (result (expireTrends i tk)))
           = ended (trendChanges (result tk))
               @ rev (filter expired (map decrement (take i (activeTrends (world tk)))))
       \<and> started (trendChanges (result (expireTrends i tk))) = started (trendChanges (result tk))"
  using assms
proof (induction i arbitrary: tk)
  case 0
  then show ?case by simp
next
  case (Suc i)
  let ?ts = "activeTrends (world tk)"
  let ?t = "decrement (?ts ! i)"
  from Suc.prems have i: "i < length ?ts" by simp
  have tk: "take (Suc i) ?ts = take i ?ts @ [?ts ! i]"
    using i by (simp add: take_Suc_conv_app_nth)
  show ?case
  proof (cases "expired ?t")
    case True
    let ?tk1 = "tk\<lparr> world := (world tk)\<lparr>activeTrends := take i ?ts @ drop (Suc i) ?ts\<rparr>,
                     result := (result tk)\<lparr>trendChanges :=
                       (trendChanges (result tk))\<lparr>ended := ended (trendChanges (result tk)) @ [?t]\<rparr>\<rparr> \<rparr>"
    let ?tk2 = "addNewsEvent trend None None ?tk1"
    have e: "expireTrends (Suc i) tk = expireTrends i ?tk2"
      using True by (simp add: Let_def decrement_def expired_def)
    have a: "activeTrends (world ?tk2) = take i ?ts @ drop (Suc i) ?ts" by simp
    have l: "i \<le> length (activeTrends (world ?tk2))" using i by (simp add: a)
    have t1: "take i (take i ?ts @ drop (Suc i) ?ts) = take i ?ts" using i by simp
    have d1: "drop i (take i ?ts @ drop (Suc i) ?ts) = drop (Suc i) ?ts" using i by simp
    from Suc.IH [OF l] show ?thesis
      unfolding e a t1 d1 using True by (simp add: tk)
  next
    case False
    let ?tk1 = "tk\<lparr>world := (world tk)\<lparr>activeTrends := ?ts[i := ?t]\<rparr>\<rparr>"
    have e: "expireTrends (Suc i) tk = expireTrends i ?tk1"
      using False by (simp add: Let_def decrement_def expired_def)
    have a: "activeTrends (world ?tk1) = ?ts[i := ?t]" by simp
    have l: "i \<le> length (activeTrends (world ?tk1))" using i by simp
    have d1: "drop i (?ts[i := ?t]) = ?t # drop (Suc i) ?ts"
      using i by (simp add: drop_update_cancel upd_conv_take_nth_drop)
    from Suc.IH [OF l] show ?thesis
      unfolding e a using False by (simp add: tk d1)
  qed
qed

lemma startTrend_effect:
  "\<exists>new. activeTrends (world (startTrend tk)) = activeTrends (world tk) @ new
        \<and> started (trendChanges (result (startTrend tk))) = started (trendChanges (result tk)) @ new
        \<and> ended (trendChanges (result (startTrend tk))) = ended (trendChanges (result tk))
        \<and> length new \<le> 1
        \<and> (new \<noteq> [] \<longrightarrow> length (activeTrends (world tk)) < 3)"
proof (cases "length (activeTrends (world tk)) < 3 \<and> fst (Math_random (env tk)) < 0.20")
  case True
  obtain nt e2 where g: "generateRandomTrend (snd (Math_random (env tk))) = (nt, e2)"
    by (cases "generateRandomTrend (snd (Math_random (env tk)))")
  have "activeTrends (world (startTrend tk)) = activeTrends (world tk) @ [nt]
      \<and> started (trendChanges (result (startTrend tk))) = started (trendChanges (result tk)) @ [nt]
      \<and> ended (trendChanges (result (startTrend tk))) = ended (trendChanges (result tk))"
    using True g by (simp add: startTrend_def Let_def split_beta)
  then show ?thesis using True by (intro exI [of _ "[nt]"]) simp
next
  case False
  have "activeTrends (world (startTrend tk)) = activeTrends (world tk)
      \<and> started (trendChanges (result (startTrend tk))) = started (trendChanges (result tk))
      \<and> ended (trendChanges (result (startTrend tk))) = ended (trendChanges (result tk))"
    using False by (auto simp: startTrend_def Let_def split_beta)
  then show ?thesis by (intro exI [of _ "[]"]) simp
qed

lemma updateTrends_effect:
  "\<exists>new. activeTrends (world (updateTrends tk))
           = filter (\<lambda>t. \<not> expired t) (map decrement (activeTrends (world tk))) @ new
        \<and> started (trendChanges (result (updateTrends tk)))
           = started (trendChanges (result tk)) @ new
        \<and> ended (trendChanges (result (updateTrends tk)))
           = ended (trendChanges (result tk))
               @ rev (filter expired (map decrement (activeTrends (world tk))))
        \<and> length new \<le> 1
        \<and> (new \<noteq> [] \<longrightarrow>
              length (filter (\<lambda>t. \<not> expired t) (map decrement (activeTrends (world tk)))) < 3)"
proof -
  let ?n = "length (activeTrends (world tk))"
  have e: "activeTrends (world (expireTrends ?n tk))
             = filter (\<lambda>t. \<not> expired t) (map decrement (activeTrends (world tk)))"
      "ended (trendChanges (result (expireTrends ?n tk)))
           = ended (trendChanges (result tk))
               @ rev (filter expired (map decrement (activeTrends (world tk))))"
      "started (trendChanges (result (expireTrends ?n tk))) = started (trendChanges (result tk))"
    using expireTrends_effect [of ?n tk] by simp_all
  from startTrend_effect [of "expireTrends ?n tk"] show ?thesis
    unfolding updateTrends_def e by blast
qed

subsection \<open>Frames of the world operations\<close>

lemma updateStreamer_fields [simp]:
  "agencies (updateStreamer i f w) = agencies w"
  "activeTrends (updateStreamer i f w) = activeTrends w"
  "retiredIds (updateStreamer i f w) = retiredIds w"
  "weekNumber (updateStreamer i f w) = weekNumber w"
  "streamers (updateStreamer i f w) = map (\<lambda>s. if id_s s = i then f s else s) (streamers w)"
  by (simp_all add: updateStreamer_def)

lemma updateAgency_fields [simp]:
  "streamers (updateAgency i f w) = streamers w"
  "activeTrends (updateAgency i f w) = activeTrends w"
  "retiredIds (updateAgency i f w) = retiredIds w"
  "weekNumber (updateAgency i f w) = weekNumber w"
  "agencies (updateAgency i f w) = updateFirst (\<lambda>a. id_a a = i) f (agencies w)"
  by (simp_all add: updateAgency_def)

lemma updateAgencyAt_fields [simp]:
  "streamers (updateAgencyAt k f w) = streamers w"
  "activeTrends (updateAgencyAt k f w) = activeTrends w"
  "retiredIds (updateAgencyAt k f w) = retiredIds w"
  "freeAgentIds (updateAgencyAt k f w) = freeAgentIds w"
  "weekNumber (updateAgencyAt k f w) = weekNumber w"
  "agencies (updateAgencyAt k f w) = (agencies w)[k := f (agencies w ! k)]"
  by (simp_all add: updateAgencyAt_def)

lemma employment_simps [simp]:
  "employment (w\<lparr>freeAgentIds := x\<rparr>) = employment w"
  "employment (w\<lparr>retiredIds := y\<rparr>) = employment w"
  "employment (w\<lparr>agencies := z\<rparr>) = employment w"
  "employment (w\<lparr>newsEvents := n\<rparr>) = employment w"
  "employment (w\<lparr>activeTrends := t\<rparr>) = employment w"
  "employment (w\<lparr>weeklySnapshots := sn\<rparr>) = employment w"
  "employment (updateAgency i f w) = employment w"
  "employment (updateAgencyAt k f w) = employment w"
  by (simp_all add: employment_def)

lemma employment_updateStreamer:
  assumes "\<And>s. id_s (f s) = id_s s" "\<And>s. agencyId (f s) = agencyId s"
  shows "employment (updateStreamer i f w) = employment w"
  using assms by (simp add: employment_def)

lemma map_id_employment: "map id_s (streamers w) = map fst (employment w)"
  by (simp add: employment_def comp_def)

lemma find_key_Some:
  "find (\<lambda>x. key x = i) xs = Some s \<Longrightarrow> s \<in> set xs \<and> key s = i"
  by (induction xs) (auto split: if_splits)

lemma find_key_None:
  "find (\<lambda>x. key x = i) xs = None \<longleftrightarrow> i \<notin> key ` set xs"
  by (induction xs) auto

lemma find_key_unique:
  "distinct (map key xs) \<Longrightarrow> s \<in> set xs \<Longrightarrow> find (\<lambda>x. key x = key s) xs = Some s"
  by (induction xs) auto

lemma getStreamer_Some:
  "getStreamer w i = Some s \<Longrightarrow> s \<in> set (streamers w) \<and> id_s s = i"
  unfolding getStreamer_def by (rule find_key_Some)

lemma getStreamer_unique:
  "distinct (map id_s (streamers w)) \<Longrightarrow> s \<in> set (streamers w) \<Longrightarrow> getStreamer w (id_s s) = Some s"
  unfolding getStreamer_def by (rule find_key_unique)

lemma getAgency_Some:
  "getAgency w i = Some a \<Longrightarrow> a \<in> set (agencies w) \<and> id_a a = i"
  unfolding getAgency_def by (rule find_key_Some)

subsection \<open>Roster consistency under the world operations\<close>

lemma updateFirst_map:
  "distinct (map key xs) \<Longrightarrow> (\<And>x. key (f x) = key x) \<Longrightarrow>
   updateFirst (\<lambda>x. key x = i) f xs = map (\<lambda>x. if key x = i then f x else x) xs"
proof (induction xs)
  case Nil
  then show ?case by simp
next
  case (Cons a xs)
  show ?case
  proof (cases "key a = i")
    case True
    then have "i \<notin> key ` set xs" using Cons.prems(1) by auto
    then have "\<And>x. x \<in> set xs \<Longrightarrow> key x \<noteq> i" by blast
    then have "map (\<lambda>x. if key x = i then f x else x) xs = xs" by (simp add: map_idI)
    then show ?thesis using True by simp
  next
    case False
    then show ?thesis using Cons by simp
  qed
qed

lemma updateFirst_keys:
  "(\<And>x. key (f x) = key x) \<Longrightarrow> map key (updateFirst P f xs) = map key xs"
  by (induction xs) auto

lemma updateFirst_length [simp]: "length (updateFirst P f xs) = length xs"
  by (induction xs) auto

lemma rosterConsistent_alt:
  "rosterConsistent w \<longleftrightarrow>
     distinct (map fst (employment w))
     \<and> distinct (map id_a (agencies w))
     \<and> (\<forall>a \<in> set (agencies w).
           distinct (roster a)
           \<and> (\<forall>i \<in> set (roster a). (i, Some (id_a a)) \<in> set (employment w)))"
proof -
  have "\<And>i x. (i, x) \<in> set (employment w) \<longleftrightarrow> (\<exists>s \<in> set (streamers w). id_s s = i \<and> agencyId s = x)"
    by (auto simp: employment_def)
  then show ?thesis
    unfolding rosterConsistent_def by (simp add: map_id_employment)
qed

lemma rosterConsistent_cong:
  "employment w' = employment w \<Longrightarrow> agencies w' = agencies w \<Longrightarrow>
   rosterConsistent w' = rosterConsistent w"
  by (simp add: rosterConsistent_alt)

lemma employment_unique:
  "distinct (map fst (employment w)) \<Longrightarrow> (i, x) \<in> set (employment w) \<Longrightarrow>
   (i, y) \<in> set (employment w) \<Longrightarrow> x = y"
  by (metis eq_key_imp_eq_value)

lemma employment_getStreamer:
  "getStreamer w i = Some s \<Longrightarrow> (i, agencyId s) \<in> set (employment w)"
  using getStreamer_Some [of w i s] by (force simp: employment_def)

lemma employment_set_employer:
  "employment (updateStreamer sid (\<lambda>s. s\<lparr>agencyId := x\<rparr>) w)
     = map (\<lambda>(i, e). if i = sid then (i, x) else (i, e)) (employment w)"
  by (simp add: employment_def comp_def)

lemma sign_effect:
  assumes "getStreamer w sid = Some s" "agencyId s = None" "getAgency w agid = Some ag"
  shows "employment (snd (signStreamerToAgency sid agid w))
           = map (\<lambda>(i, e). if i = sid then (i, Some agid) else (i, e)) (employment w)"
    and "agencies (snd (signStreamerToAgency sid agid w))
           = updateFirst (\<lambda>a. id_a a = agid) (\<lambda>a. a\<lparr>roster := roster a @ [sid]\<rparr>) (agencies w)"
  using assms by (simp_all add: signStreamerToAgency_def Let_def employment_set_employer)

lemma sign_noop:
  assumes "\<not> fst (signStreamerToAgency sid agid w)"
  shows "snd (signStreamerToAgency sid agid w) = w"
  using assms by (auto simp: signStreamerToAgency_def Let_def split: option.splits)

lemma release_effect:
  assumes "getStreamer w sid = Some s" "agencyId s = Some agid"
  shows "employment (snd (releaseStreamerFromAgency sid w))
           = map (\<lambda>(i, e). if i = sid then (i, None) else (i, e)) (employment w)"
    and "agencies (snd (releaseStreamerFromAgency sid w))
           = updateFirst (\<lambda>a. id_a a = agid) (\<lambda>a. a\<lparr>roster := remove1 sid (roster a)\<rparr>) (agencies w)"
  using assms by (simp_all add: releaseStreamerFromAgency_def Let_def employment_set_employer)

lemma release_noop:
  assumes "\<not> fst (releaseStreamerFromAgency sid w)"
  shows "snd (releaseStreamerFromAgency sid w) = w"
  using assms by (auto simp: releaseStreamerFromAgency_def Let_def split: option.splits)

lemma sign_consistent:
  assumes c: "rosterConsistent w"
  shows "rosterConsistent (snd (signStreamerToAgency sid agid w))"
proof (cases "fst (signStreamerToAgency sid agid w)")
  case False
  then show ?thesis using c by (simp add: sign_noop)
next
  case True
  then obtain s ag where s: "getStreamer w sid = Some s" "agencyId s = None"
    and ag: "getAgency w agid = Some ag"
    by (auto simp: signStreamerToAgency_def Let_def split: option.splits if_splits)
  let ?w = "snd (signStreamerToAgency sid agid w)"
  let ?f = "\<lambda>a. a\<lparr>roster := roster a @ [sid]\<rparr>"
  from c have d1: "distinct (map fst (employment w))" and d2: "distinct (map id_a (agencies w))"
    and r: "\<And>a i. a \<in> set (agencies w) \<Longrightarrow> distinct (roster a)"
           "\<And>a i. a \<in> set (agencies w) \<Longrightarrow> i \<in> set (roster a) \<Longrightarrow>
              (i, Some (id_a a)) \<in> set (employment w)"
    by (auto simp: rosterConsistent_alt)
  have none: "(sid, None) \<in> set (employment w)"
    using employment_getStreamer [OF s(1)] s(2) by simp
  have notin: "\<And>a. a \<in> set (agencies w) \<Longrightarrow> sid \<notin> set (roster a)"
    using r(2) employment_unique [OF d1 none] by fastforce
  have e: "employment ?w = map (\<lambda>(i, e). if i = sid then (i, Some agid) else (i, e)) (employment w)"
    by (rule sign_effect [OF s ag])
  have a: "agencies ?w = map (\<lambda>a. if id_a a = agid then ?f a else a) (agencies w)"
    unfolding sign_effect(2) [OF s ag] by (rule updateFirst_map [OF d2]) simp
  have k1: "map fst (employment ?w) = map fst (employment w)"
    unfolding e by (simp add: comp_def split_def)
  have k2: "map id_a (agencies ?w) = map id_a (agencies w)"
    unfolding a by (simp add: comp_def)
  have keep: "\<And>i x. (i, x) \<in> set (employment w) \<Longrightarrow> i \<noteq> sid \<Longrightarrow> (i, x) \<in> set (employment ?w)"
    unfolding e by force
  have new: "(sid, Some agid) \<in> set (employment ?w)"
    unfolding e using none by force
  show ?thesis
    unfolding rosterConsistent_alt k1 k2
  proof (intro conjI ballI)
    show "distinct (map fst (employment w))" by (rule d1)
    show "distinct (map id_a (agencies w))" by (rule d2)
  next
    fix a' assume "a' \<in> set (agencies ?w)"
    then obtain a0 where a0: "a0 \<in> set (agencies w)"
      and a': "a' = (if id_a a0 = agid then ?f a0 else a0)"
      unfolding a by auto
    show "distinct (roster a')" using a' r(1) [OF a0] notin [OF a0] by simp
    fix i assume i: "i \<in> set (roster a')"
    show "(i, Some (id_a a')) \<in> set (employment ?w)"
    proof (cases "i = sid")
      case True
      then have "id_a a0 = agid" using i a' notin [OF a0] by (auto split: if_splits)
      then show ?thesis using True new a' by simp
    next
      case False
      then have "i \<in> set (roster a0)" using i a' by (auto split: if_splits)
      from keep [OF r(2) [OF a0 this] False] show ?thesis using a' by (simp split: if_splits)
    qed
  qed
qed

lemma release_consistent:
  assumes c: "rosterConsistent w"
  shows "rosterConsistent (snd (releaseStreamerFromAgency sid w))"
proof (cases "fst (releaseStreamerFromAgency sid w)")
  case False
  then show ?thesis using c by (simp add: release_noop)
next
  case True
  then obtain s agid where s: "getStreamer w sid = Some s" "agencyId s = Some agid"
    by (auto simp: releaseStreamerFromAgency_def Let_def split: option.splits if_splits)
  let ?w = "snd (releaseStreamerFromAgency sid w)"
  let ?f = "\<lambda>a. a\<lparr>roster := remove1 sid (roster a)\<rparr>"
  from c have d1: "distinct (map fst (employment w))" and d2: "distinct (map id_a (agencies w))"
    and r: "\<And>a i. a \<in> set (agencies w) \<Longrightarrow> distinct (roster a)"
           "\<And>a i. a \<in> set (agencies w) \<Longrightarrow> i \<in> set (roster a) \<Longrightarrow>
              (i, Some (id_a a)) \<in> set (employment w)"
    by (auto simp: rosterConsistent_alt)
  have emp: "(sid, Some agid) \<in> set (employment w)"
    using employment_getStreamer [OF s(1)] s(2) by simp
  have notin: "\<And>a. a \<in> set (agencies w) \<Longrightarrow> id_a a \<noteq> agid \<Longrightarrow> sid \<notin> set (roster a)"
    using r(2) employment_unique [OF d1 emp] by fastforce
  have e: "employment ?w = map (\<lambda>(i, e). if i = sid then (i, None) else (i, e)) (employment w)"
    by (rule release_effect [OF s])
  have a: "agencies ?w = map (\<lambda>a. if id_a a = agid then ?f a else a) (agencies w)"
    unfolding release_effect(2) [OF s] by (rule updateFirst_map [OF d2]) simp
  have k1: "map fst (employment ?w) = map fst (employment w)"
    unfolding e by (simp add: comp_def split_def)
  have k2: "map id_a (agencies ?w) = map id_a (agencies w)"
    unfolding a by (simp add: comp_def)
  have keep: "\<And>i x. (i, x) \<in> set (employment w) \<Longrightarrow> i \<noteq> sid \<Longrightarrow> (i, x) \<in> set (employment ?w)"
    unfolding e by force
  show ?thesis
    unfolding rosterConsistent_alt k1 k2
  proof (intro conjI ballI)
    show "distinct (map fst (employment w))" by (rule d1)
    show "distinct (map id_a (agencies w))" by (rule d2)
  next
    fix a' assume "a' \<in> set (agencies ?w)"
    then obtain a0 where a0: "a0 \<in> set (agencies w)"
      and a': "a' = (if id_a a0 = agid then ?f a0 else a0)"
      unfolding a by auto
    show "distinct (roster a')" using a' r(1) [OF a0] by simp
    fix i assume i: "i \<in> set (roster a')"
    have ne: "i \<noteq> sid" and i0: "i \<in> set (roster a0)"
      using i a' notin [OF a0] r(1) [OF a0] by (auto split: if_splits)
    from keep [OF r(2) [OF a0 i0] ne] show "(i, Some (id_a a')) \<in> set (employment ?w)"
      using a' by (simp split: if_splits)
  qed
qed

subsection \<open>What a week changes in a streamer\<close>

lemma applyGrowth_fields [simp]:
  "id_s (applyGrowth g s) = id_s s" "agencyId (applyGrowth g s) = agencyId s"
  "burnout (applyGrowth g s) = burnout s" "peakFollowers (applyGrowth g s) = peakFollowers s"
  "retiredWeek (applyGrowth g s) = retiredWeek s" "10 \<le> followers (applyGrowth g s)"
  by (simp_all add: applyGrowth_def Let_def)

lemma reachPeak_fields [simp]:
  "id_s (reachPeak s) = id_s s" "agencyId (reachPeak s) = agencyId s"
  "burnout (reachPeak s) = burnout s" "retiredWeek (reachPeak s) = retiredWeek s"
  "followers (reachPeak s) = followers s" "peakFollowers s \<le> peakFollowers (reachPeak s)"
  by (simp_all add: reachPeak_def)

lemma trackDecline_fields [simp]:
  "id_s (trackDecline s) = id_s s" "agencyId (trackDecline s) = agencyId s"
  "burnout (trackDecline s) = burnout s" "peakFollowers (trackDecline s) = peakFollowers s"
  "retiredWeek (trackDecline s) = retiredWeek s" "followers (trackDecline s) = followers s"
  by (simp_all add: trackDecline_def)

lemma updateImpressions_fields [simp]:
  "id_s (updateImpressions r ts s) = id_s s" "agencyId (updateImpressions r ts s) = agencyId s"
  "burnout (updateImpressions r ts s) = burnout s"
  "peakFollowers (updateImpressions r ts s) = peakFollowers s"
  "retiredWeek (updateImpressions r ts s) = retiredWeek s"
  "followers (updateImpressions r ts s) = followers s"
  by (simp_all add: updateImpressions_def Let_def)

lemma updateBurnout_fields [simp]:
  "id_s (updateBurnout s) = id_s s" "agencyId (updateBurnout s) = agencyId s"
  "peakFollowers (updateBurnout s) = peakFollowers s"
  "retiredWeek (updateBurnout s) = retiredWeek s" "followers (updateBurnout s) = followers s"
  "0 \<le> burnout (updateBurnout s)" "burnout (updateBurnout s) \<le> 100"
  by (simp_all add: updateBurnout_def Let_def)

lemma advanceCareer_fields [simp]:
  "id_s (advanceCareer s) = id_s s" "agencyId (advanceCareer s) = agencyId s"
  "burnout (advanceCareer s) = burnout s" "peakFollowers (advanceCareer s) = peakFollowers s"
  "retiredWeek (advanceCareer s) = retiredWeek s" "followers (advanceCareer s) = followers s"
  by (simp_all add: advanceCareer_def Let_def)

lemma weekResult_fields [simp]:
  "id_s (weekResult g r ts s) = id_s s" "agencyId (weekResult g r ts s) = agencyId s"
  "retiredWeek (weekResult g r ts s) = retiredWeek s"
  "in_bounds (weekResult g r ts s)"
  "peakFollowers s \<le> peakFollowers (weekResult g r ts s)"
  using reachPeak_fields(6) [of "applyGrowth g s"]
  by (simp_all add: weekResult_def in_bounds_def)

lemma milestoneLoop_frame [simp]:
  "streamers (world (milestoneLoop xs s tk)) = streamers (world tk)"
  "agencies (world (milestoneLoop xs s tk)) = agencies (world tk)"
  "activeTrends (world (milestoneLoop xs s tk)) = activeTrends (world tk)"
  "trendChanges (result (milestoneLoop xs s tk)) = trendChanges (result tk)"
  "newStreamers (result (milestoneLoop xs s tk)) = newStreamers (result tk)"
  by (induction xs arbitrary: tk) (simp_all add: Let_def)

lemma Math_random_rand [simp]: "rand (snd (Math_random e)) = rand e"
  by (simp add: Math_random_def)

lemma Date_now_rand [simp]: "rand (snd (Date_now e)) = rand e"
  by (simp add: Date_now_def)

lemma news_id_rand [simp]: "rand (snd (news_id e)) = rand e"
  by (simp add: news_id_def Let_def split_beta)

lemma addNewsEvent_rand [simp]: "rand (env (addNewsEvent ty a b sim)) = rand (env sim)"
  by (simp add: addNewsEvent_def Let_def split_beta)

lemma milestoneLoop_rand [simp]: "rand (env (milestoneLoop xs s tk)) = rand (env tk)"
  by (induction xs arbitrary: tk) (simp_all add: Let_def)

declare milestoneLoop.simps [simp del]

lemma calculateWeeklyGrowth_w_rand [simp]:
  "rand (snd (calculateWeeklyGrowth_w s ts e)) = rand e"
  by (simp add: calculateWeeklyGrowth_w_def Let_def split_beta)

lemma simulateStreamer_frame [simp]:
  "agencies (world (simulateStreamer s trends tk)) = agencies (world tk)"
  "activeTrends (world (simulateStreamer s trends tk)) = activeTrends (world tk)"
  "trendChanges (result (simulateStreamer s trends tk)) = trendChanges (result tk)"
  "newStreamers (result (simulateStreamer s trends tk)) = newStreamers (result tk)"
  "rand (env (simulateStreamer s trends tk)) = rand (env tk)"
  by (simp_all add: simulateStreamer_def Let_def split_beta)

lemma simulateStreamer_streamers:
  "\<exists>g r. streamers (world (simulateStreamer s trends tk))
     = map (\<lambda>x. if id_s x = id_s s then weekResult g r trends s else x) (streamers (world tk))"
proof -
  obtain g e1 where a: "calculateWeeklyGrowth_w s trends (env tk) = (g, e1)" by force
  define tk2 where "tk2 = (if followers (applyGrowth g s) > peakFollowers (applyGrowth g s)
                then milestoneLoop [100000, 500000, 1000000, 2000000, 5000000]
                       (reachPeak (applyGrowth g s)) (tk\<lparr>env := e1\<rparr>)
                else tk\<lparr>env := e1\<rparr>)"
  obtain r e3 where b: "Math_random (env tk2) = (r, e3)" by force
  have s: "streamers (world tk2) = streamers (world tk)" by (simp add: tk2_def)
  have "simulateStreamer s trends tk
      = tk2\<lparr> world := updateStreamer (id_s s) (\<lambda>_. weekResult g r trends s) (world tk2), env := e3 \<rparr>"
    unfolding simulateStreamer_def a Let_def prod.case tk2_def [symmetric] b weekResult_def ..
  then show ?thesis using s by auto
qed

subsection \<open>Step 2: the weekly growth of all streamers\<close>

lemma withinBounds_simps [simp]:
  "withinBounds (w\<lparr>freeAgentIds := x\<rparr>) = withinBounds w"
  "withinBounds (w\<lparr>retiredIds := y\<rparr>) = withinBounds w"
  "withinBounds (w\<lparr>agencies := z\<rparr>) = withinBounds w"
  "withinBounds (w\<lparr>newsEvents := n\<rparr>) = withinBounds w"
  "withinBounds (w\<lparr>activeTrends := t\<rparr>) = withinBounds w"
  "withinBounds (w\<lparr>weeklySnapshots := sn\<rparr>) = withinBounds w"
  "withinBounds (updateAgency i f w) = withinBounds w"
  "withinBounds (updateAgencyAt k f w) = withinBounds w"
  by (simp_all add: withinBounds_def)

lemma withinBounds_cong: "streamers w' = streamers w \<Longrightarrow> withinBounds w' = withinBounds w"
  by (simp add: withinBounds_def)

lemma withinBounds_updateStreamer:
  assumes "withinBounds w"
    and "\<And>s. s \<in> set (streamers w) \<Longrightarrow> in_bounds s \<Longrightarrow> 50 \<le> peakFollowers s \<Longrightarrow>
           in_bounds (f s) \<and> 50 \<le> peakFollowers (f s)"
  shows "withinBounds (updateStreamer i f w)"
  using assms by (auto simp: withinBounds_def)

lemma simulateStreamer_bounds:
  assumes "withinBounds (world tk)" "getStreamer (world tk) i = Some s"
  shows "withinBounds (world (simulateStreamer s trends tk))"
proof -
  from assms have p: "50 \<le> peakFollowers s"
    using getStreamer_Some [OF assms(2)] by (auto simp: withinBounds_def)
  obtain g r where e: "streamers (world (simulateStreamer s trends tk))
     = map (\<lambda>x. if id_s x = id_s s then weekResult g r trends s else x) (streamers (world tk))"
    using simulateStreamer_streamers by blast
  have "50 \<le> peakFollowers (weekResult g r trends s)"
    using p weekResult_fields(5) [of s g r trends] by linarith
  then show ?thesis using assms(1) unfolding withinBounds_def e by auto
qed

lemma simulateStreamer_ids:
  "map id_s (streamers (world (simulateStreamer s trends tk))) = map id_s (streamers (world tk))"
proof -
  obtain g r where e: "streamers (world (simulateStreamer s trends tk))
     = map (\<lambda>x. if id_s x = id_s s then weekResult g r trends s else x) (streamers (world tk))"
    using simulateStreamer_streamers by blast
  show ?thesis unfolding e by (simp add: comp_def)
qed

lemma simulateStreamer_employment:
  assumes "distinct (map id_s (streamers (world tk)))" "getStreamer (world tk) i = Some s"
  shows "employment (world (simulateStreamer s trends tk)) = employment (world tk)"
proof -
  obtain g r where e: "streamers (world (simulateStreamer s trends tk))
     = map (\<lambda>x. if id_s x = id_s s then weekResult g r trends s else x) (streamers (world tk))"
    using simulateStreamer_streamers by blast
  have s: "s \<in> set (streamers (world tk))" using getStreamer_Some [OF assms(2)] by simp
  have "\<And>x. x \<in> set (streamers (world tk)) \<Longrightarrow> id_s x = id_s s \<Longrightarrow> x = s"
    using assms(1) s by (meson distinct_map inj_onD)
  then show ?thesis unfolding employment_def e by (auto simp: comp_def)
qed


lemma simulateLoop_frame [simp]:
  "agencies (world (simulateLoop is trends tk)) = agencies (world tk)"
  "activeTrends (world (simulateLoop is trends tk)) = activeTrends (world tk)"
  "trendChanges (result (simulateLoop is trends tk)) = trendChanges (result tk)"
  "newStreamers (result (simulateLoop is trends tk)) = newStreamers (result tk)"
  "rand (env (simulateLoop is trends tk)) = rand (env tk)"
  by (induction "is" arbitrary: tk) (simp_all split: option.splits)

lemma simulateLoop_ids:
  "map id_s (streamers (world (simulateLoop is trends tk))) = map id_s (streamers (world tk))"
  by (induction "is" arbitrary: tk) (simp_all add: simulateStreamer_ids split: option.splits)

lemma simulateLoop_bounds:
  "withinBounds (world tk) \<Longrightarrow> withinBounds (world (simulateLoop is trends tk))"
  by (induction "is" arbitrary: tk) (auto simp: simulateStreamer_bounds split: option.splits)

lemma simulateLoop_employment:
  "distinct (map id_s (streamers (world tk))) \<Longrightarrow>
   employment (world (simulateLoop is trends tk)) = employment (world tk)"
proof (induction "is" arbitrary: tk)
  case Nil
  then show ?case by simp
next
  case (Cons i "is")
  show ?case
  proof (cases "getStreamer (world tk) i")
    case None
    then show ?thesis using Cons by simp
  next
    case (Some s)
    show ?thesis
    proof (cases "retiredWeek s = None")
      case False
      then show ?thesis using Some Cons by simp
    next
      case True
      have d: "distinct (map id_s (streamers (world (simulateStreamer s trends tk))))"
        using Cons.prems by (simp add: simulateStreamer_ids)
      show ?thesis
        using Some True Cons.IH [OF d] simulateStreamer_employment [OF Cons.prems Some]
        by simp
    qed
  qed
qed


lemma simulateAllStreamers_frame [simp]:
  "agencies (world (simulateAllStreamers tk)) = agencies (world tk)"
  "activeTrends (world (simulateAllStreamers tk)) = activeTrends (world tk)"
  "trendChanges (result (simulateAllStreamers tk)) = trendChanges (result tk)"
  "newStreamers (result (simulateAllStreamers tk)) = newStreamers (result tk)"
  "rand (env (simulateAllStreamers tk)) = rand (env tk)"
  "map id_s (streamers (world (simulateAllStreamers tk))) = map id_s (streamers (world tk))"
  by (simp_all add: simulateAllStreamers_def simulateLoop_ids)

lemma simulateAllStreamers_bounds:
  "withinBounds (world tk) \<Longrightarrow> withinBounds (world (simulateAllStreamers tk))"
  by (simp add: simulateAllStreamers_def simulateLoop_bounds)

lemma simulateAllStreamers_consistent:
  assumes c: "rosterConsistent (world tk)"
  shows "rosterConsistent (world (simulateAllStreamers tk))"
proof -
  have d: "distinct (map id_s (streamers (world tk)))"
    using c by (simp add: rosterConsistent_def)
  have e: "employment (world (simulateAllStreamers tk)) = employment (world tk)"
    unfolding simulateAllStreamers_def by (rule simulateLoop_employment [OF d])
  have a: "agencies (world (simulateAllStreamers tk)) = agencies (world tk)" by simp
  show ?thesis using rosterConsistent_cong [OF e a] c by simp
qed

subsection \<open>Step 2.5: the yearly ageing\<close>

lemma yearlyAging_frame [simp]:
  "agencies (world (yearlyAging tk)) = agencies (world tk)"
  "activeTrends (world (yearlyAging tk)) = activeTrends (world tk)"
  "result (yearlyAging tk) = result tk"
  "env (yearlyAging tk) = env tk"
  "employment (world (yearlyAging tk)) = employment (world tk)"
  by (auto simp: yearlyAging_def processYearlyAging_def employment_def comp_def
      split: option.splits)

lemma yearlyAging_ids [simp]:
  "map id_s (streamers (world (yearlyAging tk))) = map id_s (streamers (world tk))"
  using yearlyAging_frame(5) [of tk] by (simp add: map_id_employment)

lemma yearlyAging_bounds:
  "withinBounds (world tk) \<Longrightarrow> withinBounds (world (yearlyAging tk))"
  by (auto simp: yearlyAging_def processYearlyAging_def withinBounds_def in_bounds_def
      split: option.splits)

lemma yearlyAging_consistent:
  assumes c: "rosterConsistent (world tk)"
  shows "rosterConsistent (world (yearlyAging tk))"
proof -
  have e: "employment (world (yearlyAging tk)) = employment (world tk)" by simp
  have a: "agencies (world (yearlyAging tk)) = agencies (world tk)" by simp
  show ?thesis using rosterConsistent_cong [OF e a] c by simp
qed

subsection \<open>Step 3: the decisions of the AI agencies\<close>

text \<open>A property of the world that news, releases, signings and the bookkeeping of an
  agency's money keep is kept by the whole step.\<close>

lemma dropStreamers_preserves:
  assumes news: "\<And>w n. P w \<Longrightarrow> P (w\<lparr>newsEvents := n\<rparr>)"
    and rel: "\<And>w i. P w \<Longrightarrow> P (snd (releaseStreamerFromAgency i w))"
    and "P (world sim)"
  shows "P (world (dropStreamers ids agid sim))"
  using assms(3)
proof (induction ids arbitrary: sim)
  case Nil
  then show ?case by simp
next
  case (Cons i ids)
  let ?w1 = "snd (releaseStreamerFromAgency i (world sim))"
  have p1: "P ?w1" using Cons.prems by (rule rel)
  have p2: "\<And>s. P (world (addNewsEvent signing (Some (id_s s)) (Some agid) (sim\<lparr>world := ?w1\<rparr>)))"
  proof -
    fix s
    obtain ns where "world (addNewsEvent signing (Some (id_s s)) (Some agid) (sim\<lparr>world := ?w1\<rparr>))
        = ?w1\<lparr>newsEvents := ns\<rparr>"
      using addNewsEvent_world [of signing "Some (id_s s)" "Some agid" "sim\<lparr>world := ?w1\<rparr>"]
      by auto
    then show "P (world (addNewsEvent signing (Some (id_s s)) (Some agid) (sim\<lparr>world := ?w1\<rparr>)))"
      using news [OF p1] by simp
  qed
  show ?case
    by (cases "getStreamer ?w1 i") (simp_all add: Let_def Cons.IH p1 p2)
qed

lemma evaluateRoster_preserves:
  assumes news: "\<And>w n. P w \<Longrightarrow> P (w\<lparr>newsEvents := n\<rparr>)"
    and rel: "\<And>w i. P w \<Longrightarrow> P (snd (releaseStreamerFromAgency i w))"
    and "P (world sim)"
  shows "P (world (evaluateRoster k sim))"
proof -
  let ?ag = "agencies (world sim) ! k"
  let ?r = "getAgencyRoster (world sim) (id_a ?ag)"
  obtain ds e' where c: "collectDrops ?r ?ag ?r [] (env sim) = (ds, e')" by force
  have "P (world (dropStreamers ds (id_a ?ag) (sim\<lparr>env := e'\<rparr>)))"
    by (rule dropStreamers_preserves [OF news rel]) (simp_all add: assms(3))
  then show ?thesis using assms(3) c by (simp add: evaluateRoster_def Let_def)
qed

lemma signAttempt_preserves:
  assumes news: "\<And>w n. P w \<Longrightarrow> P (w\<lparr>newsEvents := n\<rparr>)"
    and sign: "\<And>w i a. P w \<Longrightarrow> P (snd (signStreamerToAgency i a w))"
    and upd: "\<And>w k f. P w \<Longrightarrow> (\<And>a. id_a (f a) = id_a a \<and> roster (f a) = roster a) \<Longrightarrow>
               P (updateAgencyAt k f w)"
    and "P (world sim)"
  shows "P (world (signAttempt k p sim))"
proof -
  let ?ag = "agencies (world sim) ! k"
  let ?c = "estimateSigningCost (streamer_pr p)"
  let ?w1 = "snd (signStreamerToAgency (id_s (streamer_pr p)) (id_a ?ag) (world sim))"
  let ?w2 = "updateAgencyAt k (\<lambda>a. a\<lparr>money := money a - ?c\<rparr>) ?w1"
  have p1: "P ?w1" using assms(4) by (rule sign)
  have p2: "P ?w2" by (rule upd [OF p1]) simp
  obtain ns where "world (addNewsEvent signing (Some (id_s (streamer_pr p))) (Some (id_a ?ag))
                (sim\<lparr>world := ?w2\<rparr>)) = ?w2\<lparr>newsEvents := ns\<rparr>"
    using addNewsEvent_world [of signing "Some (id_s (streamer_pr p))" "Some (id_a ?ag)"
        "sim\<lparr>world := ?w2\<rparr>"] by auto
  then have "P (world (addNewsEvent signing (Some (id_s (streamer_pr p))) (Some (id_a ?ag))
                (sim\<lparr>world := ?w2\<rparr>)))"
    using news [OF p2] by simp
  then show ?thesis using assms(4) by (simp add: signAttempt_def Let_def)
qed

lemma signLoop_preserves:
  assumes news: "\<And>w n. P w \<Longrightarrow> P (w\<lparr>newsEvents := n\<rparr>)"
    and sign: "\<And>w i a. P w \<Longrightarrow> P (snd (signStreamerToAgency i a w))"
    and upd: "\<And>w k f. P w \<Longrightarrow> (\<And>a. id_a (f a) = id_a a \<and> roster (f a) = roster a) \<Longrightarrow>
               P (updateAgencyAt k f w)"
    and "P (world sim)"
  shows "P (world (signLoop i n ps k sim))"
  using assms(4)
proof (induction ps arbitrary: i sim)
  case Nil
  then show ?case by simp
next
  case (Cons p ps)
  have "P (world (signAttempt k p sim))"
    by (rule signAttempt_preserves [OF news sign upd Cons.prems])
  then show ?case using Cons.prems Cons.IH by simp
qed

lemma scoutAndSign_preserves:
  assumes news: "\<And>w n. P w \<Longrightarrow> P (w\<lparr>newsEvents := n\<rparr>)"
    and sign: "\<And>w i a. P w \<Longrightarrow> P (snd (signStreamerToAgency i a w))"
    and upd: "\<And>w k f. P w \<Longrightarrow> (\<And>a. id_a (f a) = id_a a \<and> roster (f a) = roster a) \<Longrightarrow>
               P (updateAgencyAt k f w)"
    and "P (world sim)"
  shows "P (world (scoutAndSign k sim))"
proof -
  have "\<And>i n ps. P (world (signLoop i n ps k sim))"
    by (rule signLoop_preserves [OF news sign upd assms(4)])
  then show ?thesis using assms(4) by (simp add: scoutAndSign_def Let_def)
qed

lemma processAgencyDecisions_preserves:
  assumes news: "\<And>w n. P w \<Longrightarrow> P (w\<lparr>newsEvents := n\<rparr>)"
    and rel: "\<And>w i. P w \<Longrightarrow> P (snd (releaseStreamerFromAgency i w))"
    and sign: "\<And>w i a. P w \<Longrightarrow> P (snd (signStreamerToAgency i a w))"
    and upd: "\<And>w k f. P w \<Longrightarrow> (\<And>a. id_a (f a) = id_a a \<and> roster (f a) = roster a) \<Longrightarrow>
               P (updateAgencyAt k f w)"
    and "P (world sim)"
  shows "P (world (processAgencyDecisions k sim))"
proof -
  have 1: "P (calculateWeeklyRevenue k (world sim))"
    unfolding calculateWeeklyRevenue_def Let_def by (rule upd [OF assms(5)]) simp
  have 2: "P (world (evaluateRoster k (sim\<lparr>world := calculateWeeklyRevenue k (world sim)\<rparr>)))"
    by (rule evaluateRoster_preserves [OF news rel]) (simp_all add: 1)
  show ?thesis
    unfolding processAgencyDecisions_def Let_def
    by (rule scoutAndSign_preserves [OF news sign upd 2])
qed

lemma fold_preserves:
  assumes "\<And>x s. Q s \<Longrightarrow> Q (f x s)" "Q s"
  shows "Q (fold f xs s)"
  using assms(2) by (induction xs arbitrary: s) (simp_all add: assms(1))

lemma processWeeklyDecisions_preserves:
  assumes news: "\<And>w n. P w \<Longrightarrow> P (w\<lparr>newsEvents := n\<rparr>)"
    and rel: "\<And>w i. P w \<Longrightarrow> P (snd (releaseStreamerFromAgency i w))"
    and sign: "\<And>w i a. P w \<Longrightarrow> P (snd (signStreamerToAgency i a w))"
    and upd: "\<And>w k f. P w \<Longrightarrow> (\<And>a. id_a (f a) = id_a a \<and> roster (f a) = roster a) \<Longrightarrow>
               P (updateAgencyAt k f w)"
    and "P (world sim)"
  shows "P (world (processWeeklyDecisions sim))"
  unfolding processWeeklyDecisions_def
  by (rule fold_preserves [where Q = "\<lambda>s. P (world s)"])
     (simp_all add: processAgencyDecisions_preserves [OF news rel sign upd] assms(5))

lemma list_update_keys:
  assumes "key (f (xs ! k)) = key (xs ! k)"
  shows "map key (xs[k := f (xs ! k)]) = map key xs"
proof (cases "k < length xs")
  case True
  then show ?thesis using assms by (simp add: map_update list_update_same_conv)
next
  case False
  then have "xs[k := f (xs ! k)] = xs" by (intro list_update_beyond) simp
  then show ?thesis by simp
qed

lemma rosterConsistent_simps [simp]:
  "rosterConsistent (w\<lparr>freeAgentIds := x\<rparr>) = rosterConsistent w"
  "rosterConsistent (w\<lparr>retiredIds := y\<rparr>) = rosterConsistent w"
  "rosterConsistent (w\<lparr>newsEvents := n\<rparr>) = rosterConsistent w"
  "rosterConsistent (w\<lparr>activeTrends := t\<rparr>) = rosterConsistent w"
  "rosterConsistent (w\<lparr>weeklySnapshots := sn\<rparr>) = rosterConsistent w"
  by (simp_all add: rosterConsistent_def)

lemma rosterConsistent_updateAgencyAt:
  assumes "rosterConsistent w" "\<And>a. id_a (f a) = id_a a \<and> roster (f a) = roster a"
  shows "rosterConsistent (updateAgencyAt k f w)"
proof -
  have k: "map id_a ((agencies w)[k := f (agencies w ! k)]) = map id_a (agencies w)"
    by (rule list_update_keys) (simp add: assms(2))
  have "\<And>a'. a' \<in> set ((agencies w)[k := f (agencies w ! k)]) \<Longrightarrow>
          \<exists>a \<in> set (agencies w). id_a a' = id_a a \<and> roster a' = roster a"
  proof -
    fix a' assume "a' \<in> set ((agencies w)[k := f (agencies w ! k)])"
    then have "a' \<in> insert (f (agencies w ! k)) (set (agencies w))"
      using set_update_subset_insert by fastforce
    then show "\<exists>a \<in> set (agencies w). id_a a' = id_a a \<and> roster a' = roster a"
    proof
      assume e: "a' = f (agencies w ! k)"
      show ?thesis
      proof (cases "k < length (agencies w)")
        case True
        then show ?thesis using e assms(2) nth_mem by blast
      next
        case False
        then have "(agencies w)[k := f (agencies w ! k)] = agencies w"
          by (intro list_update_beyond) simp
        with \<open>a' \<in> set ((agencies w)[k := f (agencies w ! k)])\<close> show ?thesis by auto
      qed
    next
      assume "a' \<in> set (agencies w)"
      then show ?thesis by blast
    qed
  qed
  then show ?thesis
    using assms(1) unfolding rosterConsistent_alt by (simp add: k) metis
qed

lemma release_streamers:
  "streamers (snd (releaseStreamerFromAgency i w)) = streamers w
   \<or> streamers (snd (releaseStreamerFromAgency i w))
        = map (\<lambda>s. if id_s s = i then s\<lparr>agencyId := None\<rparr> else s) (streamers w)"
  by (auto simp: releaseStreamerFromAgency_def Let_def split: option.splits)

lemma sign_streamers:
  "streamers (snd (signStreamerToAgency i a w)) = streamers w
   \<or> streamers (snd (signStreamerToAgency i a w))
        = map (\<lambda>s. if id_s s = i then s\<lparr>agencyId := Some a\<rparr> else s) (streamers w)"
  by (auto simp: signStreamerToAgency_def Let_def split: option.splits)

lemma set_employer_bounds:
  "withinBounds w \<Longrightarrow>
   streamers w' = map (\<lambda>s. if id_s s = i then s\<lparr>agencyId := x\<rparr> else s) (streamers w) \<Longrightarrow>
   withinBounds w'"
  by (auto simp: withinBounds_def in_bounds_def)

lemma set_employer_ids:
  "streamers w' = map (\<lambda>s. if id_s s = i then s\<lparr>agencyId := x\<rparr> else s) (streamers w) \<Longrightarrow>
   map id_s (streamers w') = map id_s (streamers w)"
  by (simp add: comp_def)

lemma release_bounds:
  assumes "withinBounds w"
  shows "withinBounds (snd (releaseStreamerFromAgency i w))"
  using release_streamers [of i w]
proof
  assume "streamers (snd (releaseStreamerFromAgency i w)) = streamers w"
  then show ?thesis using assms withinBounds_cong by blast
next
  assume "streamers (snd (releaseStreamerFromAgency i w))
        = map (\<lambda>s. if id_s s = i then s\<lparr>agencyId := None\<rparr> else s) (streamers w)"
  then show ?thesis by (rule set_employer_bounds [OF assms])
qed

lemma sign_bounds:
  assumes "withinBounds w"
  shows "withinBounds (snd (signStreamerToAgency i a w))"
  using sign_streamers [of i a w]
proof
  assume "streamers (snd (signStreamerToAgency i a w)) = streamers w"
  then show ?thesis using assms withinBounds_cong by blast
next
  assume "streamers (snd (signStreamerToAgency i a w))
        = map (\<lambda>s. if id_s s = i then s\<lparr>agencyId := Some a\<rparr> else s) (streamers w)"
  then show ?thesis by (rule set_employer_bounds [OF assms])
qed

lemma release_ids:
  "map id_s (streamers (snd (releaseStreamerFromAgency i w))) = map id_s (streamers w)"
  using release_streamers [of i w] set_employer_ids by fastforce

lemma sign_ids:
  "map id_s (streamers (snd (signStreamerToAgency i a w))) = map id_s (streamers w)"
  using sign_streamers [of i a w] set_employer_ids by fastforce

lemma release_trends [simp]:
  "activeTrends (snd (releaseStreamerFromAgency i w)) = activeTrends w"
  by (auto simp: releaseStreamerFromAgency_def Let_def split: option.splits)

lemma sign_trends [simp]:
  "activeTrends (snd (signStreamerToAgency i a w)) = activeTrends w"
  by (auto simp: signStreamerToAgency_def Let_def split: option.splits)

lemma processWeeklyDecisions_bounds:
  assumes "withinBounds (world sim)"
  shows "withinBounds (world (processWeeklyDecisions sim))"
proof (rule processWeeklyDecisions_preserves [where P = withinBounds])
  show "withinBounds (world sim)" by (rule assms)
qed (simp_all only: withinBounds_simps release_bounds sign_bounds)

lemma processWeeklyDecisions_consistent:
  assumes "rosterConsistent (world sim)"
  shows "rosterConsistent (world (processWeeklyDecisions sim))"
proof (rule processWeeklyDecisions_preserves [where P = rosterConsistent])
  show "rosterConsistent (world sim)" by (rule assms)
  show "\<And>w k f. rosterConsistent w \<Longrightarrow> (\<And>a. id_a (f a) = id_a a \<and> roster (f a) = roster a) \<Longrightarrow>
               rosterConsistent (updateAgencyAt k f w)"
    by (rule rosterConsistent_updateAgencyAt)
qed (simp_all only: rosterConsistent_simps release_consistent sign_consistent)

lemma processWeeklyDecisions_ids:
  "map id_s (streamers (world (processWeeklyDecisions sim))) = map id_s (streamers (world sim))"
proof (rule processWeeklyDecisions_preserves
        [where P = "\<lambda>w. map id_s (streamers w) = map id_s (streamers (world sim))"])
  show "map id_s (streamers (world sim)) = map id_s (streamers (world sim))" ..
qed (simp_all add: release_ids sign_ids)

lemma processWeeklyDecisions_trends:
  "activeTrends (world (processWeeklyDecisions sim)) = activeTrends (world sim)"
proof (rule processWeeklyDecisions_preserves
        [where P = "\<lambda>w. activeTrends w = activeTrends (world sim)"])
  show "activeTrends (world sim) = activeTrends (world sim)" ..
qed simp_all

subsection \<open>Steps 4 and 5: retirements and comebacks\<close>

lemma shouldRetire_rand [simp]: "rand (snd (shouldRetire s e)) = rand e"
  by (simp add: shouldRetire_def Let_def split_beta)

lemma retireStreamer_preserves:
  assumes news: "\<And>w n. P w \<Longrightarrow> P (w\<lparr>newsEvents := n\<rparr>)"
    and free: "\<And>w x. P w \<Longrightarrow> P (w\<lparr>freeAgentIds := x\<rparr>)"
    and ret: "\<And>w x. P w \<Longrightarrow> P (w\<lparr>retiredIds := x\<rparr>)"
    and rel: "\<And>w i. P w \<Longrightarrow> P (snd (releaseStreamerFromAgency i w))"
    and upd: "\<And>w i x. P w \<Longrightarrow> P (updateStreamer i (\<lambda>s. s\<lparr>retiredWeek := x\<rparr>) w)"
    and "P (world tk)"
  shows "P (world (retireStreamer i tk))"
proof -
  let ?w1 = "updateStreamer i (\<lambda>s. s\<lparr>retiredWeek := Some (weekNumber (world tk))\<rparr>) (world tk)"
  define w2 where "w2 = (case getStreamer ?w1 i of
                 Some s \<Rightarrow>
                   (case agencyId s of
                      Some a \<Rightarrow> if a \<noteq> [] \<and> a \<noteq> ''player''
                                then snd (releaseStreamerFromAgency (id_s s) ?w1) else ?w1
                    | None \<Rightarrow> ?w1)
               | None \<Rightarrow> ?w1)"
  define w4 where "w4 = w2\<lparr>freeAgentIds := remove1 i (freeAgentIds w2), retiredIds := retiredIds w2 @ [i]\<rparr>"
  define tk1 where "tk1 = tk\<lparr> world := w4,
                   result := (result tk)\<lparr>retirements :=
                     retirements (result tk) @ List.map_filter (getStreamer w4) [i]\<rparr> \<rparr>"
  have 1: "P ?w1" by (rule upd [OF assms(6)])
  have 2: "P w2" unfolding w2_def using 1 rel [OF 1] by (simp split: option.splits)
  have 4: "P w4" unfolding w4_def using ret [OF free [OF 2]] by simp
  have e: "retireStreamer i tk = addNewsEvent retirement (Some i) None tk1"
    unfolding retireStreamer_def Let_def tk1_def w4_def w2_def by simp
  obtain ns where "world (addNewsEvent retirement (Some i) None tk1) = (world tk1)\<lparr>newsEvents := ns\<rparr>"
    using addNewsEvent_world [of retirement "Some i" None tk1] by auto
  then show ?thesis using news [OF 4] by (simp add: e tk1_def)
qed

lemma retirementLoop_preserves:
  assumes news: "\<And>w n. P w \<Longrightarrow> P (w\<lparr>newsEvents := n\<rparr>)"
    and free: "\<And>w x. P w \<Longrightarrow> P (w\<lparr>freeAgentIds := x\<rparr>)"
    and ret: "\<And>w x. P w \<Longrightarrow> P (w\<lparr>retiredIds := x\<rparr>)"
    and rel: "\<And>w i. P w \<Longrightarrow> P (snd (releaseStreamerFromAgency i w))"
    and upd: "\<And>w i x. P w \<Longrightarrow> P (updateStreamer i (\<lambda>s. s\<lparr>retiredWeek := x\<rparr>) w)"
    and "P (world tk)"
  shows "P (world (retirementLoop ids tk))"
  using assms(6)
proof (induction ids arbitrary: tk)
  case Nil
  then show ?case by simp
next
  case (Cons i ids)
  have r: "\<And>j e'. P (world (retireStreamer j (tk\<lparr>env := e'\<rparr>)))"
    by (rule retireStreamer_preserves [OF news free ret rel upd]) (simp_all add: Cons.prems)
  show ?case
    by (cases "getStreamer (world tk) i")
       (simp_all add: Let_def split_beta Cons.IH Cons.prems r)
qed

lemma processRetirements_preserves:
  assumes news: "\<And>w n. P w \<Longrightarrow> P (w\<lparr>newsEvents := n\<rparr>)"
    and free: "\<And>w x. P w \<Longrightarrow> P (w\<lparr>freeAgentIds := x\<rparr>)"
    and ret: "\<And>w x. P w \<Longrightarrow> P (w\<lparr>retiredIds := x\<rparr>)"
    and rel: "\<And>w i. P w \<Longrightarrow> P (snd (releaseStreamerFromAgency i w))"
    and upd: "\<And>w i x. P w \<Longrightarrow> P (updateStreamer i (\<lambda>s. s\<lparr>retiredWeek := x\<rparr>) w)"
    and "P (world tk)"
  shows "P (world (processRetirements tk))"
  unfolding processRetirements_def
  by (rule retirementLoop_preserves [OF news free ret rel upd assms(6)])

lemma processComeback_preserves:
  assumes news: "\<And>w n. P w \<Longrightarrow> P (w\<lparr>newsEvents := n\<rparr>)"
    and free: "\<And>w x. P w \<Longrightarrow> P (w\<lparr>freeAgentIds := x\<rparr>)"
    and ret: "\<And>w x. P w \<Longrightarrow> P (w\<lparr>retiredIds := x\<rparr>)"
    and upd: "\<And>w i. P w \<Longrightarrow>
        P (updateStreamer i (\<lambda>s. s\<lparr> retiredWeek := None,
                         followers := Math_floor (peakFollowers s * 0.2),
                         burnout := 0,
                         consecutiveBurnoutWeeks := 0,
                         consecutiveDeclineWeeks := 0 \<rparr>) w)"
    and "P (world tk)"
  shows "P (world (processComeback i tk))"
proof -
  define w2 where "w2 = updateStreamer i
                (\<lambda>s. s\<lparr> retiredWeek := None,
                         followers := Math_floor (peakFollowers s * 0.2),
                         burnout := 0,
                         consecutiveBurnoutWeeks := 0,
                         consecutiveDeclineWeeks := 0 \<rparr>)
                ((world tk)\<lparr>retiredIds := remove1 i (retiredIds (world tk))\<rparr>)"
  define w3 where "w3 = w2\<lparr>freeAgentIds := freeAgentIds w2 @ [i]\<rparr>"
  define tk1 where "tk1 = tk\<lparr> world := w3,
                   result := (result tk)\<lparr>comebacks :=
                     comebacks (result tk) @ List.map_filter (getStreamer w3) [i]\<rparr> \<rparr>"
  have 2: "P w2" unfolding w2_def by (rule upd [OF ret [OF assms(5)]])
  have 3: "P w3" unfolding w3_def by (rule free [OF 2])
  have e: "processComeback i tk = addNewsEvent comeback (Some i) None tk1"
    unfolding processComeback_def Let_def tk1_def w3_def w2_def by simp
  obtain ns where "world (addNewsEvent comeback (Some i) None tk1) = (world tk1)\<lparr>newsEvents := ns\<rparr>"
    using addNewsEvent_world [of comeback "Some i" None tk1] by auto
  then show ?thesis using news [OF 3] by (simp add: e tk1_def)
qed

lemma comebackLoop_preserves:
  assumes news: "\<And>w n. P w \<Longrightarrow> P (w\<lparr>newsEvents := n\<rparr>)"
    and free: "\<And>w x. P w \<Longrightarrow> P (w\<lparr>freeAgentIds := x\<rparr>)"
    and ret: "\<And>w x. P w \<Longrightarrow> P (w\<lparr>retiredIds := x\<rparr>)"
    and upd: "\<And>w i. P w \<Longrightarrow>
        P (updateStreamer i (\<lambda>s. s\<lparr> retiredWeek := None,
                         followers := Math_floor (peakFollowers s * 0.2),
                         burnout := 0,
                         consecutiveBurnoutWeeks := 0,
                         consecutiveDeclineWeeks := 0 \<rparr>) w)"
    and "P (world tk)"
  shows "P (world (comebackLoop ids tk))"
  using assms(5)
proof (induction ids arbitrary: tk)
  case Nil
  then show ?case by simp
next
  case (Cons i ids)
  have r: "\<And>j e'. P (world (processComeback j (tk\<lparr>env := e'\<rparr>)))"
    by (rule processComeback_preserves [OF news free ret upd]) (simp_all add: Cons.prems)
  show ?case
    by (cases "getStreamer (world tk) i")
       (simp_all add: Let_def split_beta Cons.IH Cons.prems r split: option.splits)
qed

lemma processComebacks_preserves:
  assumes news: "\<And>w n. P w \<Longrightarrow> P (w\<lparr>newsEvents := n\<rparr>)"
    and free: "\<And>w x. P w \<Longrightarrow> P (w\<lparr>freeAgentIds := x\<rparr>)"
    and ret: "\<And>w x. P w \<Longrightarrow> P (w\<lparr>retiredIds := x\<rparr>)"
    and upd: "\<And>w i. P w \<Longrightarrow>
        P (updateStreamer i (\<lambda>s. s\<lparr> retiredWeek := None,
                         followers := Math_floor (peakFollowers s * 0.2),
                         burnout := 0,
                         consecutiveBurnoutWeeks := 0,
                         consecutiveDeclineWeeks := 0 \<rparr>) w)"
    and "P (world tk)"
  shows "P (world (processComebacks tk))"
  unfolding processComebacks_def
  by (rule comebackLoop_preserves [OF news free ret upd assms(5)])

lemma retireStreamer_frame [simp]:
  "trendChanges (result (retireStreamer i tk)) = trendChanges (result tk)"
  "newStreamers (result (retireStreamer i tk)) = newStreamers (result tk)"
  "rand (env (retireStreamer i tk)) = rand (env tk)"
  by (simp_all add: retireStreamer_def Let_def)

lemma retirementLoop_frame [simp]:
  "trendChanges (result (retirementLoop ids tk)) = trendChanges (result tk)"
  "newStreamers (result (retirementLoop ids tk)) = newStreamers (result tk)"
  "rand (env (retirementLoop ids tk)) = rand (env tk)"
  by (induction ids arbitrary: tk)
     (simp_all add: Let_def split_beta split: option.splits)

lemma processRetirements_frame [simp]:
  "trendChanges (result (processRetirements tk)) = trendChanges (result tk)"
  "newStreamers (result (processRetirements tk)) = newStreamers (result tk)"
  "rand (env (processRetirements tk)) = rand (env tk)"
  by (simp_all add: processRetirements_def)

lemma processComeback_frame [simp]:
  "trendChanges (result (processComeback i tk)) = trendChanges (result tk)"
  "newStreamers (result (processComeback i tk)) = newStreamers (result tk)"
  "rand (env (processComeback i tk)) = rand (env tk)"
  by (simp_all add: processComeback_def Let_def)

lemma comebackLoop_frame [simp]:
  "trendChanges (result (comebackLoop ids tk)) = trendChanges (result tk)"
  "newStreamers (result (comebackLoop ids tk)) = newStreamers (result tk)"
  "rand (env (comebackLoop ids tk)) = rand (env tk)"
  by (induction ids arbitrary: tk)
     (simp_all add: Let_def split_beta split: option.splits)

lemma processComebacks_frame [simp]:
  "trendChanges (result (processComebacks tk)) = trendChanges (result tk)"
  "newStreamers (result (processComebacks tk)) = newStreamers (result tk)"
  "rand (env (processComebacks tk)) = rand (env tk)"
  by (simp_all add: processComebacks_def)

subsection \<open>What the decisions of the agencies leave alone\<close>

lemma shouldDropStreamer_rand [simp]: "rand (snd (shouldDropStreamer s ag rs e)) = rand e"
  by (simp add: shouldDropStreamer_def Let_def split_beta split: AgencyStrategy.splits)

lemma collectDrops_rand [simp]: "rand (snd (collectDrops ss ag rs acc e)) = rand e"
  by (induction ss arbitrary: acc e) (simp_all add: split_beta)

lemma dropStreamers_frame [simp]:
  fixes tk :: Tick
  shows "result (dropStreamers ids a tk) = result tk"
    and "rand (env (dropStreamers ids a tk)) = rand (env tk)"
  by (induction ids arbitrary: tk) (simp_all add: Let_def split: option.splits)

lemma evaluateRoster_frame [simp]:
  fixes tk :: Tick
  shows "result (evaluateRoster k tk) = result tk"
    and "rand (env (evaluateRoster k tk)) = rand (env tk)"
  by (simp_all add: evaluateRoster_def Let_def split_beta)

lemma signAttempt_frame [simp]:
  fixes tk :: Tick
  shows "result (signAttempt k p tk) = result tk"
    and "rand (env (signAttempt k p tk)) = rand (env tk)"
  by (simp_all add: signAttempt_def Let_def)

lemma signLoop_frame [simp]:
  fixes tk :: Tick
  shows "result (signLoop i n ps k tk) = result tk"
    and "rand (env (signLoop i n ps k tk)) = rand (env tk)"
  by (induction ps arbitrary: i tk) simp_all

lemma scoutAndSign_frame [simp]:
  fixes tk :: Tick
  shows "result (scoutAndSign k tk) = result tk"
    and "rand (env (scoutAndSign k tk)) = rand (env tk)"
  by (simp_all add: scoutAndSign_def Let_def)

lemma processAgencyDecisions_frame [simp]:
  fixes tk :: Tick
  shows "result (processAgencyDecisions k tk) = result tk"
    and "rand (env (processAgencyDecisions k tk)) = rand (env tk)"
  by (simp_all add: processAgencyDecisions_def Let_def)

lemma processWeeklyDecisions_frame [simp]:
  fixes tk :: Tick
  shows "result (processWeeklyDecisions tk) = result tk"
    and "rand (env (processWeeklyDecisions tk)) = rand (env tk)"
proof -
  have "\<And>ks. result (fold processAgencyDecisions ks tk) = result tk
            \<and> rand (env (fold processAgencyDecisions ks tk)) = rand (env tk)"
  proof -
    fix ks show "result (fold processAgencyDecisions ks tk) = result tk
            \<and> rand (env (fold processAgencyDecisions ks tk)) = rand (env tk)"
      by (induction ks arbitrary: tk) simp_all
  qed
  then show "result (processWeeklyDecisions tk) = result tk"
    and "rand (env (processWeeklyDecisions tk)) = rand (env tk)"
    by (simp_all add: processWeeklyDecisions_def)
qed

subsection \<open>Step 6: the debuts\<close>

lemma randStats_rand [simp]: "rand (snd (randStats e)) = rand e"
  by (simp add: randStats_def Let_def split_beta)

lemma generateNewStreamer_rand [simp]: "rand (snd (generateNewStreamer p e)) = rand e"
  by (simp add: generateNewStreamer_def Let_def split_beta)

lemma Math_random_unit:
  "unitDraws e \<Longrightarrow> 0 \<le> fst (Math_random e) \<and> fst (Math_random e) < 1"
  by (simp add: unitDraws_def Math_random_def)

lemma unitDraws_rand: "rand e' = rand e \<Longrightarrow> unitDraws e' = unitDraws e"
  by (simp add: unitDraws_def)

lemma floor_rookie: "0 \<le> r \<Longrightarrow> 50 \<le> Math_floor (50 + r * 450)"
proof -
  assume "0 \<le> r"
  then have "(50::real) \<le> 50 + r * 450" by simp
  then have "(50::int) \<le> \<lfloor>50 + r * 450\<rfloor>" by (simp add: le_floor_iff)
  then show ?thesis unfolding Math_floor_def by linarith
qed

lemma draw_nonneg: "unitDraws e \<Longrightarrow> rand e' = rand e \<Longrightarrow> 0 \<le> fst (Math_random e')"
  by (simp add: unitDraws_def Math_random_def)

lemma generateNewStreamer_rookie:
  assumes "unitDraws e"
  shows "50 \<le> followers (fst (generateNewStreamer p e))"
    and "peakFollowers (fst (generateNewStreamer p e)) = followers (fst (generateNewStreamer p e))"
    and "burnout (fst (generateNewStreamer p e)) = 0"
    and "agencyId (fst (generateNewStreamer p e)) = None"
    and "retiredWeek (fst (generateNewStreamer p e)) = None"
proof -
  have h: "\<And>e'. rand e' = rand e \<Longrightarrow> 50 \<le> Math_floor (50 + fst (Math_random e') * 450)"
    by (rule floor_rookie, rule draw_nonneg [OF assms])
  show "50 \<le> followers (fst (generateNewStreamer p e))"
    by (simp add: generateNewStreamer_def Let_def split_beta h)
qed (simp_all add: generateNewStreamer_def Let_def split_beta)

lemma generateNewStreamer_id_length: "14 \<le> length (id_s (fst (generateNewStreamer p e)))"
  by (simp add: generateNewStreamer_def Let_def split_beta)

lemma debutStreamer_world:
  "\<exists>n ns p e'. world (debutStreamer tk)
        = (putStreamer n (world tk))\<lparr>freeAgentIds := freeAgentIds (world tk) @ [id_s n], newsEvents := ns\<rparr>
      \<and> n = fst (generateNewStreamer p e') \<and> rand e' = rand (env tk)
      \<and> newStreamers (result (debutStreamer tk)) = newStreamers (result tk) @ [n]"
proof -
  obtain roll e1 where a: "Math_random (env tk) = (roll, e1)" by force
  define p where "p = (if roll < 0.50 then SWITCH else if roll < 0.50 + 0.30 then YETUBE else OHFANS)"
  obtain n e2 where b: "generateNewStreamer p e1 = (n, e2)" by force
  define tk1 where "tk1 = tk\<lparr> world := (putStreamer n (world tk))
                               \<lparr>freeAgentIds := freeAgentIds (putStreamer n (world tk)) @ [id_s n]\<rparr>,
                   env := e2,
                   result := (result tk)\<lparr>newStreamers := newStreamers (result tk) @ [n]\<rparr> \<rparr>"
  have e: "debutStreamer tk = addNewsEvent milestone (Some (id_s n)) None tk1"
    unfolding debutStreamer_def a Let_def prod.case p_def [symmetric] b tk1_def ..
  obtain ns where c: "world (addNewsEvent milestone (Some (id_s n)) None tk1)
       = (world tk1)\<lparr>newsEvents := ns\<rparr>"
    using addNewsEvent_world [of milestone "Some (id_s n)" None tk1] by auto
  have f: "freeAgentIds (putStreamer n (world tk)) = freeAgentIds (world tk)"
    by (simp add: putStreamer_def)
  have r: "rand e1 = rand (env tk)" using a Math_random_rand [of "env tk"] by simp
  have "world (debutStreamer tk)
        = (putStreamer n (world tk))\<lparr>freeAgentIds := freeAgentIds (world tk) @ [id_s n], newsEvents := ns\<rparr>"
    unfolding e c by (simp add: tk1_def f)
  moreover have "n = fst (generateNewStreamer p e1)" by (simp add: b)
  moreover have "newStreamers (result (debutStreamer tk)) = newStreamers (result tk) @ [n]"
    by (simp add: e tk1_def)
  ultimately show ?thesis using r by blast
qed

lemma debutStreamer_frame [simp]:
  "agencies (world (debutStreamer tk)) = agencies (world tk)"
  "activeTrends (world (debutStreamer tk)) = activeTrends (world tk)"
  "trendChanges (result (debutStreamer tk)) = trendChanges (result tk)"
  "rand (env (debutStreamer tk)) = rand (env tk)"
  by (simp_all add: debutStreamer_def Let_def split_beta putStreamer_def)

lemma debuts_frame [simp]:
  "agencies (world ((debutStreamer ^^ n) tk)) = agencies (world tk)"
  "activeTrends (world ((debutStreamer ^^ n) tk)) = activeTrends (world tk)"
  "trendChanges (result ((debutStreamer ^^ n) tk)) = trendChanges (result tk)"
  "rand (env ((debutStreamer ^^ n) tk)) = rand (env tk)"
  by (induction n) simp_all

lemma generateNewStreamers_frame [simp]:
  "agencies (world (generateNewStreamers tk)) = agencies (world tk)"
  "activeTrends (world (generateNewStreamers tk)) = activeTrends (world tk)"
  "trendChanges (result (generateNewStreamers tk)) = trendChanges (result tk)"
  "rand (env (generateNewStreamers tk)) = rand (env tk)"
  by (simp_all add: generateNewStreamers_def)

subsection \<open>Steps 7 and 8: the rankings and the snapshot\<close>

lemma calculateRankings_frame [simp]:
  "world (calculateRankings tk) = world tk"
  "env (calculateRankings tk) = env tk"
  "trendChanges (result (calculateRankings tk)) = trendChanges (result tk)"
  "newStreamers (result (calculateRankings tk)) = newStreamers (result tk)"
  "retirements (result (calculateRankings tk)) = retirements (result tk)"
  "comebacks (result (calculateRankings tk)) = comebacks (result tk)"
  "milestones (result (calculateRankings tk)) = milestones (result tk)"
  "weekNumber_r (result (calculateRankings tk)) = weekNumber_r (result tk)"
  by (simp_all add: calculateRankings_def Let_def)

lemma storeSnapshot_frame [simp]:
  "streamers (world (storeSnapshot tk)) = streamers (world tk)"
  "agencies (world (storeSnapshot tk)) = agencies (world tk)"
  "activeTrends (world (storeSnapshot tk)) = activeTrends (world tk)"
  "freeAgentIds (world (storeSnapshot tk)) = freeAgentIds (world tk)"
  "retiredIds (world (storeSnapshot tk)) = retiredIds (world tk)"
  "newsEvents (world (storeSnapshot tk)) = newsEvents (world tk)"
  "weekNumber (world (storeSnapshot tk)) = weekNumber (world tk)"
  "env (storeSnapshot tk) = env tk"
  "result (storeSnapshot tk) = result tk"
  by (simp_all add: storeSnapshot_def Let_def)

subsection \<open>The trends over the whole tick\<close>

lemma processRetirements_trends [simp]:
  "activeTrends (world (processRetirements tk)) = activeTrends (world tk)"
proof (rule processRetirements_preserves
        [where P = "\<lambda>w. activeTrends w = activeTrends (world tk)"])
  show "activeTrends (world tk) = activeTrends (world tk)" ..
qed simp_all

lemma processComebacks_trends [simp]:
  "activeTrends (world (processComebacks tk)) = activeTrends (world tk)"
proof (rule processComebacks_preserves
        [where P = "\<lambda>w. activeTrends w = activeTrends (world tk)"])
  show "activeTrends (world tk) = activeTrends (world tk)" ..
qed simp_all

lemma initialTick_fields [simp]:
  "world (initialTick w e) = w"
  "env (initialTick w e) = e"
  "trendChanges (result (initialTick w e)) = \<lparr> started = [], ended = [] \<rparr>"
  "newStreamers (result (initialTick w e)) = []"
  "weekNumber_r (result (initialTick w e)) = weekNumber w"
  by (simp_all add: initialTick_def)

lemma simulateWeek_trends:
  "activeTrends (world (simulateWeek w e)) = activeTrends (world (updateTrends (initialTick w e)))"
  "trendChanges (result (simulateWeek w e)) = trendChanges (result (updateTrends (initialTick w e)))"
  by (simp_all add: simulateWeek_def Let_def processWeeklyDecisions_trends)

lemma count_list_filter:
  "count_list (filter P xs) x = (if P x then count_list xs x else 0)"
  by (induction xs) auto

lemma count_list_rev [simp]: "count_list (rev xs) x = count_list xs x"
  by (induction xs) auto

text \<open>
  Claim C3. One tick takes one week off the counter of every active trend; the trends whose
  counter is then at zero (or below) leave the active list in that tick, and the tick's list
  of ended trends holds exactly them, each as often as it was active (once, for a list
  without repetition); at most one trend is started, none when three are left after the
  removals, and a list of at most three active trends is one of at most three after the tick.
\<close>

theorem trend_engine_tick:
  assumes "length (activeTrends w) \<le> 3"
  shows "\<exists>new.
      activeTrends (world (simulateWeek w e))
        = filter (\<lambda>t. \<not> expired t) (map decrement (activeTrends w)) @ new
    \<and> started (trendChanges (result (simulateWeek w e))) = new
    \<and> ended (trendChanges (result (simulateWeek w e)))
        = rev (filter expired (map decrement (activeTrends w)))
    \<and> (\<forall>t. count_list (ended (trendChanges (result (simulateWeek w e)))) t
            = (if expired t then count_list (map decrement (activeTrends w)) t else 0))
    \<and> length new \<le> 1
    \<and> (new = [] \<or> length (filter (\<lambda>t. \<not> expired t) (map decrement (activeTrends w))) < 3)
    \<and> length (activeTrends (world (simulateWeek w e))) \<le> 3"
proof -
  let ?kept = "filter (\<lambda>t. \<not> expired t) (map decrement (activeTrends w))"
  obtain new where n:
    "activeTrends (world (updateTrends (initialTick w e))) = ?kept @ new"
    "started (trendChanges (result (updateTrends (initialTick w e)))) = new"
    "ended (trendChanges (result (updateTrends (initialTick w e))))
        = rev (filter expired (map decrement (activeTrends w)))"
    "length new \<le> 1"
    "new \<noteq> [] \<longrightarrow> length ?kept < 3"
    using updateTrends_effect [of "initialTick w e"] by auto
  have k: "length ?kept \<le> length (activeTrends w)"
    using length_filter_le [of "\<lambda>t. \<not> expired t" "map decrement (activeTrends w)"] by simp
  have l: "length (?kept @ new) \<le> 3"
  proof (cases "new = []")
    case True
    have "length (?kept @ new) = length ?kept" using True by simp
    also have "\<dots> \<le> length (activeTrends w)" by (rule k)
    finally show ?thesis using assms by linarith
  next
    case False
    then show ?thesis using n(4,5) by simp
  qed
  have c: "\<forall>t. count_list (rev (filter expired (map decrement (activeTrends w)))) t
            = (if expired t then count_list (map decrement (activeTrends w)) t else 0)"
    by (simp add: count_list_filter)
  show ?thesis
    unfolding simulateWeek_trends n
    using n(4,5) l c by (intro exI [of _ new]) auto
qed

theorem trend_engine_tick_witness:
  "length (activeTrends trend_world) \<le> 3
   \<and> expired (decrement sample_trend)
   \<and> ended (trendChanges (result (simulateWeek trend_world sample_env))) = [decrement sample_trend]
   \<and> count_list (ended (trendChanges (result (simulateWeek trend_world sample_env))))
        (decrement sample_trend) = 1
   \<and> activeTrends (world (simulateWeek trend_world sample_env))
        = started (trendChanges (result (simulateWeek trend_world sample_env)))
   \<and> length (activeTrends (world (simulateWeek trend_world sample_env))) \<le> 1"
proof -
  have a: "activeTrends trend_world = [sample_trend]"
    by (simp add: trend_world_def)
  have x: "expired (decrement sample_trend)"
    by (simp add: expired_def decrement_def sample_trend_def)
  show ?thesis
    using trend_engine_tick [of trend_world sample_env] by (auto simp: a x)
qed

end
